theory Spec2Isabelle
  imports Main "HOL-Library.Log_Nat"
begin

section \<open>JavaScript values used by the evaluator\<close>

text \<open>
  A JavaScript string is modelled as the list of its code units (\<open>string\<close>). All texts the
  source fixes are ASCII. An optional property (\<open>element?: string\<close>) is an \<open>option\<close>,
  \<open>None\<close> standing for \<open>undefined\<close>. A thrown \<open>Error\<close> is a value of type \<open>error\<close>, and a
  function that may throw returns \<open>error + 'a\<close>.
\<close>

datatype error = Error string

text \<open>\<open>Array.prototype.indexOf\<close>: the first index holding the value, or \<open>-1\<close>.\<close>

fun indexOf :: "'a list \<Rightarrow> 'a \<Rightarrow> int" where
  "indexOf [] x = -1"
| "indexOf (y # ys) x =
     (if y = x then 0 else (let i = indexOf ys x in if i = -1 then -1 else i + 1))"

text \<open>\<open>String.prototype.startsWith\<close> and \<open>String.prototype.includes\<close>.\<close>

definition startsWith :: "string \<Rightarrow> string \<Rightarrow> bool" where
  "startsWith s p = (take (length p) s = p)"

fun str_includes :: "string \<Rightarrow> string \<Rightarrow> bool" where
  "str_includes [] p = (p = [])"
| "str_includes (c # cs) p = (startsWith (c # cs) p \<or> str_includes cs p)"

text \<open>
  \<open>s.replace(pat, rep)\<close> with a string pattern: the first occurrence of \<open>pat\<close> is replaced
  (the replacements used in the source contain no \<open>$\<close> pattern).
\<close>

fun replace :: "string \<Rightarrow> string \<Rightarrow> string \<Rightarrow> string" where
  "replace [] pat rep = (if pat = [] then rep else [])"
| "replace (c # cs) pat rep =
     (if startsWith (c # cs) pat then rep @ drop (length pat) (c # cs)
      else c # replace cs pat rep)"

text \<open>
  \<open>toLowerCase\<close> on code units below 256: the letters A-Z and the Latin-1 capitals
  move up by 32, every other unit is kept.
\<close>

definition lower_unit :: "char \<Rightarrow> char" where
  "lower_unit c =
     (let n = (of_char c :: nat) in
      if (65 \<le> n \<and> n \<le> 90) \<or> (192 \<le> n \<and> n \<le> 222 \<and> n \<noteq> 215)
      then char_of (n + 32) else c)"

definition toLowerCase :: "string \<Rightarrow> string" where
  "toLowerCase s = map lower_unit s"

text \<open>The class \<open>\s\<close> of a regular expression, on code units below 256.\<close>

definition is_space :: "char \<Rightarrow> bool" where
  "is_space c = ((of_char c :: nat) \<in> {9, 10, 11, 12, 13, 32, 160})"

text \<open>\<open>s.replace(/\s+/g, '-')\<close>: every maximal run of white space becomes one dash.\<close>

function replace_spaces :: "string \<Rightarrow> string" where
  "replace_spaces [] = []"
| "replace_spaces (c # cs) =
     (if is_space c then CHR ''-'' # replace_spaces (dropWhile is_space cs)
      else c # replace_spaces cs)"
  by pat_completeness auto
termination
  by (relation "measure length") (auto simp: length_dropWhile_le less_Suc_eq_le)

text \<open>
  The comparison \<open>a >= b\<close> of two strings: lexicographic on the code units, a proper
  prefix being smaller.
\<close>

fun str_less :: "string \<Rightarrow> string \<Rightarrow> bool" where
  "str_less [] [] = False"
| "str_less [] (y # ys) = True"
| "str_less (x # xs) [] = False"
| "str_less (x # xs) (y # ys) =
     ((of_char x :: nat) < of_char y \<or> (x = y \<and> str_less xs ys))"

definition str_ge :: "string \<Rightarrow> string \<Rightarrow> bool" where
  "str_ge a b = (\<not> str_less a b)"

text \<open>
  A \<open>Map\<close> keeps its entries in insertion order; \<open>set\<close> on a key that is present replaces
  the value in place. It is an association list whose keys are distinct.
\<close>

fun map_set :: "('k \<times> 'v) list \<Rightarrow> 'k \<Rightarrow> 'v \<Rightarrow> ('k \<times> 'v) list" where
  "map_set [] k v = [(k, v)]"
| "map_set ((k', v') # m) k v =
     (if k' = k then (k, v) # m else (k', v') # map_set m k v)"

definition map_get :: "('k \<times> 'v) list \<Rightarrow> 'k \<Rightarrow> 'v option" where
  "map_get m k = map_of m k"

definition map_has :: "('k \<times> 'v) list \<Rightarrow> 'k \<Rightarrow> bool" where
  "map_has m k = (map_of m k \<noteq> None)"

section \<open>Data model (types.ts)\<close>

record HowToFix =
  steps :: "string list"
  codeExample :: "string option"
  badExample :: "string option"
  goodExample :: "string option"

record Explanation =
  e_detailedExplanation :: string
  e_userImpact :: string
  e_why :: string
  e_assistiveTechnologyImpact :: string
  e_howToFix :: HowToFix
  e_relatedGuidelines :: "string list option"
  e_documentationLinks :: "string list option"

text \<open>
  \<open>AccessibilityIssue\<close>. The fields whose TypeScript type is a union of string literals
  hold the string itself, as they do when the program runs.
\<close>

record AccessibilityIssue =
  i_type :: string
  i_rule :: string
  i_message :: string
  i_element :: "string option"
  i_selector :: "string option"
  i_standard :: string
  i_level :: "string option"
  i_impact :: "string option"
  i_detailedExplanation :: "string option"
  i_userImpact :: "string option"
  i_howToFix :: "HowToFix option"
  i_why :: "string option"
  i_assistiveTechnologyImpact :: "string option"
  i_relatedGuidelines :: "string list option"
  i_documentationLinks :: "string list option"

record Summary =
  totalIssues :: nat
  errors :: nat
  warnings :: nat
  info :: nat
  byStandard :: "string \<rightharpoonup> nat"
  byImpact :: "string \<rightharpoonup> nat"

record EvaluationResult =
  issues :: "AccessibilityIssue list"
  summary :: Summary
  passedChecks :: "string list"

record WCAGCriterion =
  c_id :: string
  c_name :: string
  c_level :: string
  c_principle :: string
  c_guideline :: string
  c_techniques :: "string list"
  c_commonFailures :: "string list"

record DetailedScores =
  perceivable :: int
  operable :: int
  understandable :: int
  robust :: int

record WCAGComplianceReport =
  r_level :: string
  passedCriteria :: "WCAGCriterion list"
  failedCriteria :: "WCAGCriterion list"
  notApplicableCriteria :: "WCAGCriterion list"
  overallScore :: int
  detailedScores :: DetailedScores

section \<open>WCAGComplianceChecker (wcag-compliance-checker.ts)\<close>

text \<open>The checker object: its one field is the criteria map.\<close>

record WCAGComplianceChecker =
  criteria :: "(string \<times> WCAGCriterion) list"

definition crit ::
  "string \<Rightarrow> string \<Rightarrow> string \<Rightarrow> string \<Rightarrow> string \<Rightarrow> string list \<Rightarrow> string list
     \<Rightarrow> WCAGCriterion" where
  "crit i n l p g ts fs =
     \<lparr>c_id = i, c_name = n, c_level = l, c_principle = p, c_guideline = g,
      c_techniques = ts, c_commonFailures = fs\<rparr>"

text \<open>\<open>initializeCriteria\<close>: fifteen calls of \<open>this.criteria.set\<close>, in the source's order.\<close>

definition initializeCriteria :: "WCAGComplianceChecker \<Rightarrow> WCAGComplianceChecker" where
  "initializeCriteria this =
    (let m0 = criteria this;
      m1 = map_set m0 ''1.1.1'' (crit ''1.1.1'' ''Non-text Content'' ''A'' ''Perceivable''
        ''1.1 Text Alternatives'' [''H37'', ''H36'', ''H35'', ''H53'', ''ARIA6'', ''ARIA10'']
        [''F3'', ''F13'', ''F20'', ''F30'', ''F38'', ''F39'', ''F65'']);
      m2 = map_set m1 ''1.2.1'' (crit ''1.2.1'' ''Audio-only and Video-only (Prerecorded)'' ''A''
        ''Perceivable'' ''1.2 Time-based Media'' [''G158'', ''G159'', ''G166''] []);
      m3 = map_set m2 ''1.3.1'' (crit ''1.3.1'' ''Info and Relationships'' ''A'' ''Perceivable''
        ''1.3 Adaptable''
        [''ARIA11'', ''ARIA12'', ''ARIA13'', ''ARIA16'', ''ARIA17'', ''G115'', ''H39'', ''H42'',
         ''H43'', ''H44'', ''H48'']
        [''F2'', ''F33'', ''F34'', ''F42'', ''F43'', ''F46'']);
      m4 = map_set m3 ''1.4.1'' (crit ''1.4.1'' ''Use of Color'' ''A'' ''Perceivable''
        ''1.4 Distinguishable'' [''G14'', ''G111'', ''G182'', ''G183''] [''F13'', ''F73'', ''F81'']);
      m5 = map_set m4 ''2.1.1'' (crit ''2.1.1'' ''Keyboard'' ''A'' ''Operable''
        ''2.1 Keyboard Accessible'' [''G202'', ''H91'', ''SCR20'', ''SCR35'']
        [''F10'', ''F42'', ''F54'', ''F55'']);
      m6 = map_set m5 ''2.4.1'' (crit ''2.4.1'' ''Bypass Blocks'' ''A'' ''Operable''
        ''2.4 Navigable'' [''G1'', ''G123'', ''G124'', ''H69'', ''H70'', ''H64'', ''SCR28''] []);
      m7 = map_set m6 ''3.1.1'' (crit ''3.1.1'' ''Language of Page'' ''A'' ''Understandable''
        ''3.1 Readable'' [''H57''] []);
      m8 = map_set m7 ''4.1.1'' (crit ''4.1.1'' ''Parsing'' ''A'' ''Robust'' ''4.1 Compatible''
        [''G134'', ''G192'', ''H88'', ''H74'', ''H75'', ''H93'', ''H94''] [''F70'', ''F77'']);
      m9 = map_set m8 ''1.4.3'' (crit ''1.4.3'' ''Contrast (Minimum)'' ''AA'' ''Perceivable''
        ''1.4 Distinguishable'' [''G18'', ''G148'', ''G174'', ''G145''] [''F24'', ''F83'']);
      m10 = map_set m9 ''1.4.5'' (crit ''1.4.5'' ''Images of Text'' ''AA'' ''Perceivable''
        ''1.4 Distinguishable'' [''C22'', ''C30'', ''G140''] []);
      m11 = map_set m10 ''2.4.6'' (crit ''2.4.6'' ''Headings and Labels'' ''AA'' ''Operable''
        ''2.4 Navigable'' [''G130'', ''G131''] []);
      m12 = map_set m11 ''3.3.3'' (crit ''3.3.3'' ''Error Suggestion'' ''AA'' ''Understandable''
        ''3.3 Input Assistance'' [''G83'', ''G84'', ''G85'', ''G177'', ''SCR18'', ''SCR32''] []);
      m13 = map_set m12 ''1.4.6'' (crit ''1.4.6'' ''Contrast (Enhanced)'' ''AAA'' ''Perceivable''
        ''1.4 Distinguishable'' [''G17'', ''G18'', ''G148'', ''G174''] [''F24'', ''F83'']);
      m14 = map_set m13 ''2.4.9'' (crit ''2.4.9'' ''Link Purpose (Link Only)'' ''AAA'' ''Operable''
        ''2.4 Navigable'' [''ARIA7'', ''ARIA8'', ''H30'', ''H24''] []);
      m15 = map_set m14 ''3.1.5'' (crit ''3.1.5'' ''Reading Level'' ''AAA'' ''Understandable''
        ''3.1 Readable'' [''G86'', ''G103'', ''G79'', ''G153'', ''G160''] [])
     in this\<lparr>criteria := m15\<rparr>)"

text \<open>The constructor: an empty map, then \<open>initializeCriteria\<close>.\<close>

definition new_WCAGComplianceChecker :: WCAGComplianceChecker where
  "new_WCAGComplianceChecker = initializeCriteria \<lparr>criteria = []\<rparr>"

definition levelOrder :: "string list" where
  "levelOrder = [''A'', ''AA'', ''AAA'']"

text \<open>
  \<open>getApplicableCriteria\<close>: throws on a target level that \<open>levelOrder\<close> does not hold;
  otherwise walks the criteria map in its order and keeps the entries whose level index
  is at most the target's.
\<close>

definition getApplicableCriteria ::
  "WCAGComplianceChecker \<Rightarrow> string \<Rightarrow> error + (string \<times> WCAGCriterion) list" where
  "getApplicableCriteria this targetLevel =
     (let targetIndex = indexOf levelOrder targetLevel in
      if targetIndex = -1 then Inl (Error (''Invalid target level: '' @ targetLevel))
      else Inr (fold (\<lambda>(cid, criterion) applicableCriteria.
                  let criterionIndex = indexOf levelOrder (c_level criterion) in
                  if criterionIndex \<le> targetIndex
                  then map_set applicableCriteria cid criterion
                  else applicableCriteria)
                (criteria this) []))"

text \<open>
  \<open>isCriterionApplicable\<close>: some passed check str_includes the criterion's id, or its lower
  case str_includes the criterion's name in lower case with white space turned into dashes.
\<close>

definition isCriterionApplicable :: "WCAGCriterion \<Rightarrow> EvaluationResult \<Rightarrow> bool" where
  "isCriterionApplicable criterion evaluationResult =
     (let relatedChecks = filter (\<lambda>check.
            str_includes check (c_id criterion) \<or>
            str_includes (toLowerCase check) (replace_spaces (toLowerCase (c_name criterion))))
          (passedChecks evaluationResult)
      in length relatedChecks > 0)"

text \<open>
  The first loop of \<open>calculateComplianceLevel\<close>: \<open>for (i = 0; i <= targetIndex; i++)\<close>
  reads \<open>levelOrder[i]\<close>, so it runs over the first \<open>targetIndex + 1\<close> levels. \<open>Some l\<close> is
  the \<open>return l\<close> inside the loop, \<open>None\<close> the loop running to its end.
\<close>

fun failure_loop :: "WCAGCriterion list \<Rightarrow> string list \<Rightarrow> string option" where
  "failure_loop failed [] = None"
| "failure_loop failed (currentLevel # rest) =
     (let failuresAtLevel = filter (\<lambda>c. c_level c = currentLevel) failed in
      if length failuresAtLevel > 0 \<and> currentLevel = ''A'' then Some ''None''
      else if length failuresAtLevel > 0 \<and> currentLevel = ''AA'' then Some ''A''
      else if length failuresAtLevel > 0 \<and> currentLevel = ''AAA'' then Some ''AA''
      else failure_loop failed rest)"

definition calculateComplianceLevel ::
  "WCAGCriterion list \<Rightarrow> WCAGCriterion list \<Rightarrow> string \<Rightarrow> string" where
  "calculateComplianceLevel passed failed targetLevel =
     (let targetIndex = indexOf levelOrder targetLevel in
      case failure_loop failed (take (nat (targetIndex + 1)) levelOrder) of
        Some l \<Rightarrow> l
      | None \<Rightarrow>
         (let passedA = length (filter (\<lambda>c. c_level c = ''A'') passed);
              passedAA = length (filter (\<lambda>c. c_level c = ''AA'') passed);
              passedAAA = length (filter (\<lambda>c. c_level c = ''AAA'') passed)
          in if targetLevel = ''AAA'' \<and> passedAAA > 0 \<and> passedAA > 0 \<and> passedA > 0
             then ''AAA''
             else if str_ge targetLevel ''AA'' \<and> passedAA > 0 \<and> passedA > 0 then ''AA''
             else if passedA > 0 then ''A''
             else ''None''))"

text \<open>
  Numbers. A JavaScript number is an IEEE 754 double; the scores are computed with one
  division and one multiplication, each rounded to the nearest double (ties to the even
  mantissa), and \<open>Math.round\<close>. A double is represented by the rational it denotes,
  \<open>to_double\<close> rounds a rational to 53 significant bits. All values that occur lie between
  \<open>1/15\<close> and \<open>100\<close> or are zero, so subnormal numbers, overflow and the sign of zero play
  no part and are not modelled.
\<close>

definition pow2 :: "int \<Rightarrow> rat" where
  "pow2 e = (if e \<ge> 0 then 2 ^ nat e else 1 / 2 ^ nat (- e))"

text \<open>The exponent of a positive rational: \<open>pow2 (floor_log2 x) \<le> x < pow2 (floor_log2 x + 1)\<close>.\<close>

definition floor_log2 :: "rat \<Rightarrow> int" where
  "floor_log2 x =
     (let (a, b) = quotient_of x;
          d = bitlen a - bitlen b
      in if pow2 d \<le> x then d else d - 1)"

definition round_half_even :: "rat \<Rightarrow> int" where
  "round_half_even x =
     (let f = \<lfloor>x\<rfloor>; r = x - of_int f in
      if r < 1 / 2 then f else if r > 1 / 2 then f + 1
      else if even f then f else f + 1)"

definition to_double :: "rat \<Rightarrow> rat" where
  "to_double x =
     (if x = 0 then 0
      else let e = floor_log2 \<bar>x\<bar> - 52
           in of_int (round_half_even (x / pow2 e)) * pow2 e)"

definition js_div :: "rat \<Rightarrow> rat \<Rightarrow> rat" where
  "js_div x y = to_double (x / y)"

definition js_mul :: "rat \<Rightarrow> rat \<Rightarrow> rat" where
  "js_mul x y = to_double (x * y)"

text \<open>\<open>Math.round\<close>: the nearest integer, a tie going up.\<close>

definition Math_round :: "rat \<Rightarrow> int" where
  "Math_round x = \<lfloor>x + 1 / 2\<rfloor>"

text \<open>
  \<open>Math.round((a / b) * 100)\<close> on two array lengths, the expression of both score
  functions.
\<close>

definition percent :: "nat \<Rightarrow> nat \<Rightarrow> int" where
  "percent a b = Math_round (js_mul (js_div (of_nat a) (of_nat b)) 100)"

definition calculateOverallScore :: "WCAGCriterion list \<Rightarrow> WCAGCriterion list \<Rightarrow> int" where
  "calculateOverallScore passed failed =
     (let total_n = length passed + length failed in
      if total_n = 0 then 0 else percent (length passed) total_n)"

text \<open>One round of the \<open>principles.forEach\<close> of \<open>calculateDetailedScores\<close>; a score starts at 0.\<close>

definition principle_score :: "WCAGCriterion list \<Rightarrow> WCAGCriterion list \<Rightarrow> string \<Rightarrow> int" where
  "principle_score passed failed principle =
     (let passedInPrinciple = length (filter (\<lambda>c. c_principle c = principle) passed);
          failedInPrinciple = length (filter (\<lambda>c. c_principle c = principle) failed);
          totalInPrinciple = passedInPrinciple + failedInPrinciple
      in if totalInPrinciple > 0 then percent passedInPrinciple totalInPrinciple else 0)"

definition calculateDetailedScores ::
  "WCAGCriterion list \<Rightarrow> WCAGCriterion list \<Rightarrow> DetailedScores" where
  "calculateDetailedScores passed failed =
     \<lparr>perceivable = principle_score passed failed ''Perceivable'',
      operable = principle_score passed failed ''Operable'',
      understandable = principle_score passed failed ''Understandable'',
      robust = principle_score passed failed ''Robust''\<rparr>"

text \<open>
  The body of \<open>evaluationResult.issues.forEach\<close>: an issue whose rule starts with \<open>WCAG\<close> is
  pushed on the array stored under its rule with the first \<open>"WCAG "\<close> removed. The array is
  created when the key is new, so the \<open>get\<close> after it finds it.
\<close>

definition collect_issue ::
  "AccessibilityIssue \<Rightarrow> (string \<times> AccessibilityIssue list) list
     \<Rightarrow> (string \<times> AccessibilityIssue list) list" where
  "collect_issue issue criteriaIssues =
     (if startsWith (i_rule issue) ''WCAG'' then
        let criterionId = replace (i_rule issue) ''WCAG '' [];
            m = (if \<not> map_has criteriaIssues criterionId
                 then map_set criteriaIssues criterionId [] else criteriaIssues)
        in (case map_get m criterionId of
              Some arr \<Rightarrow> map_set m criterionId (arr @ [issue])
            | None \<Rightarrow> m)
      else criteriaIssues)"

text \<open>
  The body of \<open>applicableCriteria.forEach\<close>; the state is the three arrays
  \<open>(passedCriteria, failedCriteria, notApplicableCriteria)\<close>.
\<close>

definition classify ::
  "(string \<times> AccessibilityIssue list) list \<Rightarrow> EvaluationResult \<Rightarrow> string \<times> WCAGCriterion
     \<Rightarrow> WCAGCriterion list \<times> WCAGCriterion list \<times> WCAGCriterion list
     \<Rightarrow> WCAGCriterion list \<times> WCAGCriterion list \<times> WCAGCriterion list" where
  "classify criteriaIssues evaluationResult entry arrays =
     (case (entry, arrays) of ((cid, criterion), (passed, failed, notApplicable)) \<Rightarrow>
        let found = (case map_get criteriaIssues cid of Some arr \<Rightarrow> arr | None \<Rightarrow> []) in
        if length found > 0 then (passed, failed @ [criterion], notApplicable)
        else if isCriterionApplicable criterion evaluationResult
        then (passed @ [criterion], failed, notApplicable)
        else (passed, failed, notApplicable @ [criterion]))"

text \<open>
  \<open>evaluateCompliance(evaluationResult, targetLevel = 'AA')\<close>: the target level is \<open>None\<close>
  when the argument is left out, and the default applies.
\<close>

definition evaluateCompliance ::
  "WCAGComplianceChecker \<Rightarrow> EvaluationResult \<Rightarrow> string option
     \<Rightarrow> error + WCAGComplianceReport" where
  "evaluateCompliance this evaluationResult target =
     (let targetLevel = (case target of None \<Rightarrow> ''AA'' | Some t \<Rightarrow> t) in
      case getApplicableCriteria this targetLevel of
        Inl e \<Rightarrow> Inl e
      | Inr applicableCriteria \<Rightarrow>
         (let criteriaIssues = fold collect_issue (issues evaluationResult) [];
              (passed, failed, notApplicable) =
                 fold (classify criteriaIssues evaluationResult) applicableCriteria ([], [], []);
              level = calculateComplianceLevel passed failed targetLevel;
              score = calculateOverallScore passed failed;
              detailed = calculateDetailedScores passed failed
          in Inr \<lparr>r_level = level, passedCriteria = passed, failedCriteria = failed,
                  notApplicableCriteria = notApplicable, overallScore = score,
                  detailedScores = detailed\<rparr>))"

subsection \<open>An evaluation result to run the checker on\<close>

text \<open>
  One issue against criterion 1.1.1 (level A) and one passed check that names criterion
  1.4.3 (level AA).
\<close>

definition example_issue :: AccessibilityIssue where
  "example_issue =
     \<lparr>i_type = ''error'', i_rule = ''WCAG 1.1.1'',
      i_message = ''Images must have alternative text'',
      i_element = None, i_selector = None, i_standard = ''WCAG'', i_level = Some ''A'',
      i_impact = Some ''critical'', i_detailedExplanation = None, i_userImpact = None,
      i_howToFix = None, i_why = None, i_assistiveTechnologyImpact = None,
      i_relatedGuidelines = None, i_documentationLinks = None\<rparr>"

definition example_result :: EvaluationResult where
  "example_result =
     \<lparr>issues = [example_issue],
      summary = \<lparr>totalIssues = 1, errors = 1, warnings = 0, info = 0,
                 byStandard = [''WCAG'' \<mapsto> 1], byImpact = [''critical'' \<mapsto> 1]\<rparr>,
      passedChecks = [''WCAG: 1.4.3'']\<rparr>"

section \<open>The document tree (the DOM access layer)\<close>

text \<open>
  The tree that \<open>cheerio.load\<close> builds: an element has a tag name, its attributes and its
  child nodes; text and comment nodes are leaves. The attributes of an element are an
  object, read by name (\<open>map_of\<close>). A document is the list of the nodes under its root.
\<close>

datatype node =
    Element string "(string \<times> string) list" "node list"
  | Text string
  | Comment string

text \<open>\<open>el.tagName\<close>; the source reads it of elements only.\<close>

fun tagName :: "node \<Rightarrow> string" where
  "tagName (Element t a cs) = t"
| "tagName (Text s) = []"
| "tagName (Comment s) = []"

text \<open>\<open>$el.attr(name)\<close>: the attribute's value, \<open>None\<close> for \<open>undefined\<close>.\<close>

fun attr :: "node \<Rightarrow> string \<Rightarrow> string option" where
  "attr (Element t a cs) name = map_of a name"
| "attr (Text s) name = None"
| "attr (Comment s) name = None"

text \<open>
  The elements of a subtree in document order, each with its ancestors, the nearest
  first (an element of the tree knows its parent).
\<close>

fun walk :: "node list \<Rightarrow> node \<Rightarrow> (node \<times> node list) list" where
  "walk anc (Element t a cs) =
     (Element t a cs, anc) # concat (map (walk (Element t a cs # anc)) cs)"
| "walk anc (Text s) = []"
| "walk anc (Comment s) = []"

definition all_elements :: "node list \<Rightarrow> (node \<times> node list) list" where
  "all_elements doc = concat (map (walk []) doc)"

text \<open>
  The selectors that the source fixes are predicates on an element. \<open>$(selector)\<close> is the
  list of the matching elements in document order.
\<close>

definition query :: "(node \<Rightarrow> bool) \<Rightarrow> node list \<Rightarrow> (node \<times> node list) list" where
  "query sel doc = filter (\<lambda>(el, anc). sel el) (all_elements doc)"

text \<open>The selector \<open>name\<close> (a tag name), \<open>[name]\<close> and \<open>[name="value"]\<close>.\<close>

fun has_tag :: "string \<Rightarrow> node \<Rightarrow> bool" where
  "has_tag name (Element t a cs) = (t = name)"
| "has_tag name (Text s) = False"
| "has_tag name (Comment s) = False"

definition has_attr :: "string \<Rightarrow> node \<Rightarrow> bool" where
  "has_attr name el = (attr el name \<noteq> None)"

definition attr_is :: "string \<Rightarrow> string \<Rightarrow> node \<Rightarrow> bool" where
  "attr_is name v el = (attr el name = Some v)"

text \<open>\<open>$el.closest(selector).length > 0\<close>: the element or one of its ancestors matches.\<close>

definition closest_exists :: "(node \<Rightarrow> bool) \<Rightarrow> node \<times> node list \<Rightarrow> bool" where
  "closest_exists sel located = (case located of (el, anc) \<Rightarrow> filter sel (el # anc) \<noteq> [])"

text \<open>\<open>$el.find(selector)\<close>: the matching elements below the element.\<close>

definition find_below :: "(node \<Rightarrow> bool) \<Rightarrow> node \<Rightarrow> (node \<times> node list) list" where
  "find_below sel el =
     (case el of Element t a cs \<Rightarrow> query sel cs | Text s \<Rightarrow> [] | Comment s \<Rightarrow> [])"

text \<open>\<open>$el.text()\<close>: the text of the text nodes below the element, in order.\<close>

fun textContent :: "node \<Rightarrow> string" where
  "textContent (Element t a cs) = concat (map textContent cs)"
| "textContent (Text s) = s"
| "textContent (Comment s) = []"

text \<open>\<open>s.split(c)\<close> for a one-character separator, \<open>xs.join(sep)\<close>, and \<open>s.trim()\<close>.\<close>

fun split :: "string \<Rightarrow> char \<Rightarrow> string list" where
  "split [] c = [[]]"
| "split (x # xs) c =
     (if x = c then [] # split xs c
      else (case split xs c of [] \<Rightarrow> [[x]] | w # ws \<Rightarrow> (x # w) # ws))"

fun join :: "string list \<Rightarrow> string \<Rightarrow> string" where
  "join [] sep = []"
| "join [x] sep = x"
| "join (x # y # ys) sep = x @ sep @ join (y # ys) sep"

definition trim :: "string \<Rightarrow> string" where
  "trim s = rev (dropWhile is_space (rev (dropWhile is_space s)))"

text \<open>
  What the model takes from the libraries as it finds it: the parser (\<open>cheerio.load\<close>),
  the serializer (\<open>$el.prop('outerHTML')\<close>), and the selector engine on a selector that
  the source assembles from text of the document (\<open>$(`#${id}`)\<close>,
  \<open>$(`label[for="${id}"]`)\<close>), which gives the number of matches or throws on a selector it
  cannot parse.
\<close>

record cheerio =
  load :: "string \<Rightarrow> node list"
  outerHTML :: "node \<Rightarrow> string"
  count_matches :: "string \<Rightarrow> node list \<Rightarrow> error + nat"

text \<open>A loop whose body may throw: the first throw ends it.\<close>

fun fold_throwing :: "('a \<Rightarrow> 's \<Rightarrow> error + 's) \<Rightarrow> 'a list \<Rightarrow> 's \<Rightarrow> error + 's" where
  "fold_throwing body [] s = Inr s"
| "fold_throwing body (x # xs) s =
     (case body x s of Inl e \<Rightarrow> Inl e | Inr s' \<Rightarrow> fold_throwing body xs s')"

section \<open>ARIAValidator (aria-validator.ts)\<close>

record ARIARole =
  ro_name :: string
  ro_category :: string
  ro_requiredProperties :: "string list"
  ro_supportedProperties :: "string list"
  ro_requiredParent :: "string list option"
  ro_requiredChildren :: "string list option"
  ro_implicitSemantics :: "string option"

text \<open>
  \<open>ARIAValidationIssue\<close>: the six fields that \<open>validate\<close> sets, and the explanation that
  \<open>ARIAExplanationGenerator.enhanceIssue\<close> adds to a copy of the issue.
\<close>

record ARIAExplanation =
  x_detailedExplanation :: "string option"
  x_userImpact :: "string option"
  x_why :: "string option"
  x_assistiveTechnologyImpact :: "string option"
  x_howToFix :: "HowToFix option"
  x_relatedGuidelines :: "string list"
  x_documentationLinks :: "string list"

record ARIAValidationIssue =
  a_type :: string
  a_element :: string
  a_selector :: string
  a_message :: string
  a_recommendation :: string
  a_specification :: string
  a_explanation :: "ARIAExplanation option"

record Statistics =
  totalARIAElements :: nat
  rolesUsed :: "string list"
  propertiesUsed :: "string list"
  statesUsed :: "string list"

record ARIAValidationResult =
  ar_issues :: "ARIAValidationIssue list"
  ar_validUsages :: "string list"
  ar_statistics :: Statistics

text \<open>
  A \<open>Set\<close> of strings keeps its members in insertion order: a list without repetition.
\<close>

definition set_add :: "string list \<Rightarrow> string \<Rightarrow> string list" where
  "set_add xs x = (if x \<in> set xs then xs else xs @ [x])"

definition new_Set :: "string list \<Rightarrow> string list" where
  "new_Set xs = fold (\<lambda>x s. set_add s x) xs []"

text \<open>The validator object.\<close>

record ARIAValidator =
  roles :: "(string \<times> ARIARole) list"
  properties :: "string list"
  states :: "string list"

definition role_spec ::
  "string \<Rightarrow> string \<Rightarrow> string list \<Rightarrow> string list \<Rightarrow> string list option
     \<Rightarrow> string list option \<Rightarrow> string option \<Rightarrow> ARIARole" where
  "role_spec n c rq sp pa ch im =
     \<lparr>ro_name = n, ro_category = c, ro_requiredProperties = rq,
      ro_supportedProperties = sp, ro_requiredParent = pa, ro_requiredChildren = ch,
      ro_implicitSemantics = im\<rparr>"

text \<open>\<open>initializeARIASpec\<close>: twelve roles, the properties and the states.\<close>

definition initializeARIASpec :: "ARIAValidator \<Rightarrow> ARIAValidator" where
  "initializeARIASpec this =
    (let r0 = roles this;
      r1 = map_set r0 ''button'' (role_spec ''button'' ''widget'' []
        [''aria-expanded'', ''aria-pressed'', ''aria-disabled''] None None (Some ''button''));
      r2 = map_set r1 ''checkbox'' (role_spec ''checkbox'' ''widget'' [''aria-checked'']
        [''aria-required'', ''aria-readonly'', ''aria-disabled''] None None None);
      r3 = map_set r2 ''navigation'' (role_spec ''navigation'' ''landmark'' []
        [''aria-label'', ''aria-labelledby''] None None None);
      r4 = map_set r3 ''main'' (role_spec ''main'' ''landmark'' []
        [''aria-label'', ''aria-labelledby''] None None None);
      r5 = map_set r4 ''complementary'' (role_spec ''complementary'' ''landmark'' []
        [''aria-label'', ''aria-labelledby''] None None None);
      r6 = map_set r5 ''menu'' (role_spec ''menu'' ''widget'' []
        [''aria-orientation'', ''aria-activedescendant''] None
        (Some [''menuitem'', ''menuitemcheckbox'', ''menuitemradio'']) None);
      r7 = map_set r6 ''menuitem'' (role_spec ''menuitem'' ''widget'' []
        [''aria-disabled'', ''aria-expanded'', ''aria-haspopup'']
        (Some [''menu'', ''menubar'']) None None);
      r8 = map_set r7 ''alert'' (role_spec ''alert'' ''widget'' []
        [''aria-live'', ''aria-atomic''] None None None);
      r9 = map_set r8 ''dialog'' (role_spec ''dialog'' ''window'' []
        [''aria-modal'', ''aria-label'', ''aria-labelledby'', ''aria-describedby'']
        None None None);
      r10 = map_set r9 ''tablist'' (role_spec ''tablist'' ''widget'' []
        [''aria-orientation''] None (Some [''tab'']) None);
      r11 = map_set r10 ''tab'' (role_spec ''tab'' ''widget'' []
        [''aria-selected'', ''aria-controls''] (Some [''tablist'']) None None);
      r12 = map_set r11 ''tabpanel'' (role_spec ''tabpanel'' ''widget'' []
        [''aria-labelledby''] None None None)
     in this\<lparr>roles := r12,
         properties := new_Set
           [''aria-label'', ''aria-labelledby'', ''aria-describedby'', ''aria-controls'',
            ''aria-haspopup'', ''aria-expanded'', ''aria-hidden'', ''aria-invalid'',
            ''aria-required'', ''aria-readonly'', ''aria-disabled'', ''aria-checked'',
            ''aria-selected'', ''aria-pressed'', ''aria-level'', ''aria-valuemin'',
            ''aria-valuemax'', ''aria-valuenow'', ''aria-valuetext'', ''aria-orientation'',
            ''aria-live'', ''aria-atomic'', ''aria-relevant'', ''aria-busy'', ''aria-modal'',
            ''aria-activedescendant'', ''aria-owns'', ''aria-flowto'', ''aria-posinset'',
            ''aria-setsize'', ''aria-rowcount'', ''aria-colcount''],
         states := new_Set
           [''aria-busy'', ''aria-checked'', ''aria-disabled'', ''aria-expanded'',
            ''aria-grabbed'', ''aria-hidden'', ''aria-invalid'', ''aria-pressed'',
            ''aria-selected'']\<rparr>)"

definition new_ARIAValidator :: ARIAValidator where
  "new_ARIAValidator = initializeARIASpec \<lparr>roles = [], properties = [], states = []\<rparr>"

text \<open>A value in a condition: \<open>undefined\<close> and the empty string count as false.\<close>

definition truthy :: "string option \<Rightarrow> bool" where
  "truthy v = (case v of None \<Rightarrow> False | Some s \<Rightarrow> s \<noteq> [])"

text \<open>
  The part of both \<open>getSelector\<close> methods that reads the \<open>class\<close> attribute: \<open>Some\<close> of the
  selector it returns, \<open>None\<close> when it falls through to the tag name.
\<close>

definition class_selector :: "node \<Rightarrow> string option" where
  "class_selector el =
     (case attr el ''class'' of
        None \<Rightarrow> None
      | Some classes \<Rightarrow>
          if classes = [] then None
          else let classList = filter (\<lambda>c. trim c \<noteq> []) (split classes CHR '' '') in
               if length classList > 0 then Some (tagName el @ ''.'' @ join classList ''.'')
               else None)"

text \<open>\<open>ARIAValidator.getSelector\<close>: the id, else the role, else the classes, else the tag.\<close>

definition ARIAValidator_getSelector :: "node \<Rightarrow> string" where
  "ARIAValidator_getSelector el =
     (if truthy (attr el ''id'') then ''#'' @ the (attr el ''id'')
      else if truthy (attr el ''role'') then ''[role=\"'' @ the (attr el ''role'') @ ''\"]''
      else (case class_selector el of Some s \<Rightarrow> s | None \<Rightarrow> tagName el))"

text \<open>
  The object literal that a check pushes for an element: its outer HTML cut at 100 code
  units, its selector, and \<open>specification: 'WAI-ARIA 1.2'\<close>.
\<close>

definition element_issue ::
  "cheerio \<Rightarrow> string \<Rightarrow> node \<Rightarrow> string \<Rightarrow> string \<Rightarrow> ARIAValidationIssue" where
  "element_issue api ty el msg recommendation =
     \<lparr>a_type = ty, a_element = take 100 (outerHTML api el),
      a_selector = ARIAValidator_getSelector el, a_message = msg,
      a_recommendation = recommendation, a_specification = ''WAI-ARIA 1.2'',
      a_explanation = None\<rparr>"

definition push_issue :: "ARIAValidationIssue \<Rightarrow> ARIAValidationResult \<Rightarrow> ARIAValidationResult" where
  "push_issue i st = st\<lparr>ar_issues := ar_issues st @ [i]\<rparr>"

text \<open>
  The body of \<open>$('[role]').each\<close>, in the source's three parts: the required properties
  of a known role, its parent requirement, and the whole body. The element was selected
  by \<open>[role]\<close>, so the attribute is there; \<open>this.roles.has(role)\<close> and \<open>this.roles.get(role)\<close>
  are one lookup.
\<close>

definition check_required_properties ::
  "cheerio \<Rightarrow> node \<Rightarrow> string \<Rightarrow> ARIARole \<Rightarrow> ARIAValidationResult \<Rightarrow> ARIAValidationResult" where
  "check_required_properties api el role roleSpec st =
     fold (\<lambda>prop s.
         if attr el prop = None
         then push_issue (element_issue api ''error'' el
            (''Missing required property \"'' @ prop @ ''\" for role=\"'' @ role @ ''\"'')
            (''Add '' @ prop @ '' attribute to elements with role=\"'' @ role @ ''\"'')) s
         else s)
       (ro_requiredProperties roleSpec) st"

definition check_parent_requirements ::
  "cheerio \<Rightarrow> node \<times> node list \<Rightarrow> string \<Rightarrow> ARIARole \<Rightarrow> ARIAValidationResult
     \<Rightarrow> ARIAValidationResult" where
  "check_parent_requirements api located role roleSpec st =
     (case ro_requiredParent roleSpec of
        None \<Rightarrow> st
      | Some requiredParent \<Rightarrow>
          let hasValidParent = list_ex (\<lambda>parentRole.
                closest_exists (attr_is ''role'' parentRole) located) requiredParent
          in if \<not> hasValidParent
             then push_issue (element_issue api ''error'' (fst located)
                (''Role \"'' @ role @ ''\" must be contained within one of: ''
                   @ join requiredParent '', '')
                (''Place this element inside an element with role=\"''
                   @ (case requiredParent of [] \<Rightarrow> ''undefined'' | r # _ \<Rightarrow> r) @ ''\"'')) st
             else st)"

definition count_role :: "string \<Rightarrow> ARIAValidationResult \<Rightarrow> ARIAValidationResult" where
  "count_role role st =
     st\<lparr>ar_statistics := (ar_statistics st)
          \<lparr>rolesUsed := set_add (rolesUsed (ar_statistics st)) role,
           totalARIAElements := totalARIAElements (ar_statistics st) + 1\<rparr>\<rparr>"

definition push_validUsage :: "string \<Rightarrow> ARIAValidationResult \<Rightarrow> ARIAValidationResult" where
  "push_validUsage u st = st\<lparr>ar_validUsages := ar_validUsages st @ [u]\<rparr>"

definition check_role ::
  "ARIAValidator \<Rightarrow> cheerio \<Rightarrow> node \<times> node list \<Rightarrow> ARIAValidationResult
     \<Rightarrow> ARIAValidationResult" where
  "check_role this api located st =
     (case attr (fst located) ''role'' of
        None \<Rightarrow> st
      | Some role \<Rightarrow>
          (case map_get (roles this) role of
             None \<Rightarrow>
               push_issue (element_issue api ''error'' (fst located)
                 (''Invalid ARIA role: \"'' @ role @ ''\"'')
                 ''Use a valid ARIA role from the WAI-ARIA specification'') (count_role role st)
           | Some roleSpec \<Rightarrow>
               push_validUsage
                 (''Correct use of role=\"'' @ role @ ''\" on ''
                    @ ARIAValidator_getSelector (fst located))
                 (check_parent_requirements api located role roleSpec
                   (check_required_properties api (fst located) role roleSpec
                     (count_role role st)))))"

text \<open>
  One id of an \<open>aria-labelledby\<close> value: \<open>$(`#${id}`).length === 0\<close>, on a selector made
  from the id.
\<close>

definition check_id_reference ::
  "cheerio \<Rightarrow> node list \<Rightarrow> node \<Rightarrow> string \<Rightarrow> ARIAValidationResult
     \<Rightarrow> error + ARIAValidationResult" where
  "check_id_reference api doc el ident st =
     (case count_matches api (''#'' @ ident) doc of
        Inl e \<Rightarrow> Inl e
      | Inr n \<Rightarrow>
          Inr (if n = 0
               then push_issue (element_issue api ''error'' el
                  (''aria-labelledby references non-existent ID: \"'' @ ident @ ''\"'')
                  (''Ensure element with id=\"'' @ ident @ ''\" exists in the document'')) st
               else st))"

text \<open>The body of \<open>$(`[${prop}]`).each\<close> for one property.\<close>

definition count_property :: "string \<Rightarrow> ARIAValidationResult \<Rightarrow> ARIAValidationResult" where
  "count_property prop st =
     st\<lparr>ar_statistics := (ar_statistics st)
          \<lparr>propertiesUsed := set_add (propertiesUsed (ar_statistics st)) prop\<rparr>\<rparr>"

definition check_empty_value ::
  "cheerio \<Rightarrow> string \<Rightarrow> node \<Rightarrow> ARIAValidationResult \<Rightarrow> ARIAValidationResult" where
  "check_empty_value api prop el st =
     (if attr el prop = Some []
      then push_issue (element_issue api ''warning'' el
         (''Empty value for '' @ prop)
         (''Provide a meaningful value for '' @ prop @ '' or remove the attribute'')) st
      else st)"

definition check_property ::
  "cheerio \<Rightarrow> node list \<Rightarrow> string \<Rightarrow> node \<times> node list \<Rightarrow> ARIAValidationResult
     \<Rightarrow> error + ARIAValidationResult" where
  "check_property api doc prop located st =
     (let el = fst located;
          st2 = check_empty_value api prop el (count_property prop st)
      in (case attr el prop of
            Some ids_text \<Rightarrow>
              if prop = ''aria-labelledby'' \<and> ids_text \<noteq> []
              then fold_throwing (check_id_reference api doc el) (split ids_text CHR '' '') st2
              else Inr st2
          | None \<Rightarrow> Inr st2))"

definition check_properties ::
  "ARIAValidator \<Rightarrow> cheerio \<Rightarrow> node list \<Rightarrow> ARIAValidationResult
     \<Rightarrow> error + ARIAValidationResult" where
  "check_properties this api doc st =
     fold_throwing
       (\<lambda>prop. fold_throwing (check_property api doc prop) (query (has_attr prop) doc))
       (properties this) st"

text \<open>
  \<open>button[role="button"], nav[role="navigation"], main[role="main"],
  aside[role="complementary"]\<close>.
\<close>

definition redundant_role :: "node \<Rightarrow> bool" where
  "redundant_role el =
     ((has_tag ''button'' el \<and> attr_is ''role'' ''button'' el) \<or>
      (has_tag ''nav'' el \<and> attr_is ''role'' ''navigation'' el) \<or>
      (has_tag ''main'' el \<and> attr_is ''role'' ''main'' el) \<or>
      (has_tag ''aside'' el \<and> attr_is ''role'' ''complementary'' el))"

definition check_redundant ::
  "cheerio \<Rightarrow> node list \<Rightarrow> ARIAValidationResult \<Rightarrow> ARIAValidationResult" where
  "check_redundant api doc st =
     fold (\<lambda>(el, anc) s.
         push_issue (element_issue api ''warning'' el
           (''Redundant ARIA role on '' @ tagName el @ '' element'')
           ''Remove redundant role attribute as the element has implicit semantics'') s)
       (query redundant_role doc) st"

text \<open>
  \<open>a[href], button, input, select, textarea, [tabindex]:not([tabindex="-1"])\<close>.
\<close>

definition focusable :: "node \<Rightarrow> bool" where
  "focusable el =
     ((has_tag ''a'' el \<and> has_attr ''href'' el) \<or> has_tag ''button'' el \<or>
      has_tag ''input'' el \<or> has_tag ''select'' el \<or> has_tag ''textarea'' el \<or>
      (has_attr ''tabindex'' el \<and> \<not> attr_is ''tabindex'' ''-1'' el))"

definition check_hidden ::
  "cheerio \<Rightarrow> node list \<Rightarrow> ARIAValidationResult \<Rightarrow> ARIAValidationResult" where
  "check_hidden api doc st =
     fold (\<lambda>(el, anc) s.
         if focusable el \<or> length (find_below focusable el) > 0
         then push_issue (element_issue api ''error'' el
           ''aria-hidden=\"true\" on focusable element or container with focusable children''
           ''Remove aria-hidden or make element and children non-focusable'') s
         else s)
       (query (attr_is ''aria-hidden'' ''true'') doc) st"

definition landmarks :: "string list" where
  "landmarks = [''main'', ''navigation'', ''complementary'', ''banner'', ''contentinfo'']"

text \<open>The issue that a landmark check pushes: it names no single element.\<close>

definition landmark_issue :: "string \<Rightarrow> string \<Rightarrow> string \<Rightarrow> string \<Rightarrow> ARIAValidationIssue" where
  "landmark_issue ty landmark msg recommendation =
     \<lparr>a_type = ty, a_element = ''Multiple elements'',
      a_selector = ''[role=\"'' @ landmark @ ''\"]'', a_message = msg,
      a_recommendation = recommendation, a_specification = ''WAI-ARIA 1.2'',
      a_explanation = None\<rparr>"

text \<open>
  An element counts as unlabeled when \<open>!$(el).attr('aria-label') &&
  !$(el).attr('aria-labelledby')\<close>: each attribute is missing or empty.
\<close>

definition unlabeled_landmark :: "node \<Rightarrow> bool" where
  "unlabeled_landmark el =
     (\<not> truthy (attr el ''aria-label'') \<and> \<not> truthy (attr el ''aria-labelledby''))"

text \<open>The template \<open>`Multiple ${landmark} landmarks without unique labels`\<close>.\<close>

definition landmark_warning_message :: "string \<Rightarrow> string" where
  "landmark_warning_message landmark =
     ''Multiple '' @ landmark @ '' landmarks without unique labels''"

text \<open>The body of \<open>landmarks.forEach\<close>.\<close>

definition check_landmark ::
  "node list \<Rightarrow> string \<Rightarrow> ARIAValidationResult \<Rightarrow> ARIAValidationResult" where
  "check_landmark doc landmark st =
     (let found = length (query (attr_is ''role'' landmark) doc) in
      if found > 1 \<and> landmark = ''main''
      then push_issue (landmark_issue ''error'' landmark ''Multiple main landmarks found''
             ''Use only one main landmark per page'') st
      else if found > 1
      then (let unlabeled = length (filter (\<lambda>(el, anc). unlabeled_landmark el)
                                     (query (attr_is ''role'' landmark) doc))
            in if unlabeled > 0
               then push_issue (landmark_issue ''warning'' landmark
                      (landmark_warning_message landmark)
                      (''Add aria-label or aria-labelledby to distinguish between '' @ landmark
                         @ '' landmarks'')) st
               else st)
      else st)"

text \<open>
  \<open>ARIAExplanationGenerator.enhanceIssue\<close>: a copy of the issue with the explanation
  fields set. The static method reads its argument only; which texts it picks (by the
  issue's message) is the function \<open>explain\<close>, taken as it is.
\<close>

definition enhanceIssue ::
  "(ARIAValidationIssue \<Rightarrow> ARIAExplanation) \<Rightarrow> ARIAValidationIssue \<Rightarrow> ARIAValidationIssue" where
  "enhanceIssue explain issue = issue\<lparr>a_explanation := Some (explain issue)\<rparr>"

definition initial_result :: ARIAValidationResult where
  "initial_result =
     \<lparr>ar_issues = [], ar_validUsages = [],
      ar_statistics = \<lparr>totalARIAElements = 0, rolesUsed = [], propertiesUsed = [],
                        statesUsed = []\<rparr>\<rparr>"

text \<open>
  \<open>validate(html)\<close>, on the validator object \<open>this\<close>. It returns what the call gives (a
  result, or the error thrown) together with the validator object after the call.
\<close>

definition validate ::
  "ARIAValidator \<Rightarrow> cheerio \<Rightarrow> (ARIAValidationIssue \<Rightarrow> ARIAExplanation) \<Rightarrow> string
     \<Rightarrow> (error + ARIAValidationResult) \<times> ARIAValidator" where
  "validate this api explain html =
     (let doc = load api html;
          st1 = fold (check_role this api) (query (has_attr ''role'') doc) initial_result
      in (case check_properties this api doc st1 of
            Inl e \<Rightarrow> (Inl e, this)
          | Inr st2 \<Rightarrow>
              let st3 = check_redundant api doc st2;
                  st4 = check_hidden api doc st3;
                  st5 = fold (check_landmark doc) landmarks st4;
                  enhancedIssues = map (enhanceIssue explain) (ar_issues st5)
              in (Inr (st5\<lparr>ar_issues := enhancedIssues\<rparr>), this)))"

text \<open>
  Two notions for the proofs. Before the landmark checks no issue's message starts with
  \<open>Multiple\<close> and \<open>statesUsed\<close> is empty; and the issues that the check of one landmark
  pushes are those it pushes on the empty state.
\<close>

definition quiet :: "ARIAValidationResult \<Rightarrow> bool" where
  "quiet st =
     (list_all (\<lambda>i. \<not> startsWith (a_message i) ''Multiple '') (ar_issues st) \<and>
      statesUsed (ar_statistics st) = [])"

definition landmark_findings :: "node list \<Rightarrow> string \<Rightarrow> ARIAValidationIssue list" where
  "landmark_findings doc landmark = ar_issues (check_landmark doc landmark initial_result)"

subsection \<open>A document to run the validator on\<close>

text \<open>
  Two elements with the role \<open>main\<close>, two \<open>nav\<close> elements with the role \<open>navigation\<close> and an
  empty \<open>aria-label\<close>, and an element that carries the states \<open>aria-checked\<close> and
  \<open>aria-hidden\<close>; the tree is the parse of the text. The selector engine of the example
  finds no element for any id, and the example's explanation sets the two fields that
  \<open>enhanceIssue\<close> sets for every issue.
\<close>

definition example_html :: string where
  "example_html =
     ''<main role=\"main\">A</main><div role=\"main\">B</div>'' @
     ''<nav role=\"navigation\" aria-label=\"\">C</nav>'' @
     ''<nav role=\"navigation\" aria-label=\"\">D</nav>'' @
     ''<div role=\"checkbox\" aria-checked=\"true\" aria-hidden=\"true\">E</div>''"

definition example_document :: "node list" where
  "example_document =
     [Element ''html'' []
       [Element ''head'' [] [],
        Element ''body'' []
         [Element ''main'' [(''role'', ''main'')] [Text ''A''],
          Element ''div'' [(''role'', ''main'')] [Text ''B''],
          Element ''nav'' [(''role'', ''navigation''), (''aria-label'', [])] [Text ''C''],
          Element ''nav'' [(''role'', ''navigation''), (''aria-label'', [])] [Text ''D''],
          Element ''div'' [(''role'', ''checkbox''), (''aria-checked'', ''true''),
                           (''aria-hidden'', ''true'')] [Text ''E'']]]]"

definition example_api :: cheerio where
  "example_api =
     \<lparr>load = (\<lambda>html. if html = example_html then example_document else []),
      outerHTML = (\<lambda>el. ''<'' @ tagName el @ ''>''),
      count_matches = (\<lambda>selector doc. Inr 0)\<rparr>"

definition example_explain :: "ARIAValidationIssue \<Rightarrow> ARIAExplanation" where
  "example_explain issue =
     \<lparr>x_detailedExplanation = None, x_userImpact = None, x_why = None,
      x_assistiveTechnologyImpact = None, x_howToFix = None,
      x_relatedGuidelines = [''WAI-ARIA 1.2 Specification'',
        ''WCAG 2.1 Success Criterion 4.1.2 Name, Role, Value''],
      x_documentationLinks = [''https://www.w3.org/TR/wai-aria-1.2/'',
        ''https://developer.mozilla.org/en-US/docs/Web/Accessibility/ARIA'',
        ''https://www.w3.org/WAI/ARIA/apg/'']\<rparr>"

section \<open>ARIAValidator on a store of objects\<close>

text \<open>
  The objects that \<open>validate\<close> reads and writes, kept in a store, so that what a call
  leaves behind is there for the next call. An address is an index into the store, and a
  new object goes to its end. The store holds the validator object with its three fields,
  the \<open>Map\<close> and the \<open>Set\<close> objects that these refer to, and what a call creates: the arrays
  \<open>issues\<close>, \<open>validUsages\<close> and \<open>enhancedIssues\<close>, the three \<open>Set\<close> objects of the statistics,
  the \<open>statistics\<close> object and the object returned. An issue and a role specification are
  values inside their array and their \<open>Map\<close>: \<open>validate\<close> writes to neither after it has
  made the one and looked up the other.
\<close>

type_synonym address = nat

datatype object =
    MapObject "(string \<times> ARIARole) list"
  | SetObject "string list"
  | IssueArray "ARIAValidationIssue list"
  | StringArray "string list"
  | StatisticsObject nat address address address
  | ValidatorObject address address address
  | ResultObject address address address

type_synonym store = "object list"

definition alloc :: "object \<Rightarrow> store \<Rightarrow> address \<times> store" where
  "alloc v h = (length h, h @ [v])"

definition deref :: "store \<Rightarrow> address \<Rightarrow> object option" where
  "deref h a = (if a < length h then Some (h ! a) else None)"

definition modify :: "address \<Rightarrow> (object \<Rightarrow> object) \<Rightarrow> store \<Rightarrow> store" where
  "modify a f h = (if a < length h then h[a := f (h ! a)] else h)"

text \<open>
  The methods that write: \<open>push\<close> on the two kinds of array, \<open>add\<close> on a \<open>Set\<close>, and \<open>++\<close> on
  the count of the statistics. In the program an address always holds an object of the
  type that the method belongs to; on any other object the model changes nothing.
\<close>

fun pushed_issue :: "ARIAValidationIssue \<Rightarrow> object \<Rightarrow> object" where
  "pushed_issue i (IssueArray xs) = IssueArray (xs @ [i])"
| "pushed_issue i v = v"

fun pushed_string :: "string \<Rightarrow> object \<Rightarrow> object" where
  "pushed_string u (StringArray xs) = StringArray (xs @ [u])"
| "pushed_string u v = v"

fun added :: "string \<Rightarrow> object \<Rightarrow> object" where
  "added x (SetObject xs) = SetObject (set_add xs x)"
| "added x v = v"

fun incremented :: "object \<Rightarrow> object" where
  "incremented (StatisticsObject n ru pu su) = StatisticsObject (n + 1) ru pu su"
| "incremented v = v"

text \<open>
  What the fields of the validator object refer to: the entries of \<open>this.roles\<close> and the
  members of \<open>this.properties\<close>, read from the store when the statement runs.
\<close>

definition this_roles :: "store \<Rightarrow> address \<Rightarrow> (string \<times> ARIARole) list" where
  "this_roles h this =
     (case deref h this of
        Some (ValidatorObject r p s) \<Rightarrow>
          (case deref h r of Some (MapObject m) \<Rightarrow> m | _ \<Rightarrow> [])
      | _ \<Rightarrow> [])"

definition this_properties :: "store \<Rightarrow> address \<Rightarrow> string list" where
  "this_properties h this =
     (case deref h this of
        Some (ValidatorObject r p s) \<Rightarrow>
          (case deref h p of Some (SetObject xs) \<Rightarrow> xs | _ \<Rightarrow> [])
      | _ \<Rightarrow> [])"

text \<open>
  The constants \<open>issues\<close>, \<open>validUsages\<close> and \<open>statistics\<close> of a call: the addresses of the
  objects it has created.
\<close>

record locals =
  l_issues :: address
  l_validUsages :: address
  l_statistics :: address

text \<open>
  \<open>issues.push(i)\<close>, \<open>validUsages.push(u)\<close>, \<open>statistics.rolesUsed.add(role)\<close>,
  \<open>statistics.propertiesUsed.add(prop)\<close> and \<open>statistics.totalARIAElements++\<close>.
\<close>

definition push_issue_store :: "locals \<Rightarrow> ARIAValidationIssue \<Rightarrow> store \<Rightarrow> store" where
  "push_issue_store l i h = modify (l_issues l) (pushed_issue i) h"

definition push_validUsage_store :: "locals \<Rightarrow> string \<Rightarrow> store \<Rightarrow> store" where
  "push_validUsage_store l u h = modify (l_validUsages l) (pushed_string u) h"

definition rolesUsed_add :: "locals \<Rightarrow> string \<Rightarrow> store \<Rightarrow> store" where
  "rolesUsed_add l role h =
     (case deref h (l_statistics l) of
        Some (StatisticsObject n ru pu su) \<Rightarrow> modify ru (added role) h
      | _ \<Rightarrow> h)"

definition propertiesUsed_add :: "locals \<Rightarrow> string \<Rightarrow> store \<Rightarrow> store" where
  "propertiesUsed_add l prop h =
     (case deref h (l_statistics l) of
        Some (StatisticsObject n ru pu su) \<Rightarrow> modify pu (added prop) h
      | _ \<Rightarrow> h)"

definition totalARIAElements_increment :: "locals \<Rightarrow> store \<Rightarrow> store" where
  "totalARIAElements_increment l h = modify (l_statistics l) incremented h"

text \<open>
  A loop on the store whose body may throw: the first throw ends it, and the store is
  the one at the throw.
\<close>

fun each_throwing ::
  "('a \<Rightarrow> 's \<Rightarrow> error option \<times> 's) \<Rightarrow> 'a list \<Rightarrow> 's \<Rightarrow> error option \<times> 's" where
  "each_throwing body [] s = (None, s)"
| "each_throwing body (x # xs) s =
     (case body x s of
        (Some e, s') \<Rightarrow> (Some e, s')
      | (None, s') \<Rightarrow> each_throwing body xs s')"

text \<open>The body of \<open>$('[role]').each\<close>, statement by statement.\<close>

definition check_required_properties_store ::
  "cheerio \<Rightarrow> locals \<Rightarrow> node \<Rightarrow> string \<Rightarrow> ARIARole \<Rightarrow> store \<Rightarrow> store" where
  "check_required_properties_store api l el role roleSpec h =
     fold (\<lambda>prop s.
         if attr el prop = None
         then push_issue_store l (element_issue api ''error'' el
            (''Missing required property \"'' @ prop @ ''\" for role=\"'' @ role @ ''\"'')
            (''Add '' @ prop @ '' attribute to elements with role=\"'' @ role @ ''\"'')) s
         else s)
       (ro_requiredProperties roleSpec) h"

definition check_parent_requirements_store ::
  "cheerio \<Rightarrow> locals \<Rightarrow> node \<times> node list \<Rightarrow> string \<Rightarrow> ARIARole \<Rightarrow> store \<Rightarrow> store" where
  "check_parent_requirements_store api l located role roleSpec h =
     (case ro_requiredParent roleSpec of
        None \<Rightarrow> h
      | Some requiredParent \<Rightarrow>
          let hasValidParent = list_ex (\<lambda>parentRole.
                closest_exists (attr_is ''role'' parentRole) located) requiredParent
          in if \<not> hasValidParent
             then push_issue_store l (element_issue api ''error'' (fst located)
                (''Role \"'' @ role @ ''\" must be contained within one of: ''
                   @ join requiredParent '', '')
                (''Place this element inside an element with role=\"''
                   @ (case requiredParent of [] \<Rightarrow> ''undefined'' | r # _ \<Rightarrow> r) @ ''\"'')) h
             else h)"

definition check_role_store ::
  "address \<Rightarrow> cheerio \<Rightarrow> locals \<Rightarrow> node \<times> node list \<Rightarrow> store \<Rightarrow> store" where
  "check_role_store this api l located h =
     (case attr (fst located) ''role'' of
        None \<Rightarrow> h
      | Some role \<Rightarrow>
          let h1 = totalARIAElements_increment l (rolesUsed_add l role h) in
          (case map_get (this_roles h1 this) role of
             None \<Rightarrow>
               push_issue_store l (element_issue api ''error'' (fst located)
                 (''Invalid ARIA role: \"'' @ role @ ''\"'')
                 ''Use a valid ARIA role from the WAI-ARIA specification'') h1
           | Some roleSpec \<Rightarrow>
               push_validUsage_store l
                 (''Correct use of role=\"'' @ role @ ''\" on ''
                    @ ARIAValidator_getSelector (fst located))
                 (check_parent_requirements_store api l located role roleSpec
                   (check_required_properties_store api l (fst located) role roleSpec h1))))"

text \<open>The body of \<open>$(`[${prop}]`).each\<close> and the loop around it.\<close>

definition check_id_reference_store ::
  "cheerio \<Rightarrow> locals \<Rightarrow> node list \<Rightarrow> node \<Rightarrow> string \<Rightarrow> store \<Rightarrow> error option \<times> store" where
  "check_id_reference_store api l doc el ident h =
     (case count_matches api (''#'' @ ident) doc of
        Inl e \<Rightarrow> (Some e, h)
      | Inr n \<Rightarrow>
          (None,
           if n = 0
           then push_issue_store l (element_issue api ''error'' el
              (''aria-labelledby references non-existent ID: \"'' @ ident @ ''\"'')
              (''Ensure element with id=\"'' @ ident @ ''\" exists in the document'')) h
           else h))"

definition check_empty_value_store ::
  "cheerio \<Rightarrow> locals \<Rightarrow> string \<Rightarrow> node \<Rightarrow> store \<Rightarrow> store" where
  "check_empty_value_store api l prop el h =
     (if attr el prop = Some []
      then push_issue_store l (element_issue api ''warning'' el
         (''Empty value for '' @ prop)
         (''Provide a meaningful value for '' @ prop @ '' or remove the attribute'')) h
      else h)"

definition check_property_store ::
  "cheerio \<Rightarrow> locals \<Rightarrow> node list \<Rightarrow> string \<Rightarrow> node \<times> node list \<Rightarrow> store
     \<Rightarrow> error option \<times> store" where
  "check_property_store api l doc prop located h =
     (let el = fst located;
          h2 = check_empty_value_store api l prop el (propertiesUsed_add l prop h)
      in (case attr el prop of
            Some ids_text \<Rightarrow>
              if prop = ''aria-labelledby'' \<and> ids_text \<noteq> []
              then each_throwing (check_id_reference_store api l doc el)
                     (split ids_text CHR '' '') h2
              else (None, h2)
          | None \<Rightarrow> (None, h2)))"

text \<open>
  \<open>this.properties.forEach\<close> visits the members that the \<open>Set\<close> has; the body adds to
  \<open>statistics.propertiesUsed\<close> and pushes to \<open>issues\<close>, so the members are those at the
  start of the loop.
\<close>

definition check_properties_store ::
  "address \<Rightarrow> cheerio \<Rightarrow> locals \<Rightarrow> node list \<Rightarrow> store \<Rightarrow> error option \<times> store" where
  "check_properties_store this api l doc h =
     each_throwing
       (\<lambda>prop. each_throwing (check_property_store api l doc prop) (query (has_attr prop) doc))
       (this_properties h this) h"

text \<open>The three loops that follow.\<close>

definition check_redundant_store :: "cheerio \<Rightarrow> locals \<Rightarrow> node list \<Rightarrow> store \<Rightarrow> store" where
  "check_redundant_store api l doc h =
     fold (\<lambda>(el, anc) s.
         push_issue_store l (element_issue api ''warning'' el
           (''Redundant ARIA role on '' @ tagName el @ '' element'')
           ''Remove redundant role attribute as the element has implicit semantics'') s)
       (query redundant_role doc) h"

definition check_hidden_store :: "cheerio \<Rightarrow> locals \<Rightarrow> node list \<Rightarrow> store \<Rightarrow> store" where
  "check_hidden_store api l doc h =
     fold (\<lambda>(el, anc) s.
         if focusable el \<or> length (find_below focusable el) > 0
         then push_issue_store l (element_issue api ''error'' el
           ''aria-hidden=\"true\" on focusable element or container with focusable children''
           ''Remove aria-hidden or make element and children non-focusable'') s
         else s)
       (query (attr_is ''aria-hidden'' ''true'') doc) h"

definition check_landmark_store :: "locals \<Rightarrow> node list \<Rightarrow> string \<Rightarrow> store \<Rightarrow> store" where
  "check_landmark_store l doc landmark h =
     (let found = length (query (attr_is ''role'' landmark) doc) in
      if found > 1 \<and> landmark = ''main''
      then push_issue_store l (landmark_issue ''error'' landmark ''Multiple main landmarks found''
             ''Use only one main landmark per page'') h
      else if found > 1
      then (let unlabeled = length (filter (\<lambda>(el, anc). unlabeled_landmark el)
                                     (query (attr_is ''role'' landmark) doc))
            in if unlabeled > 0
               then push_issue_store l (landmark_issue ''warning'' landmark
                      (landmark_warning_message landmark)
                      (''Add aria-label or aria-labelledby to distinguish between '' @ landmark
                         @ '' landmarks'')) h
               else h)
      else h)"

text \<open>The elements of the array at an address, for \<open>issues.map\<close>.\<close>

definition issue_array :: "store \<Rightarrow> address \<Rightarrow> ARIAValidationIssue list" where
  "issue_array h a = (case deref h a of Some (IssueArray xs) \<Rightarrow> xs | _ \<Rightarrow> [])"

text \<open>
  \<open>validate(html)\<close> on the validator object at the address \<open>this\<close>. The call creates its
  arrays, the three \<open>Set\<close> objects and the \<open>statistics\<close> object, runs the five checks on
  them, and returns the address of a new object that refers to \<open>enhancedIssues\<close>,
  \<open>validUsages\<close> and \<open>statistics\<close>; or it ends with the error thrown. In both cases the
  store is the one that the call leaves.
\<close>

definition validate_store ::
  "address \<Rightarrow> cheerio \<Rightarrow> (ARIAValidationIssue \<Rightarrow> ARIAExplanation) \<Rightarrow> string \<Rightarrow> store
     \<Rightarrow> (error + address) \<times> store" where
  "validate_store this api explain html h =
     (let doc = load api html;
          (issues, h1) = alloc (IssueArray []) h;
          (validUsages, h2) = alloc (StringArray []) h1;
          (ru, h3) = alloc (SetObject []) h2;
          (pu, h4) = alloc (SetObject []) h3;
          (su, h5) = alloc (SetObject []) h4;
          (statistics, h6) = alloc (StatisticsObject 0 ru pu su) h5;
          l = \<lparr>l_issues = issues, l_validUsages = validUsages, l_statistics = statistics\<rparr>;
          h7 = fold (check_role_store this api l) (query (has_attr ''role'') doc) h6
      in (case check_properties_store this api l doc h7 of
            (Some e, h8) \<Rightarrow> (Inl e, h8)
          | (None, h8) \<Rightarrow>
              let h9 = check_redundant_store api l doc h8;
                  h10 = check_hidden_store api l doc h9;
                  h11 = fold (check_landmark_store l doc) landmarks h10;
                  (enhancedIssues, h12) =
                     alloc (IssueArray (map (enhanceIssue explain) (issue_array h11 issues))) h11;
                  (result, h13) = alloc (ResultObject enhancedIssues validUsages statistics) h12
              in (Inr result, h13)))"

text \<open>
  Reading the store: the validator that an address holds, and the result that a call
  has returned, with the contents of every object they refer to. \<open>None\<close> when an address
  holds no object of the type.
\<close>

definition validator_at :: "store \<Rightarrow> address \<Rightarrow> ARIAValidator option" where
  "validator_at h this =
     (case deref h this of
        Some (ValidatorObject r p s) \<Rightarrow>
          (case (deref h r, deref h p, deref h s) of
             (Some (MapObject m), Some (SetObject ps), Some (SetObject ss)) \<Rightarrow>
               Some \<lparr>roles = m, properties = ps, states = ss\<rparr>
           | _ \<Rightarrow> None)
      | _ \<Rightarrow> None)"

definition statistics_at :: "store \<Rightarrow> address \<Rightarrow> Statistics option" where
  "statistics_at h a =
     (case deref h a of
        Some (StatisticsObject n ru pu su) \<Rightarrow>
          (case (deref h ru, deref h pu, deref h su) of
             (Some (SetObject rs), Some (SetObject ps), Some (SetObject ss)) \<Rightarrow>
               Some \<lparr>totalARIAElements = n, rolesUsed = rs, propertiesUsed = ps,
                     statesUsed = ss\<rparr>
           | _ \<Rightarrow> None)
      | _ \<Rightarrow> None)"

definition result_at :: "store \<Rightarrow> address \<Rightarrow> ARIAValidationResult option" where
  "result_at h a =
     (case deref h a of
        Some (ResultObject i u s) \<Rightarrow>
          (case (deref h i, deref h u, statistics_at h s) of
             (Some (IssueArray is), Some (StringArray us), Some stats) \<Rightarrow>
               Some \<lparr>ar_issues = is, ar_validUsages = us, ar_statistics = stats\<rparr>
           | _ \<Rightarrow> None)
      | _ \<Rightarrow> None)"

definition outcome :: "store \<Rightarrow> error + address \<Rightarrow> (error + ARIAValidationResult) option" where
  "outcome h out =
     (case out of
        Inl e \<Rightarrow> Some (Inl e)
      | Inr a \<Rightarrow> map_option Inr (result_at h a))"

text \<open>
  For the proofs: the store \<open>h\<close> of a call that began on the store \<open>h0\<close>. Every object of
  \<open>h0\<close> is as it was, and the six objects that the call created first hold the state \<open>st\<close>
  of the checks.
\<close>

definition locals_of :: "store \<Rightarrow> locals" where
  "locals_of h0 =
     \<lparr>l_issues = length h0, l_validUsages = length h0 + 1, l_statistics = length h0 + 5\<rparr>"

definition call_state :: "store \<Rightarrow> ARIAValidationResult \<Rightarrow> store \<Rightarrow> bool" where
  "call_state h0 st h =
     (take (length h0) h = h0 \<and> length h0 + 6 \<le> length h \<and>
      h ! length h0 = IssueArray (ar_issues st) \<and>
      h ! (length h0 + 1) = StringArray (ar_validUsages st) \<and>
      h ! (length h0 + 2) = SetObject (rolesUsed (ar_statistics st)) \<and>
      h ! (length h0 + 3) = SetObject (propertiesUsed (ar_statistics st)) \<and>
      h ! (length h0 + 4) = SetObject (statesUsed (ar_statistics st)) \<and>
      h ! (length h0 + 5) =
         StatisticsObject (totalARIAElements (ar_statistics st))
           (length h0 + 2) (length h0 + 3) (length h0 + 4))"

text \<open>
  A store that holds a validator as the constructor leaves it: the \<open>Map\<close> of the roles,
  the two \<open>Set\<close> objects, and the validator object at the address 3.
\<close>

definition example_store :: store where
  "example_store =
     [MapObject (roles new_ARIAValidator), SetObject (properties new_ARIAValidator),
      SetObject (states new_ARIAValidator), ValidatorObject 0 1 2]"

text \<open>
  The same for a loop that may throw: after a throw every object of \<open>h0\<close> is as it was,
  and the error is the one that the checks on values give.
\<close>

definition call_outcome ::
  "store \<Rightarrow> error + ARIAValidationResult \<Rightarrow> error option \<times> store \<Rightarrow> bool" where
  "call_outcome h0 out res =
     (case out of
        Inl e \<Rightarrow> fst res = Some e \<and> take (length h0) (snd res) = h0
      | Inr st \<Rightarrow> fst res = None \<and> call_state h0 st (snd res))"

section \<open>AccessibilityEvaluator (accessibility-evaluator.ts)\<close>

text \<open>
  A rule's \<open>check($)\<close>: \<open>$\<close> is the library with the loaded document. A check returns its
  issues, or throws.
\<close>

type_synonym rule_check = "cheerio \<Rightarrow> node list \<Rightarrow> error + AccessibilityIssue list"

record AccessibilityEvaluator =
  wcagRules :: "(string \<times> rule_check) list"
  ariaRules :: "(string \<times> rule_check) list"

text \<open>\<open>AccessibilityEvaluator.getSelector\<close>: the id, else the classes, else the tag.\<close>

definition getSelector :: "node \<Rightarrow> string" where
  "getSelector el =
     (if truthy (attr el ''id'') then ''#'' @ the (attr el ''id'')
      else (case class_selector el of Some s \<Rightarrow> s | None \<Rightarrow> tagName el))"

text \<open>The object literal that a rule pushes; the explanation fields are not set yet.\<close>

definition rule_issue ::
  "string \<Rightarrow> string \<Rightarrow> string \<Rightarrow> string option \<Rightarrow> string option \<Rightarrow> string \<Rightarrow> string option
     \<Rightarrow> string option \<Rightarrow> AccessibilityIssue" where
  "rule_issue ty rule msg element selector standard level impact =
     \<lparr>i_type = ty, i_rule = rule, i_message = msg, i_element = element,
      i_selector = selector, i_standard = standard, i_level = level, i_impact = impact,
      i_detailedExplanation = None, i_userImpact = None, i_howToFix = None, i_why = None,
      i_assistiveTechnologyImpact = None, i_relatedGuidelines = None,
      i_documentationLinks = None\<rparr>"

subsection \<open>The rule images-alt-text\<close>

text \<open>\<open>$el.attr("role")?.includes("presentation")\<close>, as a condition.\<close>

definition presentation_like :: "node \<Rightarrow> bool" where
  "presentation_like el =
     (case attr el ''role'' of None \<Rightarrow> False | Some role \<Rightarrow> str_includes role ''presentation'')"

text \<open>The body of \<open>$("img").each\<close>, on the array \<open>issues\<close>.\<close>

definition images_alt_text_body ::
  "cheerio \<Rightarrow> node \<times> node list \<Rightarrow> AccessibilityIssue list \<Rightarrow> AccessibilityIssue list" where
  "images_alt_text_body api located found =
     (let el = fst located; alt = attr el ''alt'' in
      if alt = None \<and> \<not> presentation_like el
      then found @ [rule_issue ''error'' ''WCAG 1.1.1'' ''Images must have alternative text''
                      (Some (take 100 (outerHTML api el))) (Some (getSelector el))
                      ''WCAG'' (Some ''A'') (Some ''critical'')]
      else found)"

definition images_alt_text :: rule_check where
  "images_alt_text api doc =
     Inr (fold (images_alt_text_body api) (query (has_tag ''img'') doc) [])"

subsection \<open>The rule headings-structure\<close>

definition is_heading :: "node \<Rightarrow> bool" where
  "is_heading el = (tagName el \<in> set [''h1'', ''h2'', ''h3'', ''h4'', ''h5'', ''h6''])"

text \<open>\<open>parseInt(element.tagName.charAt(1))\<close> of a heading, and the digit back as text.\<close>

definition heading_level :: "node \<Rightarrow> nat" where
  "heading_level el = (case tagName el of _ # d # _ \<Rightarrow> of_char d - 48 | _ \<Rightarrow> 0)"

definition digit_text :: "nat \<Rightarrow> string" where
  "digit_text n = [char_of (48 + n)]"

text \<open>The body of the loop, on \<open>issues\<close> and \<open>lastLevel\<close>.\<close>

definition headings_structure_body ::
  "node \<times> node list \<Rightarrow> AccessibilityIssue list \<times> nat \<Rightarrow> AccessibilityIssue list \<times> nat" where
  "headings_structure_body located st =
     (case st of (found, lastLevel) \<Rightarrow>
        let el = fst located; level = heading_level el in
        (if lastLevel \<noteq> 0 \<and> level > lastLevel + 1
         then found @ [rule_issue ''warning'' ''WCAG 1.3.1''
                 (''Heading levels should not skip (found h'' @ digit_text level @ '' after h''
                    @ digit_text lastLevel @ '')'')
                 (Some (take 50 (textContent el))) (Some (getSelector el))
                 ''WCAG'' (Some ''A'') (Some ''moderate'')]
         else found,
         level))"

definition headings_structure :: rule_check where
  "headings_structure api doc =
     Inr (fst (fold headings_structure_body (query is_heading doc) ([], 0)))"

subsection \<open>The rule form-labels\<close>

definition is_form_control :: "node \<Rightarrow> bool" where
  "is_form_control el = (tagName el \<in> set [''input'', ''select'', ''textarea''])"

text \<open>
  The body of the loop. The label is looked up with a selector made from the element's
  id, \<open>$(`label[for="${id}"]`)\<close>, which the selector engine may refuse.
\<close>

definition form_labels_body ::
  "cheerio \<Rightarrow> node list \<Rightarrow> node \<times> node list \<Rightarrow> AccessibilityIssue list
     \<Rightarrow> error + AccessibilityIssue list" where
  "form_labels_body api doc located found =
     (let el = fst located; ty = attr el ''type'' in
      if ty = Some ''submit'' \<or> ty = Some ''button'' \<or> ty = Some ''hidden'' then Inr found
      else
        (case (if truthy (attr el ''id'')
               then (case count_matches api (''label[for=\"'' @ the (attr el ''id'') @ ''\"]'') doc of
                       Inl e \<Rightarrow> Inl e | Inr n \<Rightarrow> Inr (n > 0))
               else Inr False) of
           Inl e \<Rightarrow> Inl e
         | Inr hasLabel \<Rightarrow>
             Inr (if \<not> hasLabel \<and> \<not> truthy (attr el ''aria-label'')
                     \<and> \<not> truthy (attr el ''aria-labelledby'')
                  then found @ [rule_issue ''error'' ''WCAG 1.3.1''
                          ''Form controls must have associated labels''
                          (Some (take 100 (outerHTML api el))) (Some (getSelector el))
                          ''WCAG'' (Some ''A'') (Some ''critical'')]
                  else found)))"

definition form_labels :: rule_check where
  "form_labels api doc =
     fold_throwing (form_labels_body api doc) (query is_form_control doc) []"

subsection \<open>The rule aria-required-attr\<close>

text \<open>
  \<open>requiredAttributes[role]\<close> is a property read on an object literal: for a role that
  names a property of \<open>Object.prototype\<close> it gives that property, which is not an array,
  and \<open>.forEach\<close> on it throws a \<open>TypeError\<close>.
\<close>

definition Object_prototype_names :: "string list" where
  "Object_prototype_names =
     [''constructor'', ''hasOwnProperty'', ''isPrototypeOf'', ''propertyIsEnumerable'',
      ''toLocaleString'', ''toString'', ''valueOf'', ''__proto__'', ''__defineGetter__'',
      ''__defineSetter__'', ''__lookupGetter__'', ''__lookupSetter__'']"

definition requiredAttributes :: "(string \<times> string list) list" where
  "requiredAttributes =
     [(''checkbox'', [''aria-checked'']),
      (''combobox'', [''aria-expanded'']),
      (''scrollbar'', [''aria-valuenow'', ''aria-valuemin'', ''aria-valuemax'']),
      (''slider'', [''aria-valuenow'', ''aria-valuemin'', ''aria-valuemax''])]"

definition aria_required_attr_body ::
  "cheerio \<Rightarrow> node \<times> node list \<Rightarrow> AccessibilityIssue list \<Rightarrow> error + AccessibilityIssue list" where
  "aria_required_attr_body api located found =
     (let el = fst located in
      case attr el ''role'' of
        None \<Rightarrow> Inr found
      | Some role \<Rightarrow>
          if role = [] then Inr found
          else (case map_of requiredAttributes role of
                  Some attrs \<Rightarrow>
                    Inr (fold (\<lambda>a acc.
                           if attr el a = None
                           then acc @ [rule_issue ''error'' ''ARIA Required Attributes''
                                  (''Elements with role=\"'' @ role @ ''\" must have '' @ a
                                     @ '' attribute'')
                                  (Some (take 100 (outerHTML api el))) (Some (getSelector el))
                                  ''ARIA'' None (Some ''serious'')]
                           else acc) attrs found)
                | None \<Rightarrow>
                    if role \<in> set Object_prototype_names
                    then Inl (Error ''TypeError: requiredAttributes[role].forEach is not a function'')
                    else Inr found))"

definition aria_required_attr :: rule_check where
  "aria_required_attr api doc =
     fold_throwing (aria_required_attr_body api) (query (has_attr ''role'') doc) []"

subsection \<open>The rule aria-valid-values\<close>

definition validValues :: "(string \<times> string list) list" where
  "validValues =
     [(''aria-checked'', [''true'', ''false'', ''mixed'']),
      (''aria-disabled'', [''true'', ''false'']),
      (''aria-expanded'', [''true'', ''false'']),
      (''aria-hidden'', [''true'', ''false'']),
      (''aria-invalid'', [''true'', ''false'', ''grammar'', ''spelling''])]"

definition aria_valid_values_body ::
  "cheerio \<Rightarrow> string \<times> string list \<Rightarrow> node \<times> node list \<Rightarrow> AccessibilityIssue list
     \<Rightarrow> AccessibilityIssue list" where
  "aria_valid_values_body api entry located found =
     (case entry of (a, valid) \<Rightarrow>
        let el = fst located in
        (case attr el a of
           None \<Rightarrow> found
         | Some v \<Rightarrow>
             if v \<noteq> [] \<and> v \<notin> set valid
             then found @ [rule_issue ''error'' ''ARIA Valid Values''
                     (''Invalid value for '' @ a @ '': \"'' @ v @ ''\". Valid values are: ''
                        @ join valid '', '')
                     (Some (take 100 (outerHTML api el))) (Some (getSelector el))
                     ''ARIA'' None (Some ''serious'')]
             else found))"

definition aria_valid_values :: rule_check where
  "aria_valid_values api doc =
     Inr (fold (\<lambda>entry found.
            fold (aria_valid_values_body api entry) (query (has_attr (fst entry)) doc) found)
          validValues [])"

subsection \<open>The registry\<close>

definition initializeRules :: "AccessibilityEvaluator \<Rightarrow> AccessibilityEvaluator" where
  "initializeRules this =
     (let w1 = map_set (wcagRules this) ''images-alt-text'' images_alt_text;
          w2 = map_set w1 ''headings-structure'' headings_structure;
          w3 = map_set w2 ''form-labels'' form_labels;
          a1 = map_set (ariaRules this) ''aria-required-attr'' aria_required_attr;
          a2 = map_set a1 ''aria-valid-values'' aria_valid_values
      in this\<lparr>wcagRules := w3, ariaRules := a2\<rparr>)"

definition new_AccessibilityEvaluator :: AccessibilityEvaluator where
  "new_AccessibilityEvaluator = initializeRules \<lparr>wcagRules = [], ariaRules = []\<rparr>"

subsection \<open>The axe-core collaborator\<close>

record AxeNode =
  n_html :: string
  n_target :: "string list"
  n_impact :: "string option"

record AxeViolation =
  v_id :: string
  v_description :: string
  v_nodes :: "AxeNode list"

text \<open>
  The two calls into the libraries, each awaited where it is made: \<open>new JSDOM(html)\<close>
  gives a document or throws, \<open>axe.run(document, axeConfig)\<close> gives the violations or
  rejects.
\<close>

record 'd axe_core =
  new_JSDOM :: "string \<Rightarrow> error + 'd"
  axe_run :: "'d \<Rightarrow> error + AxeViolation list"

text \<open>
  The function mapped over \<open>results.violations\<close>; it reads \<open>violation.nodes[0]\<close> and throws
  on a violation without nodes.
\<close>

definition violation_issue :: "AxeViolation \<Rightarrow> error + AccessibilityIssue" where
  "violation_issue violation =
     (case v_nodes violation of
        [] \<Rightarrow> Inl (Error ''TypeError: Cannot read properties of undefined'')
      | n # _ \<Rightarrow>
          Inr (rule_issue ''error'' (v_id violation) (v_description violation)
                 (Some (n_html n)) (Some (join (n_target n) '' '')) ''AXE'' None (n_impact n)))"

fun map_throwing :: "('a \<Rightarrow> error + 'b) \<Rightarrow> 'a list \<Rightarrow> error + 'b list" where
  "map_throwing f [] = Inr []"
| "map_throwing f (x # xs) =
     (case f x of
        Inl e \<Rightarrow> Inl e
      | Inr y \<Rightarrow> (case map_throwing f xs of Inl e \<Rightarrow> Inl e | Inr ys \<Rightarrow> Inr (y # ys)))"

text \<open>
  \<open>runAxeCore\<close>: the document is built outside the \<open>try\<close>, so a throw of \<open>new JSDOM\<close>
  leaves the function; a rejection of \<open>axe.run\<close> and a throw while mapping are caught
  and give the empty array.
\<close>

definition runAxeCore :: "'d axe_core \<Rightarrow> string \<Rightarrow> error + AccessibilityIssue list" where
  "runAxeCore axe html =
     (case new_JSDOM axe html of
        Inl e \<Rightarrow> Inl e
      | Inr document \<Rightarrow>
          (case axe_run axe document of
             Inl e \<Rightarrow> Inr []
           | Inr violations \<Rightarrow>
               (case map_throwing violation_issue violations of
                  Inl e \<Rightarrow> Inr []
                | Inr found \<Rightarrow> Inr found)))"

subsection \<open>evaluateHTML\<close>

text \<open>
  \<open>ExplanationGenerator.enhanceIssue\<close>: the explanation stored under the issue's rule, or
  the one under \<open>default\<close>, is spread over a copy of the issue. The table of texts
  (\<open>explanations.issues.rules\<close> of constants.ts) is taken as it is; an explanation without
  \<open>relatedGuidelines\<close> or \<open>documentationLinks\<close> leaves the issue's own.
\<close>

definition spread_explanation :: "AccessibilityIssue \<Rightarrow> Explanation \<Rightarrow> AccessibilityIssue" where
  "spread_explanation issue explanation =
     issue\<lparr>i_detailedExplanation := Some (e_detailedExplanation explanation),
           i_userImpact := Some (e_userImpact explanation),
           i_why := Some (e_why explanation),
           i_assistiveTechnologyImpact := Some (e_assistiveTechnologyImpact explanation),
           i_howToFix := Some (e_howToFix explanation),
           i_relatedGuidelines :=
             (case e_relatedGuidelines explanation of
                Some g \<Rightarrow> Some g | None \<Rightarrow> i_relatedGuidelines issue),
           i_documentationLinks :=
             (case e_documentationLinks explanation of
                Some l \<Rightarrow> Some l | None \<Rightarrow> i_documentationLinks issue)\<rparr>"

definition ExplanationGenerator_enhanceIssue ::
  "(string \<times> Explanation) list \<Rightarrow> AccessibilityIssue \<Rightarrow> AccessibilityIssue" where
  "ExplanationGenerator_enhanceIssue explanationMap issue =
     (case (case map_of explanationMap (i_rule issue) of
              Some explanation \<Rightarrow> Some explanation
            | None \<Rightarrow> map_of explanationMap ''default'') of
        Some explanation \<Rightarrow> spread_explanation issue explanation
      | None \<Rightarrow> issue)"

text \<open>
  One round of \<open>for (const [ruleName, rule] of rules)\<close>, on \<open>issues\<close> and \<open>passedChecks\<close>;
  a check that throws ends \<open>evaluateHTML\<close>.
\<close>

definition run_rule ::
  "string \<Rightarrow> cheerio \<Rightarrow> node list \<Rightarrow> string \<times> rule_check
     \<Rightarrow> AccessibilityIssue list \<times> string list
     \<Rightarrow> error + AccessibilityIssue list \<times> string list" where
  "run_rule standard api doc entry st =
     (case (entry, st) of ((ruleName, check), (found, passed)) \<Rightarrow>
        (case check api doc of
           Inl e \<Rightarrow> Inl e
         | Inr ruleIssues \<Rightarrow>
             if length ruleIssues = 0
             then Inr (found, passed @ [standard @ '': '' @ ruleName])
             else Inr (found @ ruleIssues, passed)))"

text \<open>The two loops over the registered rules, WCAG first.\<close>

definition run_rules ::
  "AccessibilityEvaluator \<Rightarrow> cheerio \<Rightarrow> node list
     \<Rightarrow> error + AccessibilityIssue list \<times> string list" where
  "run_rules this api doc =
     (case fold_throwing (run_rule ''WCAG'' api doc) (wcagRules this) ([], []) of
        Inl e \<Rightarrow> Inl e
      | Inr st \<Rightarrow> fold_throwing (run_rule ''ARIA'' api doc) (ariaRules this) st)"

text \<open>\<open>summary.byStandard[key] = (summary.byStandard[key] || 0) + 1\<close>.\<close>

definition count_up :: "(string \<rightharpoonup> nat) \<Rightarrow> string \<Rightarrow> (string \<rightharpoonup> nat)" where
  "count_up m k = m(k \<mapsto> (case m k of None \<Rightarrow> 0 | Some n \<Rightarrow> n) + 1)"

definition summarize :: "AccessibilityIssue list \<Rightarrow> Summary" where
  "summarize enhancedIssues =
     \<lparr>totalIssues = length enhancedIssues,
      errors = length (filter (\<lambda>i. i_type i = ''error'') enhancedIssues),
      warnings = length (filter (\<lambda>i. i_type i = ''warning'') enhancedIssues),
      info = length (filter (\<lambda>i. i_type i = ''info'') enhancedIssues),
      byStandard = fold (\<lambda>issue m. count_up m (i_standard issue)) enhancedIssues Map.empty,
      byImpact = fold (\<lambda>issue m.
                   if truthy (i_impact issue) then count_up m (the (i_impact issue)) else m)
                 enhancedIssues Map.empty\<rparr>"

text \<open>
  \<open>evaluateHTML\<close>: the rules, then axe-core inside \<open>try\<close>/\<open>catch\<close> (a throw of \<open>runAxeCore\<close>
  is logged and adds nothing), then the explanations and the summary.
\<close>

definition evaluateHTML ::
  "AccessibilityEvaluator \<Rightarrow> cheerio \<Rightarrow> 'd axe_core \<Rightarrow> (string \<times> Explanation) list \<Rightarrow> string
     \<Rightarrow> error + EvaluationResult" where
  "evaluateHTML this api axe explanationMap html =
     (let doc = load api html in
      case run_rules this api doc of
        Inl e \<Rightarrow> Inl e
      | Inr (found, passed) \<Rightarrow>
          let found' = (case runAxeCore axe html of
                          Inr axeResults \<Rightarrow> found @ axeResults
                        | Inl e \<Rightarrow> found);
              enhancedIssues = map (ExplanationGenerator_enhanceIssue explanationMap) found'
          in Inr \<lparr>issues = enhancedIssues, summary = summarize enhancedIssues,
                  passedChecks = passed\<rparr>)"

text \<open>The axe-core collaborator fails: \<open>new JSDOM\<close> throws, or \<open>axe.run\<close> rejects.\<close>

definition axe_fails :: "'d axe_core \<Rightarrow> string \<Rightarrow> bool" where
  "axe_fails axe html =
     (case new_JSDOM axe html of
        Inl e \<Rightarrow> True
      | Inr document \<Rightarrow> (case axe_run axe document of Inl e \<Rightarrow> True | Inr violations \<Rightarrow> False))"

text \<open>What the loop body of images-alt-text pushes for one element.\<close>

definition image_findings :: "cheerio \<Rightarrow> node \<Rightarrow> AccessibilityIssue list" where
  "image_findings api el = images_alt_text_body api (el, []) []"

subsection \<open>A document to run the evaluator on\<close>

text \<open>
  Three images: one without \<open>alt\<close>, one with an empty \<open>alt\<close>, one with a text. The axe-core
  of the example cannot build its document.
\<close>

definition images_html :: string where
  "images_html =
     ''<img src=\"x.jpg\"><img src=\"d.jpg\" alt=\"\"><img src=\"t.jpg\" alt=\"Description\">''"

definition images_document :: "node list" where
  "images_document =
     [Element ''html'' []
       [Element ''head'' [] [],
        Element ''body'' []
         [Element ''img'' [(''src'', ''x.jpg'')] [],
          Element ''img'' [(''src'', ''d.jpg''), (''alt'', [])] [],
          Element ''img'' [(''src'', ''t.jpg''), (''alt'', ''Description'')] []]]]"

definition images_api :: cheerio where
  "images_api =
     \<lparr>load = (\<lambda>html. if html = images_html then images_document else []),
      outerHTML = (\<lambda>el. ''<'' @ tagName el @ ''>''),
      count_matches = (\<lambda>selector doc. Inr 0)\<rparr>"

definition failing_axe :: "unit axe_core" where
  "failing_axe =
     \<lparr>new_JSDOM = (\<lambda>html. Inl (Error ''jsdom failed'')),
      axe_run = (\<lambda>document. Inr [])\<rparr>"

definition example_explanations :: "(string \<times> Explanation) list" where
  "example_explanations =
     [(''default'',
       \<lparr>e_detailedExplanation = ''d'', e_userImpact = ''u'', e_why = ''w'',
        e_assistiveTechnologyImpact = ''a'',
        e_howToFix = \<lparr>steps = [], codeExample = None, badExample = None, goodExample = None\<rparr>,
        e_relatedGuidelines = Some [''WCAG 2.1 Guidelines''],
        e_documentationLinks = Some [''https://www.w3.org/WAI/WCAG21/'']\<rparr>)]"

section \<open>Properties of the compliance checker\<close>

subsection \<open>The criteria map and the applicability filter\<close>

lemma map_set_fresh: "k \<notin> fst ` set m \<Longrightarrow> map_set m k v = m @ [(k, v)]"
  by (induction m) auto

text \<open>On a map (distinct keys) the loop of \<open>getApplicableCriteria\<close> is a filter.\<close>

lemma fold_keep:
  "distinct (map fst xs) \<Longrightarrow> fst ` set xs \<inter> fst ` set acc = {} \<Longrightarrow>
   fold (\<lambda>(cid, c) acc. if P c then map_set acc cid c else acc) xs acc
     = acc @ filter (\<lambda>(cid, c). P c) xs"
proof (induction xs arbitrary: acc)
  case Nil
  then show ?case by simp
next
  case (Cons x xs)
  obtain k c where x: "x = (k, c)" by (cases x)
  show ?case
  proof (cases "P c")
    case True
    have fresh: "k \<notin> fst ` set acc" using Cons.prems(2) x by auto
    have "fst ` set xs \<inter> fst ` set (acc @ [(k, c)]) = {}"
      using Cons.prems x by auto
    with Cons.IH [of "acc @ [(k, c)]"] Cons.prems(1) x True fresh
    show ?thesis by (simp add: map_set_fresh)
  next
    case False
    have "fst ` set xs \<inter> fst ` set acc = {}" using Cons.prems(2) by auto
    with Cons.IH [of acc] Cons.prems(1) x False show ?thesis by simp
  qed
qed

lemma indexOf_levelOrder:
  "indexOf levelOrder t \<noteq> - 1 \<longleftrightarrow> t = ''A'' \<or> t = ''AA'' \<or> t = ''AAA''"
  by (auto simp: levelOrder_def Let_def)

lemma getApplicableCriteria_filter:
  assumes "distinct (map fst (criteria this))" "indexOf levelOrder t \<noteq> - 1"
  shows "getApplicableCriteria this t =
     Inr (filter (\<lambda>(cid, c). indexOf levelOrder (c_level c) \<le> indexOf levelOrder t)
           (criteria this))"
  using assms
    fold_keep [of "criteria this" "[]"
      "\<lambda>c. indexOf levelOrder (c_level c) \<le> indexOf levelOrder t"]
  by (simp add: getApplicableCriteria_def Let_def)

lemma getApplicableCriteria_invalid:
  "indexOf levelOrder t = - 1 \<Longrightarrow>
   getApplicableCriteria this t = Inl (Error (''Invalid target level: '' @ t))"
  by (simp add: getApplicableCriteria_def Let_def)

lemma new_keys: "map fst (criteria new_WCAGComplianceChecker) =
  [''1.1.1'', ''1.2.1'', ''1.3.1'', ''1.4.1'', ''2.1.1'', ''2.4.1'', ''3.1.1'', ''4.1.1'',
   ''1.4.3'', ''1.4.5'', ''2.4.6'', ''3.3.3'', ''1.4.6'', ''2.4.9'', ''3.1.5'']"
  by (simp add: new_WCAGComplianceChecker_def initializeCriteria_def Let_def)

lemma new_ids: "map (c_id \<circ> snd) (criteria new_WCAGComplianceChecker) =
  [''1.1.1'', ''1.2.1'', ''1.3.1'', ''1.4.1'', ''2.1.1'', ''2.4.1'', ''3.1.1'', ''4.1.1'',
   ''1.4.3'', ''1.4.5'', ''2.4.6'', ''3.3.3'', ''1.4.6'', ''2.4.9'', ''3.1.5'']"
  by (simp add: new_WCAGComplianceChecker_def initializeCriteria_def Let_def crit_def)

lemma new_distinct_keys: "distinct (map fst (criteria new_WCAGComplianceChecker))"
  unfolding new_keys by simp

lemma distinct_map_comp: "distinct (map (f \<circ> g) xs) \<Longrightarrow> distinct (map g xs)"
  by (induction xs) auto

lemma new_distinct_values: "distinct (map snd (criteria new_WCAGComplianceChecker))"
proof -
  have "distinct (map (c_id \<circ> snd) (criteria new_WCAGComplianceChecker))"
    unfolding new_ids by simp
  then show ?thesis by (rule distinct_map_comp)
qed

lemma new_length: "length (criteria new_WCAGComplianceChecker) = 15"
  using arg_cong [OF new_keys, of length] by simp

lemma evaluateCompliance_Inr:
  assumes "evaluateCompliance this er (Some t) = Inr rep"
  shows "indexOf levelOrder t \<noteq> - 1"
proof
  assume "indexOf levelOrder t = - 1"
  then have "evaluateCompliance this er (Some t) = Inl (Error (''Invalid target level: '' @ t))"
    by (simp add: evaluateCompliance_def getApplicableCriteria_invalid)
  with assms show False by simp
qed

text \<open>Leaving the target level out is asking for \<open>AA\<close>.\<close>

lemma evaluateCompliance_default:
  "evaluateCompliance this er None = evaluateCompliance this er (Some ''AA'')"
  by (simp add: evaluateCompliance_def)

subsection \<open>The example, evaluated\<close>

lemmas checker_defs = evaluateCompliance_def getApplicableCriteria_def
  new_WCAGComplianceChecker_def initializeCriteria_def crit_def levelOrder_def Let_def
  collect_issue_def classify_def isCriterionApplicable_def startsWith_def map_has_def
  map_get_def toLowerCase_def lower_unit_def is_space_def

lemma example_evaluated:
  "\<exists>rep. evaluateCompliance new_WCAGComplianceChecker example_result (Some ''AA'') = Inr rep \<and>
     map c_id (failedCriteria rep) = [''1.1.1''] \<and>
     map c_level (failedCriteria rep) = [''A''] \<and>
     map c_id (passedCriteria rep) = [''1.4.3''] \<and>
     length (notApplicableCriteria rep) = 10"
  by (simp add: checker_defs example_result_def example_issue_def)

lemma example_applicable:
  "\<exists>a1 a2 a3. getApplicableCriteria new_WCAGComplianceChecker ''A'' = Inr a1 \<and> length a1 = 8 \<and>
     getApplicableCriteria new_WCAGComplianceChecker ''AA'' = Inr a2 \<and> length a2 = 12 \<and>
     getApplicableCriteria new_WCAGComplianceChecker ''AAA'' = Inr a3 \<and> length a3 = 15"
  by (simp add: checker_defs)

subsection \<open>Classification\<close>

lemma classify_cases:
  "classify ci er (k, c) (p, f, n) = (p, f @ [c], n) \<or>
   classify ci er (k, c) (p, f, n) = (p @ [c], f, n) \<or>
   classify ci er (k, c) (p, f, n) = (p, f, n @ [c])"
  by (simp add: classify_def Let_def)

text \<open>
  The classification loop moves every entry it visits to the end of exactly one of the
  three arrays.
\<close>

lemma fold_classify:
  assumes "fold (classify ci er) xs (p, f, n) = (p', f', n')"
  shows "set (p' @ f' @ n') = set (p @ f @ n) \<union> snd ` set xs \<and>
         (distinct (p @ f @ n @ map snd xs) \<longrightarrow> distinct (p' @ f' @ n'))"
  using assms
proof (induction xs arbitrary: p f n)
  case Nil
  then show ?case by simp
next
  case (Cons x xs)
  obtain k c where x: "x = (k, c)" by (cases x)
  from classify_cases [of ci er k c p f n]
  consider "classify ci er (k, c) (p, f, n) = (p, f @ [c], n)"
    | "classify ci er (k, c) (p, f, n) = (p @ [c], f, n)"
    | "classify ci er (k, c) (p, f, n) = (p, f, n @ [c])" by blast
  then show ?case
  proof cases
    case 1
    with Cons.prems x have "fold (classify ci er) xs (p, f @ [c], n) = (p', f', n')" by simp
    from Cons.IH [OF this] x show ?thesis by auto
  next
    case 2
    with Cons.prems x have "fold (classify ci er) xs (p @ [c], f, n) = (p', f', n')" by simp
    from Cons.IH [OF this] x show ?thesis by auto
  next
    case 3
    with Cons.prems x have "fold (classify ci er) xs (p, f, n @ [c]) = (p', f', n')" by simp
    from Cons.IH [OF this] x show ?thesis by auto
  qed
qed

lemma evaluateCompliance_arrays:
  assumes "evaluateCompliance this er (Some t) = Inr rep"
    and "getApplicableCriteria this t = Inr app"
  shows "fold (classify (fold collect_issue (issues er) []) er) app ([], [], [])
           = (passedCriteria rep, failedCriteria rep, notApplicableCriteria rep)"
  using assms
  by (auto simp: evaluateCompliance_def Let_def split: prod.splits)

lemma applicable_distinct:
  assumes "getApplicableCriteria new_WCAGComplianceChecker t = Inr app"
  shows "distinct (map snd app) \<and> length app \<le> 15"
proof -
  have valid: "indexOf levelOrder t \<noteq> - 1"
    using assms getApplicableCriteria_invalid [of t new_WCAGComplianceChecker] by auto
  have app: "app = filter (\<lambda>(cid, c). indexOf levelOrder (c_level c) \<le> indexOf levelOrder t)
      (criteria new_WCAGComplianceChecker)"
    using getApplicableCriteria_filter [OF new_distinct_keys valid] assms by simp
  have "distinct (map snd app)"
    unfolding app using new_distinct_values by (rule distinct_map_filter)
  moreover have "length app \<le> 15"
    unfolding app using length_filter_le [of _ "criteria new_WCAGComplianceChecker"]
    by (simp add: new_length)
  ultimately show ?thesis by simp
qed

text \<open>
  C1. Whatever the evaluation result, when \<open>evaluateCompliance\<close> of the checker returns a
  report for a target level, every criterion of the applicable set that
  \<open>getApplicableCriteria\<close> computes for that level stands in exactly one of
  \<open>passedCriteria\<close>, \<open>failedCriteria\<close> and \<open>notApplicableCriteria\<close>: the three lists are
  pairwise disjoint, none repeats a criterion, and together they hold the applicable
  set and nothing else.
\<close>

theorem classification_partition:
  assumes "evaluateCompliance new_WCAGComplianceChecker er (Some t) = Inr rep"
    and "getApplicableCriteria new_WCAGComplianceChecker t = Inr app"
  shows "set (passedCriteria rep) \<inter> set (failedCriteria rep) = {} \<and>
         set (passedCriteria rep) \<inter> set (notApplicableCriteria rep) = {} \<and>
         set (failedCriteria rep) \<inter> set (notApplicableCriteria rep) = {} \<and>
         set (passedCriteria rep) \<union> set (failedCriteria rep) \<union> set (notApplicableCriteria rep)
           = snd ` set app \<and>
         distinct (passedCriteria rep) \<and> distinct (failedCriteria rep) \<and>
         distinct (notApplicableCriteria rep)"
proof -
  have dist: "distinct (map snd app)" using applicable_distinct [OF assms(2)] by simp
  from fold_classify [OF evaluateCompliance_arrays [OF assms]] dist
  have "set (passedCriteria rep @ failedCriteria rep @ notApplicableCriteria rep) = snd ` set app"
    and "distinct (passedCriteria rep @ failedCriteria rep @ notApplicableCriteria rep)"
    by simp_all
  then show ?thesis by auto
qed

theorem classification_partition_witness:
  "\<exists>rep app.
     evaluateCompliance new_WCAGComplianceChecker example_result (Some ''AA'') = Inr rep \<and>
     getApplicableCriteria new_WCAGComplianceChecker ''AA'' = Inr app \<and>
     map c_id (failedCriteria rep) = [''1.1.1''] \<and>
     map c_id (passedCriteria rep) = [''1.4.3''] \<and>
     length (notApplicableCriteria rep) = 10 \<and> length app = 12 \<and>
     set (passedCriteria rep) \<inter> set (failedCriteria rep) = {} \<and>
     set (passedCriteria rep) \<inter> set (notApplicableCriteria rep) = {} \<and>
     set (failedCriteria rep) \<inter> set (notApplicableCriteria rep) = {} \<and>
     set (passedCriteria rep) \<union> set (failedCriteria rep) \<union> set (notApplicableCriteria rep)
       = snd ` set app \<and>
     distinct (passedCriteria rep) \<and> distinct (failedCriteria rep) \<and>
     distinct (notApplicableCriteria rep)"
proof -
  obtain rep where rep:
    "evaluateCompliance new_WCAGComplianceChecker example_result (Some ''AA'') = Inr rep"
    "map c_id (failedCriteria rep) = [''1.1.1'']"
    "map c_id (passedCriteria rep) = [''1.4.3'']"
    "length (notApplicableCriteria rep) = 10"
    using example_evaluated by (elim exE conjE)
  obtain app where app:
    "getApplicableCriteria new_WCAGComplianceChecker ''AA'' = Inr app" "length app = 12"
    using example_applicable by (elim exE conjE)
  from classification_partition [OF rep(1) app(1)] rep app show ?thesis
    by (intro exI [of _ rep] exI [of _ app]) simp
qed

subsection \<open>The compliance level\<close>

lemma failure_loop_A:
  "\<exists>c \<in> set failed. c_level c = ''A'' \<Longrightarrow> failure_loop failed (''A'' # rest) = Some ''None''"
  by (auto simp: filter_empty_conv)

text \<open>
  C2. Whatever the evaluation result and the target level, when \<open>evaluateCompliance\<close>
  returns a report whose \<open>failedCriteria\<close> holds a criterion of level A, the report's level
  is \<open>None\<close>; what passed or failed at the levels AA and AAA plays no part.
\<close>

theorem level_A_failure_None:
  assumes "evaluateCompliance this er (Some t) = Inr rep"
    and "\<exists>c \<in> set (failedCriteria rep). c_level c = ''A''"
  shows "r_level rep = ''None''"
proof -
  have valid: "indexOf levelOrder t \<noteq> - 1" using assms(1) by (rule evaluateCompliance_Inr)
  then have "t = ''A'' \<or> t = ''AA'' \<or> t = ''AAA''" by (simp only: indexOf_levelOrder)
  then have "\<exists>rest. take (nat (indexOf levelOrder t + 1)) levelOrder = ''A'' # rest"
    by (auto simp: levelOrder_def)
  then obtain rest where "take (nat (indexOf levelOrder t + 1)) levelOrder = ''A'' # rest" ..
  then have "calculateComplianceLevel (passedCriteria rep) (failedCriteria rep) t = ''None''"
    using failure_loop_A [OF assms(2)] by (simp add: calculateComplianceLevel_def)
  moreover have "r_level rep = calculateComplianceLevel (passedCriteria rep) (failedCriteria rep) t"
    using assms(1) valid
    by (auto simp: evaluateCompliance_def Let_def split: prod.splits sum.splits)
  ultimately show ?thesis by simp
qed

theorem level_A_failure_None_witness:
  "\<exists>rep. evaluateCompliance new_WCAGComplianceChecker example_result (Some ''AA'') = Inr rep \<and>
     (\<exists>c \<in> set (failedCriteria rep). c_level c = ''A'') \<and>
     map c_id (passedCriteria rep) = [''1.4.3''] \<and>
     r_level rep = ''None''"
proof -
  obtain rep where rep:
    "evaluateCompliance new_WCAGComplianceChecker example_result (Some ''AA'') = Inr rep"
    "map c_level (failedCriteria rep) = [''A'']"
    "map c_id (passedCriteria rep) = [''1.4.3'']"
    using example_evaluated by (elim exE conjE)
  from rep(2) have failed: "\<exists>c \<in> set (failedCriteria rep). c_level c = ''A''"
    by (cases "failedCriteria rep") auto
  from level_A_failure_None [OF rep(1) failed] rep failed show ?thesis
    by (intro exI [of _ rep]) simp
qed

subsection \<open>The target level\<close>

text \<open>
  C4. Whatever the evaluation result, \<open>evaluateCompliance\<close> called with a target level
  that is none of \<open>A\<close>, \<open>AA\<close>, \<open>AAA\<close> throws (\<open>Invalid target level\<close>); it returns no report
  and falls back on no other level.
\<close>

theorem invalid_target_level_throws:
  assumes "t \<noteq> ''A''" "t \<noteq> ''AA''" "t \<noteq> ''AAA''"
  shows "evaluateCompliance this er (Some t) = Inl (Error (''Invalid target level: '' @ t))"
proof -
  have "indexOf levelOrder t = - 1" using assms indexOf_levelOrder [of t] by blast
  then show ?thesis by (simp add: evaluateCompliance_def getApplicableCriteria_invalid)
qed

theorem invalid_target_level_throws_witness:
  "''B'' \<noteq> ''A'' \<and> ''B'' \<noteq> ''AA'' \<and> ''B'' \<noteq> ''AAA'' \<and>
   evaluateCompliance new_WCAGComplianceChecker example_result (Some ''B'')
     = Inl (Error ''Invalid target level: B'')"
  using invalid_target_level_throws [of "''B''" new_WCAGComplianceChecker example_result]
  by simp

text \<open>
  C5. For target levels \<open>T1\<close> and \<open>T2\<close> with \<open>T1\<close> at or below \<open>T2\<close> in the order
  \<open>A < AA < AAA\<close> (the order of \<open>levelOrder\<close>), the applicable criteria that
  \<open>getApplicableCriteria\<close> of the checker selects for \<open>T1\<close> are among those it selects
  for \<open>T2\<close>.
\<close>

theorem applicable_monotone:
  assumes "getApplicableCriteria new_WCAGComplianceChecker t1 = Inr a1"
    and "getApplicableCriteria new_WCAGComplianceChecker t2 = Inr a2"
    and "indexOf levelOrder t1 \<le> indexOf levelOrder t2"
  shows "set a1 \<subseteq> set a2"
proof -
  have v1: "indexOf levelOrder t1 \<noteq> - 1"
    using assms(1) getApplicableCriteria_invalid [of t1 new_WCAGComplianceChecker] by auto
  have v2: "indexOf levelOrder t2 \<noteq> - 1"
    using assms(2) getApplicableCriteria_invalid [of t2 new_WCAGComplianceChecker] by auto
  from getApplicableCriteria_filter [OF new_distinct_keys v1] assms(1)
       getApplicableCriteria_filter [OF new_distinct_keys v2] assms(2) assms(3)
  show ?thesis by auto
qed

theorem applicable_monotone_witness:
  "\<exists>a1 a2. getApplicableCriteria new_WCAGComplianceChecker ''A'' = Inr a1 \<and>
     getApplicableCriteria new_WCAGComplianceChecker ''AAA'' = Inr a2 \<and>
     indexOf levelOrder ''A'' \<le> indexOf levelOrder ''AAA'' \<and>
     length a1 = 8 \<and> length a2 = 15 \<and> set a1 \<subseteq> set a2"
proof -
  obtain a1 a2 where a:
    "getApplicableCriteria new_WCAGComplianceChecker ''A'' = Inr a1" "length a1 = 8"
    "getApplicableCriteria new_WCAGComplianceChecker ''AAA'' = Inr a2" "length a2 = 15"
    using example_applicable by (elim exE conjE)
  have le: "indexOf levelOrder ''A'' \<le> indexOf levelOrder ''AAA''"
    by (simp add: levelOrder_def)
  from applicable_monotone [OF a(1) a(3) le] a le show ?thesis
    by (intro exI [of _ a1] exI [of _ a2]) simp
qed

section \<open>Properties of the ARIA validator\<close>

subsection \<open>What the checks before the landmarks keep\<close>

lemma fold_inv:
  assumes "\<And>x s. P s \<Longrightarrow> P (f x s)" and "P s"
  shows "P (fold f xs s)"
  using assms(2) by (induction xs arbitrary: s) (auto intro: assms(1))

lemma fold_throwing_inv:
  assumes "\<And>x s s'. P s \<Longrightarrow> body x s = Inr s' \<Longrightarrow> P s'"
    and "P s" and "fold_throwing body xs s = Inr s'"
  shows "P s'"
  using assms(2,3)
proof (induction xs arbitrary: s)
  case Nil
  then show ?case by simp
next
  case (Cons x xs)
  then show ?case by (auto split: sum.splits intro: assms(1))
qed

lemma quiet_push:
  "quiet st \<Longrightarrow> \<not> startsWith (a_message i) ''Multiple '' \<Longrightarrow> quiet (push_issue i st)"
  by (simp add: quiet_def push_issue_def)

lemma quiet_element_issue:
  "quiet st \<Longrightarrow> \<not> startsWith msg ''Multiple '' \<Longrightarrow>
   quiet (push_issue (element_issue api ty el msg r) st)"
  by (rule quiet_push) (simp_all add: element_issue_def)

lemma quiet_count_role: "quiet st \<Longrightarrow> quiet (count_role role st)"
  by (simp add: quiet_def count_role_def)

lemma quiet_count_property: "quiet st \<Longrightarrow> quiet (count_property prop st)"
  by (simp add: quiet_def count_property_def)

lemma quiet_push_validUsage: "quiet st \<Longrightarrow> quiet (push_validUsage u st)"
  by (simp add: quiet_def push_validUsage_def)

lemma quiet_check_required_properties:
  "quiet st \<Longrightarrow> quiet (check_required_properties api el role roleSpec st)"
  unfolding check_required_properties_def
  by (rule fold_inv [where P = quiet]) (simp_all add: quiet_element_issue startsWith_def)

lemma quiet_check_parent_requirements:
  "quiet st \<Longrightarrow> quiet (check_parent_requirements api located role roleSpec st)"
  by (simp add: check_parent_requirements_def Let_def quiet_element_issue startsWith_def
      split: option.splits)

lemma quiet_check_role: "quiet st \<Longrightarrow> quiet (check_role this api located st)"
  by (simp add: check_role_def quiet_element_issue startsWith_def quiet_count_role
      quiet_push_validUsage quiet_check_parent_requirements quiet_check_required_properties
      split: option.splits)

lemma quiet_check_id_reference:
  "quiet st \<Longrightarrow> check_id_reference api doc el ident st = Inr st' \<Longrightarrow> quiet st'"
  by (auto simp: check_id_reference_def quiet_element_issue startsWith_def
      split: sum.splits if_splits)

lemma quiet_check_empty_value: "quiet st \<Longrightarrow> quiet (check_empty_value api prop el st)"
  by (simp add: check_empty_value_def quiet_element_issue startsWith_def)

lemma quiet_check_property:
  assumes "quiet st" "check_property api doc prop located st = Inr st'"
  shows "quiet st'"
proof -
  let ?st2 = "check_empty_value api prop (fst located) (count_property prop st)"
  have q2: "quiet ?st2"
    using assms(1) by (simp add: quiet_check_empty_value quiet_count_property)
  show ?thesis
  proof (cases "attr (fst located) prop")
    case None
    with assms(2) q2 show ?thesis by (simp add: check_property_def Let_def)
  next
    case (Some ids_text)
    show ?thesis
    proof (cases "prop = ''aria-labelledby'' \<and> ids_text \<noteq> []")
      case True
      with assms(2) Some
      have "fold_throwing (check_id_reference api doc (fst located))
              (split ids_text CHR '' '') ?st2 = Inr st'"
        by (simp add: check_property_def Let_def)
      from fold_throwing_inv [where P = quiet, OF quiet_check_id_reference q2 this]
      show ?thesis .
    next
      case False
      with assms(2) Some q2 show ?thesis by (auto simp: check_property_def Let_def)
    qed
  qed
qed

lemma quiet_check_properties:
  assumes "quiet st" "check_properties this api doc st = Inr st'"
  shows "quiet st'"
proof -
  have inner: "\<And>prop s s'. quiet s \<Longrightarrow>
      fold_throwing (check_property api doc prop) (query (has_attr prop) doc) s = Inr s' \<Longrightarrow> quiet s'"
    by (rule fold_throwing_inv [where P = quiet, OF quiet_check_property])
  show ?thesis
  proof (rule fold_throwing_inv [where P = quiet and xs = "properties this" and s = st
        and body = "\<lambda>prop. fold_throwing (check_property api doc prop) (query (has_attr prop) doc)"])
    show "quiet st" by (rule assms(1))
    show "fold_throwing
       (\<lambda>prop. fold_throwing (check_property api doc prop) (query (has_attr prop) doc))
       (properties this) st = Inr st'"
      using assms(2) by (simp add: check_properties_def)
  qed (rule inner)
qed

lemma quiet_check_redundant: "quiet st \<Longrightarrow> quiet (check_redundant api doc st)"
  unfolding check_redundant_def
  by (rule fold_inv [where P = quiet]) (auto simp: quiet_element_issue startsWith_def)

lemma quiet_check_hidden: "quiet st \<Longrightarrow> quiet (check_hidden api doc st)"
  unfolding check_hidden_def
  by (rule fold_inv [where P = quiet]) (auto simp: quiet_element_issue startsWith_def)

lemma quiet_initial: "quiet initial_result"
  by (simp add: quiet_def initial_result_def)

text \<open>The state before the landmark checks.\<close>

lemma validate_Inr:
  assumes "fst (validate this api explain html) = Inr res"
  shows "\<exists>st4. quiet st4 \<and>
     res = (fold (check_landmark (load api html)) landmarks st4)
             \<lparr>ar_issues := map (enhanceIssue explain)
                 (ar_issues (fold (check_landmark (load api html)) landmarks st4))\<rparr>"
proof -
  let ?doc = "load api html"
  let ?st1 = "fold (check_role this api) (query (has_attr ''role'') ?doc) initial_result"
  have q1: "quiet ?st1"
    by (rule fold_inv [where P = quiet]) (simp_all add: quiet_check_role quiet_initial)
  from assms obtain st2 where st2: "check_properties this api ?doc ?st1 = Inr st2"
    by (cases "check_properties this api ?doc ?st1") (auto simp: validate_def Let_def)
  have q2: "quiet st2" using q1 st2 by (rule quiet_check_properties)
  let ?st4 = "check_hidden api ?doc (check_redundant api ?doc st2)"
  have q4: "quiet ?st4" using q2 by (simp add: quiet_check_hidden quiet_check_redundant)
  from assms st2 have "res = (fold (check_landmark ?doc) landmarks ?st4)
             \<lparr>ar_issues := map (enhanceIssue explain)
                 (ar_issues (fold (check_landmark ?doc) landmarks ?st4))\<rparr>"
    by (simp add: validate_def Let_def)
  with q4 show ?thesis by blast
qed

lemma statistics_check_landmark:
  "ar_statistics (check_landmark doc landmark st) = ar_statistics st"
  by (simp add: check_landmark_def Let_def push_issue_def)

lemma statistics_landmarks:
  "ar_statistics (fold (check_landmark doc) ls st) = ar_statistics st"
  by (induction ls arbitrary: st) (simp_all add: statistics_check_landmark)


subsection \<open>What the landmark checks push\<close>

lemma check_landmark_issues:
  "ar_issues (check_landmark doc landmark st) = ar_issues st @ landmark_findings doc landmark"
  by (auto simp: landmark_findings_def check_landmark_def Let_def push_issue_def
      initial_result_def)

lemma fold_landmarks_issues:
  "ar_issues (fold (check_landmark doc) ls st)
     = ar_issues st @ concat (map (landmark_findings doc) ls)"
  by (induction ls arbitrary: st) (simp_all add: check_landmark_issues)

lemma findings_main:
  "landmark_findings doc ''main'' =
     (if length (query (attr_is ''role'' ''main'') doc) > 1
      then [landmark_issue ''error'' ''main'' ''Multiple main landmarks found''
              ''Use only one main landmark per page'']
      else [])"
  by (simp add: landmark_findings_def check_landmark_def Let_def push_issue_def
      initial_result_def)

lemma findings_other:
  assumes "landmark \<noteq> ''main''"
  shows "landmark_findings doc landmark =
     (if length (query (attr_is ''role'' landmark) doc) > 1 \<and>
         (\<exists>(el, anc) \<in> set (query (attr_is ''role'' landmark) doc). unlabeled_landmark el)
      then [landmark_issue ''warning'' landmark (landmark_warning_message landmark)
              (''Add aria-label or aria-labelledby to distinguish between '' @ landmark
                 @ '' landmarks'')]
      else [])"
proof -
  have "(length (filter (\<lambda>(el, anc). unlabeled_landmark el)
            (query (attr_is ''role'' landmark) doc)) > 0)
        = (\<exists>(el, anc) \<in> set (query (attr_is ''role'' landmark) doc). unlabeled_landmark el)"
    by (auto simp: filter_empty_conv)
  with assms show ?thesis
    by (simp add: landmark_findings_def check_landmark_def Let_def push_issue_def
        initial_result_def)
qed

lemma quiet_filter:
  assumes "quiet st" "startsWith m ''Multiple ''"
  shows "filter (\<lambda>i. a_message i = m) (ar_issues st) = []"
  using assms by (auto simp: quiet_def list_all_iff filter_empty_conv)

lemma message_enhanceIssue: "a_message (enhanceIssue explain i) = a_message i"
  by (simp add: enhanceIssue_def)

lemma type_enhanceIssue: "a_type (enhanceIssue explain i) = a_type i"
  by (simp add: enhanceIssue_def)

lemma landmark_messages:
  assumes "fst (validate this api explain html) = Inr res" "startsWith m ''Multiple ''"
  shows "filter (\<lambda>i. a_message i = m) (ar_issues res)
     = map (enhanceIssue explain)
         (filter (\<lambda>i. a_message i = m)
            (concat (map (landmark_findings (load api html)) landmarks)))"
proof -
  from validate_Inr [OF assms(1)] obtain st4 where q: "quiet st4"
    and res: "res = (fold (check_landmark (load api html)) landmarks st4)
             \<lparr>ar_issues := map (enhanceIssue explain)
                 (ar_issues (fold (check_landmark (load api html)) landmarks st4))\<rparr>"
    by blast
  have "ar_issues res = map (enhanceIssue explain)
      (ar_issues st4 @ concat (map (landmark_findings (load api html)) landmarks))"
    by (subst res) (simp add: fold_landmarks_issues)
  then show ?thesis
    using quiet_filter [OF q assms(2)]
    by (simp add: filter_map comp_def message_enhanceIssue)
qed

lemma warning_message_Multiple: "startsWith (landmark_warning_message landmark) ''Multiple ''"
  by (simp add: landmark_warning_message_def startsWith_def)

lemma warning_message_inj:
  "landmark_warning_message l = landmark_warning_message landmark \<longleftrightarrow> l = landmark"
  by (simp add: landmark_warning_message_def)

lemma main_message_differs:
  "''Multiple main landmarks found'' \<noteq> landmark_warning_message landmark"
proof
  assume "''Multiple main landmarks found'' = landmark_warning_message landmark"
  then have "length ''Multiple main landmarks found''
            = length (landmark_warning_message landmark)"
    by (rule arg_cong)
  then show False by (simp add: landmark_warning_message_def)
qed

lemma filter_warning_findings_main:
  "filter (\<lambda>i. a_message i = landmark_warning_message landmark)
     (landmark_findings doc ''main'') = []"
  using main_message_differs [of landmark] by (simp add: findings_main landmark_issue_def)

lemma filter_warning_findings_other:
  assumes "l \<noteq> ''main''"
  shows "filter (\<lambda>i. a_message i = landmark_warning_message landmark)
     (landmark_findings doc l) = (if l = landmark then landmark_findings doc l else [])"
proof (cases "l = landmark")
  case True
  with assms have "landmark \<noteq> ''main''" by simp
  with True show ?thesis by (simp add: findings_other landmark_issue_def)
next
  case False
  then show ?thesis
    by (simp add: findings_other [OF assms] landmark_issue_def warning_message_inj)
qed

lemma filter_main_findings_other:
  assumes "l \<noteq> ''main''"
  shows "filter (\<lambda>i. a_message i = ''Multiple main landmarks found'') (landmark_findings doc l) = []"
  using main_message_differs [of l, symmetric]
  by (simp add: findings_other [OF assms] landmark_issue_def)

lemma filter_main_findings_main:
  "filter (\<lambda>i. a_message i = ''Multiple main landmarks found'') (landmark_findings doc ''main'')
     = landmark_findings doc ''main''"
  by (simp add: findings_main landmark_issue_def)

lemma main_error:
  assumes "fst (validate this api explain html) = Inr res"
  shows "filter (\<lambda>i. a_message i = ''Multiple main landmarks found'') (ar_issues res)
     = map (enhanceIssue explain) (landmark_findings (load api html) ''main'')"
  by (subst landmark_messages [OF assms])
     (simp_all add: startsWith_def landmarks_def filter_main_findings_main
        filter_main_findings_other)

lemma landmark_warning:
  assumes "fst (validate this api explain html) = Inr res"
    and "landmark \<in> {''navigation'', ''complementary'', ''banner'', ''contentinfo''}"
  shows "filter (\<lambda>i. a_message i = landmark_warning_message landmark) (ar_issues res)
     = map (enhanceIssue explain) (landmark_findings (load api html) landmark)"
proof -
  have "filter (\<lambda>i. a_message i = landmark_warning_message landmark)
          (concat (map (landmark_findings (load api html)) landmarks))
        = landmark_findings (load api html) landmark"
    using assms(2)
    by (auto simp: landmarks_def filter_warning_findings_main filter_warning_findings_other)
  then show ?thesis
    by (simp add: landmark_messages [OF assms(1) warning_message_Multiple])
qed

subsection \<open>The validator returns unless the selector engine throws\<close>

lemma fold_throwing_total:
  assumes "\<And>x s. \<exists>s'. body x s = Inr s'"
  shows "\<exists>s'. fold_throwing body xs s = Inr s'"
proof (induction xs arbitrary: s)
  case Nil
  then show ?case by simp
next
  case (Cons x xs)
  from assms obtain s1 where "body x s = Inr s1" by blast
  with Cons.IH [of s1] show ?case by simp
qed

lemma check_property_total:
  assumes "\<And>selector d. \<exists>n. count_matches api selector d = Inr n"
  shows "\<exists>s'. check_property api doc prop located st = Inr s'"
proof -
  have "\<And>ident s. \<exists>s'. check_id_reference api doc (fst located) ident s = Inr s'"
  proof -
    fix ident s
    from assms obtain n where "count_matches api (''#'' @ ident) doc = Inr n" by blast
    then show "\<exists>s'. check_id_reference api doc (fst located) ident s = Inr s'"
      by (simp add: check_id_reference_def)
  qed
  from fold_throwing_total [of "check_id_reference api doc (fst located)", OF this]
  show ?thesis by (simp add: check_property_def Let_def split: option.splits)
qed

lemma validate_returns:
  assumes "\<And>selector d. \<exists>n. count_matches api selector d = Inr n"
  shows "\<exists>res. fst (validate this api explain html) = Inr res"
proof -
  have inner: "\<And>prop s. \<exists>s'. fold_throwing (check_property api (load api html) prop)
      (query (has_attr prop) (load api html)) s = Inr s'"
    by (rule fold_throwing_total) (rule check_property_total [OF assms])
  have "\<exists>s'. check_properties this api (load api html)
      (fold (check_role this api) (query (has_attr ''role'') (load api html)) initial_result)
      = Inr s'"
    unfolding check_properties_def by (rule fold_throwing_total) (rule inner)
  then show ?thesis by (auto simp: validate_def Let_def)
qed

subsection \<open>The example, validated\<close>

lemmas validator_defs = validate_def new_ARIAValidator_def initializeARIASpec_def role_spec_def
  new_Set_def set_add_def check_role_def check_required_properties_def
  check_parent_requirements_def count_role_def push_validUsage_def check_properties_def
  check_property_def check_id_reference_def count_property_def check_empty_value_def
  check_redundant_def redundant_role_def check_hidden_def focusable_def check_landmark_def
  landmark_issue_def landmark_warning_message_def unlabeled_landmark_def landmarks_def
  enhanceIssue_def initial_result_def element_issue_def push_issue_def
  ARIAValidator_getSelector_def class_selector_def truthy_def query_def all_elements_def
  has_attr_def attr_is_def closest_exists_def find_below_def map_get_def Let_def

lemma example_validated:
  "\<exists>res. fst (validate new_ARIAValidator example_api example_explain example_html) = Inr res \<and>
     map (\<lambda>i. (a_type i, a_message i)) (ar_issues res) =
       [(''warning'', ''Empty value for aria-label''),
        (''warning'', ''Empty value for aria-label''),
        (''warning'', ''Redundant ARIA role on main element''),
        (''warning'', ''Redundant ARIA role on nav element''),
        (''warning'', ''Redundant ARIA role on nav element''),
        (''error'', ''Multiple main landmarks found''),
        (''warning'', ''Multiple navigation landmarks without unique labels'')] \<and>
     ar_statistics res =
       \<lparr>totalARIAElements = 5, rolesUsed = [''main'', ''navigation'', ''checkbox''],
        propertiesUsed = [''aria-label'', ''aria-hidden'', ''aria-checked''], statesUsed = []\<rparr>"
  by (simp add: validator_defs example_api_def example_document_def example_explain_def)

lemma example_queries:
  "map fst (query (attr_is ''role'' ''main'') (load example_api example_html))
     = [Element ''main'' [(''role'', ''main'')] [Text ''A''],
        Element ''div'' [(''role'', ''main'')] [Text ''B'']] \<and>
   map fst (query (attr_is ''role'' ''navigation'') (load example_api example_html))
     = [Element ''nav'' [(''role'', ''navigation''), (''aria-label'', [])] [Text ''C''],
        Element ''nav'' [(''role'', ''navigation''), (''aria-label'', [])] [Text ''D'']] \<and>
   map fst (query (has_attr ''aria-checked'') (load example_api example_html))
     = [Element ''div'' [(''role'', ''checkbox''), (''aria-checked'', ''true''),
                           (''aria-hidden'', ''true'')] [Text ''E'']]"
  by (simp add: example_api_def example_document_def query_def all_elements_def attr_is_def
      has_attr_def)

subsection \<open>Landmarks\<close>

lemma unlabeled_landmark_iff:
  "unlabeled_landmark el \<longleftrightarrow>
     attr el ''aria-label'' \<in> {None, Some []} \<and> attr el ''aria-labelledby'' \<in> {None, Some []}"
  by (auto simp: unlabeled_landmark_def truthy_def split: option.splits)

text \<open>
  C7, as the code has it. For every document that \<open>validate\<close> validates: when more than
  one element carries \<open>role="main"\<close>, exactly one issue has the message \<open>Multiple main
  landmarks found\<close>, and its type is \<open>error\<close>; and for each of the roles \<open>navigation\<close>,
  \<open>complementary\<close>, \<open>banner\<close>, \<open>contentinfo\<close>, when more than one element carries the
  role, the warning \<open>Multiple ... landmarks without unique labels\<close> is among the issues
  if and only if one of those elements has no non-empty \<open>aria-label\<close> and no non-empty
  \<open>aria-labelledby\<close> (each attribute is missing or empty).
\<close>

theorem landmark_uniqueness:
  assumes "fst (validate this api explain html) = Inr res"
  shows "(length (query (attr_is ''role'' ''main'') (load api html)) > 1 \<longrightarrow>
            (\<exists>i. filter (\<lambda>i. a_message i = ''Multiple main landmarks found'') (ar_issues res) = [i]
                 \<and> a_type i = ''error'')) \<and>
         (\<forall>landmark \<in> {''navigation'', ''complementary'', ''banner'', ''contentinfo''}.
            length (query (attr_is ''role'' landmark) (load api html)) > 1 \<longrightarrow>
            ((\<exists>i \<in> set (ar_issues res).
                 a_type i = ''warning'' \<and> a_message i = landmark_warning_message landmark)
             \<longleftrightarrow>
             (\<exists>(el, anc) \<in> set (query (attr_is ''role'' landmark) (load api html)).
                 attr el ''aria-label'' \<in> {None, Some []} \<and>
                 attr el ''aria-labelledby'' \<in> {None, Some []})))"
proof (intro conjI impI ballI)
  assume "length (query (attr_is ''role'' ''main'') (load api html)) > 1"
  then show "\<exists>i. filter (\<lambda>i. a_message i = ''Multiple main landmarks found'') (ar_issues res) = [i]
                 \<and> a_type i = ''error''"
    by (simp add: main_error [OF assms] findings_main type_enhanceIssue landmark_issue_def)
next
  fix landmark
  assume l: "landmark \<in> {''navigation'', ''complementary'', ''banner'', ''contentinfo''}"
    and many: "length (query (attr_is ''role'' landmark) (load api html)) > 1"
  from l have nm: "landmark \<noteq> ''main''" by auto
  let ?w = "\<lambda>i. a_type i = ''warning'' \<and> a_message i = landmark_warning_message landmark"
  have "(\<exists>i \<in> set (ar_issues res). ?w i)
      \<longleftrightarrow> (\<exists>i \<in> set (filter (\<lambda>i. a_message i = landmark_warning_message landmark)
                          (ar_issues res)). a_type i = ''warning'')"
    by auto
  also have "\<dots> \<longleftrightarrow> (\<exists>(el, anc) \<in> set (query (attr_is ''role'' landmark) (load api html)).
                 unlabeled_landmark el)"
    using many
    by (simp add: landmark_warning [OF assms l] findings_other [OF nm] type_enhanceIssue
        landmark_issue_def)
  finally show "(\<exists>i \<in> set (ar_issues res). ?w i)
      \<longleftrightarrow> (\<exists>(el, anc) \<in> set (query (attr_is ''role'' landmark) (load api html)).
                 attr el ''aria-label'' \<in> {None, Some []} \<and>
                 attr el ''aria-labelledby'' \<in> {None, Some []})"
    by (simp add: unlabeled_landmark_iff)
qed

theorem landmark_uniqueness_witness:
  "\<exists>res. fst (validate new_ARIAValidator example_api example_explain example_html) = Inr res \<and>
     length (query (attr_is ''role'' ''main'') (load example_api example_html)) = 2 \<and>
     (\<exists>i. filter (\<lambda>i. a_message i = ''Multiple main landmarks found'') (ar_issues res) = [i]
          \<and> a_type i = ''error'') \<and>
     length (query (attr_is ''role'' ''navigation'') (load example_api example_html)) = 2 \<and>
     (\<exists>i \<in> set (ar_issues res).
         a_type i = ''warning'' \<and> a_message i = landmark_warning_message ''navigation'') \<and>
     (\<exists>(el, anc) \<in> set (query (attr_is ''role'' ''navigation'') (load example_api example_html)).
         attr el ''aria-label'' \<in> {None, Some []} \<and>
         attr el ''aria-labelledby'' \<in> {None, Some []})"
proof -
  obtain res where res:
    "fst (validate new_ARIAValidator example_api example_explain example_html) = Inr res"
    using example_validated by (elim exE conjE)
  have m: "length (query (attr_is ''role'' ''main'') (load example_api example_html)) = 2"
    using arg_cong [OF conjunct1 [OF example_queries], of length] by simp
  have n: "length (query (attr_is ''role'' ''navigation'') (load example_api example_html)) = 2"
    using arg_cong [OF conjunct1 [OF conjunct2 [OF example_queries]], of length] by simp
  have u: "\<exists>(el, anc) \<in> set (query (attr_is ''role'' ''navigation'')
               (load example_api example_html)).
         attr el ''aria-label'' \<in> {None, Some []} \<and>
         attr el ''aria-labelledby'' \<in> {None, Some []}"
    by (simp add: example_api_def example_document_def query_def all_elements_def attr_is_def)
  from landmark_uniqueness [OF res] m n u
  have "(\<exists>i. filter (\<lambda>i. a_message i = ''Multiple main landmarks found'') (ar_issues res) = [i]
          \<and> a_type i = ''error'')"
    and "(\<exists>i \<in> set (ar_issues res).
         a_type i = ''warning'' \<and> a_message i = landmark_warning_message ''navigation'')"
    by simp_all
  with res m n u show ?thesis by (intro exI [of _ res]) simp
qed

text \<open>
  C7 as the claim words it reads "has neither \<open>aria-label\<close> nor \<open>aria-labelledby\<close>" as
  the attributes being absent. In the example both \<open>navigation\<close> elements carry an
  \<open>aria-label\<close> attribute (an empty one), so none of them has neither attribute, and the
  warning is emitted all the same.
\<close>

theorem landmark_warning_counterexample:
  "\<exists>res. fst (validate new_ARIAValidator example_api example_explain example_html) = Inr res \<and>
     length (query (attr_is ''role'' ''navigation'') (load example_api example_html)) = 2 \<and>
     (\<exists>i \<in> set (ar_issues res).
         a_type i = ''warning'' \<and> a_message i = landmark_warning_message ''navigation'') \<and>
     \<not> (\<exists>(el, anc) \<in> set (query (attr_is ''role'' ''navigation'')
                            (load example_api example_html)).
          attr el ''aria-label'' = None \<and> attr el ''aria-labelledby'' = None)"
proof -
  obtain res where res:
    "fst (validate new_ARIAValidator example_api example_explain example_html) = Inr res"
    and issues: "map (\<lambda>i. (a_type i, a_message i)) (ar_issues res) =
       [(''warning'', ''Empty value for aria-label''),
        (''warning'', ''Empty value for aria-label''),
        (''warning'', ''Redundant ARIA role on main element''),
        (''warning'', ''Redundant ARIA role on nav element''),
        (''warning'', ''Redundant ARIA role on nav element''),
        (''error'', ''Multiple main landmarks found''),
        (''warning'', ''Multiple navigation landmarks without unique labels'')]"
    using example_validated by (elim exE conjE)
  have "(''warning'', landmark_warning_message ''navigation'')
          \<in> set (map (\<lambda>i. (a_type i, a_message i)) (ar_issues res))"
    unfolding issues by (simp add: landmark_warning_message_def)
  then have w: "\<exists>i \<in> set (ar_issues res).
         a_type i = ''warning'' \<and> a_message i = landmark_warning_message ''navigation''"
    by auto
  have n: "length (query (attr_is ''role'' ''navigation'') (load example_api example_html)) = 2"
    using arg_cong [OF conjunct1 [OF conjunct2 [OF example_queries]], of length] by simp
  have u: "\<not> (\<exists>(el, anc) \<in> set (query (attr_is ''role'' ''navigation'')
                            (load example_api example_html)).
          attr el ''aria-label'' = None \<and> attr el ''aria-labelledby'' = None)"
    by (simp add: example_api_def example_document_def query_def all_elements_def attr_is_def)
  from res n w u show ?thesis by (intro exI [of _ res]) simp
qed

subsection \<open>The store of a call\<close>

lemma deref_kept:
  assumes "take (length h0) h = h0" and "deref h0 a = Some x"
  shows "deref h a = Some x"
proof -
  from assms(2) have a: "a < length h0" and x: "h0 ! a = x"
    by (auto simp: deref_def split: if_splits)
  from assms(1) have "length (take (length h0) h) = length h0" by simp
  then have len: "length h0 \<le> length h" by simp
  have "h ! a = take (length h0) h ! a" using a by simp
  then have "h ! a = x" using assms(1) x by simp
  with a len show ?thesis by (simp add: deref_def)
qed

lemma validator_at_kept:
  assumes "take (length h0) h = h0" and "validator_at h0 this = Some v"
  shows "validator_at h this = Some v"
proof -
  from assms(2) obtain r p s where obj: "deref h0 this = Some (ValidatorObject r p s)"
    by (auto simp: validator_at_def split: option.splits object.splits)
  with assms(2) have fields: "deref h0 r = Some (MapObject (roles v))"
    "deref h0 p = Some (SetObject (properties v))" "deref h0 s = Some (SetObject (states v))"
    by (auto simp: validator_at_def split: option.splits object.splits)
  from deref_kept [OF assms(1) obj] deref_kept [OF assms(1) fields(1)]
    deref_kept [OF assms(1) fields(2)] deref_kept [OF assms(1) fields(3)]
  show ?thesis by (simp add: validator_at_def)
qed

lemma validator_at_fields:
  assumes "validator_at h this = Some v"
  shows "this_roles h this = roles v" and "this_properties h this = properties v"
  using assms
  by (auto simp: validator_at_def this_roles_def this_properties_def
      split: option.splits object.splits)

lemma call_state_kept: "call_state h0 st h \<Longrightarrow> take (length h0) h = h0"
  by (simp add: call_state_def)

lemma call_state_push_issue:
  "call_state h0 st h \<Longrightarrow>
   call_state h0 (push_issue i st) (push_issue_store (locals_of h0) i h)"
  by (simp add: call_state_def push_issue_def push_issue_store_def locals_of_def modify_def)

lemma call_state_push_validUsage:
  "call_state h0 st h \<Longrightarrow>
   call_state h0 (push_validUsage u st) (push_validUsage_store (locals_of h0) u h)"
  by (simp add: call_state_def push_validUsage_def push_validUsage_store_def locals_of_def
      modify_def)

lemma call_state_count_role:
  "call_state h0 st h \<Longrightarrow>
   call_state h0 (count_role role st)
     (totalARIAElements_increment (locals_of h0) (rolesUsed_add (locals_of h0) role h))"
  by (simp add: call_state_def count_role_def totalARIAElements_increment_def
      rolesUsed_add_def locals_of_def modify_def deref_def)

lemma call_state_count_property:
  "call_state h0 st h \<Longrightarrow>
   call_state h0 (count_property prop st) (propertiesUsed_add (locals_of h0) prop h)"
  by (simp add: call_state_def count_property_def propertiesUsed_add_def locals_of_def
      modify_def deref_def)

lemma call_state_fold:
  assumes "\<And>x st h. call_state h0 st h \<Longrightarrow> call_state h0 (f x st) (g x h)"
  shows "call_state h0 st h \<Longrightarrow> call_state h0 (fold f xs st) (fold g xs h)"
  by (induction xs arbitrary: st h) (simp_all add: assms)

lemma call_outcome_each:
  assumes "\<And>x st h. call_state h0 st h \<Longrightarrow> call_outcome h0 (f x st) (g x h)"
  shows "call_state h0 st h \<Longrightarrow>
         call_outcome h0 (fold_throwing f xs st) (each_throwing g xs h)"
proof (induction xs arbitrary: st h)
  case Nil
  then show ?case by (simp add: call_outcome_def)
next
  case (Cons x xs)
  from assms [OF Cons.prems] have step: "call_outcome h0 (f x st) (g x h)" .
  show ?case
  proof (cases "f x st")
    case (Inl e)
    with step show ?thesis by (cases "g x h") (simp add: call_outcome_def)
  next
    case (Inr st')
    with step obtain h' where g: "g x h = (None, h')" and st': "call_state h0 st' h'"
      by (cases "g x h") (simp add: call_outcome_def)
    from Cons.IH [OF st'] Inr g show ?thesis by simp
  qed
qed

subsection \<open>The checks on the store and on values\<close>

lemma call_state_required_properties:
  "call_state h0 st h \<Longrightarrow>
   call_state h0 (check_required_properties api el role roleSpec st)
     (check_required_properties_store api (locals_of h0) el role roleSpec h)"
  unfolding check_required_properties_def check_required_properties_store_def
  by (rule call_state_fold) (simp add: call_state_push_issue)

lemma call_state_parent_requirements:
  "call_state h0 st h \<Longrightarrow>
   call_state h0 (check_parent_requirements api located role roleSpec st)
     (check_parent_requirements_store api (locals_of h0) located role roleSpec h)"
  by (simp add: check_parent_requirements_def check_parent_requirements_store_def Let_def
      call_state_push_issue split: option.splits)

lemma call_state_check_role:
  assumes "validator_at h0 this = Some v" and "call_state h0 st h"
  shows "call_state h0 (check_role v api located st)
           (check_role_store this api (locals_of h0) located h)"
proof (cases "attr (fst located) ''role''")
  case None
  with assms(2) show ?thesis by (simp add: check_role_def check_role_store_def)
next
  case (Some role)
  let ?h1 = "totalARIAElements_increment (locals_of h0) (rolesUsed_add (locals_of h0) role h)"
  have s1: "call_state h0 (count_role role st) ?h1"
    using assms(2) by (rule call_state_count_role)
  have rd: "this_roles ?h1 this = roles v"
    by (rule validator_at_fields(1) [OF validator_at_kept [OF call_state_kept [OF s1] assms(1)]])
  show ?thesis
  proof (cases "map_get (roles v) role")
    case None
    with Some rd call_state_push_issue [OF s1] show ?thesis
      by (simp add: check_role_def check_role_store_def Let_def)
  next
    case (Some roleSpec)
    note s1
    then have "call_state h0 (check_required_properties api (fst located) role roleSpec
                 (count_role role st))
               (check_required_properties_store api (locals_of h0) (fst located) role roleSpec ?h1)"
      by (rule call_state_required_properties)
    then have "call_state h0
        (check_parent_requirements api located role roleSpec
          (check_required_properties api (fst located) role roleSpec (count_role role st)))
        (check_parent_requirements_store api (locals_of h0) located role roleSpec
          (check_required_properties_store api (locals_of h0) (fst located) role roleSpec ?h1))"
      by (rule call_state_parent_requirements)
    from call_state_push_validUsage [OF this] Some \<open>attr (fst located) ''role'' = Some role\<close> rd
    show ?thesis by (simp add: check_role_def check_role_store_def Let_def)
  qed
qed

lemma call_outcome_id_reference:
  "call_state h0 st h \<Longrightarrow>
   call_outcome h0 (check_id_reference api doc el ident st)
     (check_id_reference_store api (locals_of h0) doc el ident h)"
  by (simp add: check_id_reference_def check_id_reference_store_def call_outcome_def
      call_state_push_issue call_state_kept split: sum.splits)

lemma call_state_empty_value:
  "call_state h0 st h \<Longrightarrow>
   call_state h0 (check_empty_value api prop el st)
     (check_empty_value_store api (locals_of h0) prop el h)"
  by (simp add: check_empty_value_def check_empty_value_store_def call_state_push_issue)

lemma call_outcome_check_property:
  assumes "call_state h0 st h"
  shows "call_outcome h0 (check_property api doc prop located st)
           (check_property_store api (locals_of h0) doc prop located h)"
proof -
  let ?st2 = "check_empty_value api prop (fst located) (count_property prop st)"
  let ?h2 = "check_empty_value_store api (locals_of h0) prop (fst located)
               (propertiesUsed_add (locals_of h0) prop h)"
  have s2: "call_state h0 ?st2 ?h2"
    by (rule call_state_empty_value [OF call_state_count_property [OF assms]])
  then have plain: "call_outcome h0 (Inr ?st2) (None, ?h2)" by (simp add: call_outcome_def)
  have ids: "call_outcome h0
      (fold_throwing (check_id_reference api doc (fst located)) ids ?st2)
      (each_throwing (check_id_reference_store api (locals_of h0) doc (fst located)) ids ?h2)"
    for ids
  proof (rule call_outcome_each [where f = "check_id_reference api doc (fst located)"
        and g = "check_id_reference_store api (locals_of h0) doc (fst located)"])
    show "call_state h0 s g \<Longrightarrow>
          call_outcome h0 (check_id_reference api doc (fst located) x s)
            (check_id_reference_store api (locals_of h0) doc (fst located) x g)" for x s g
      by (rule call_outcome_id_reference)
    show "call_state h0 ?st2 ?h2" by (rule s2)
  qed
  show ?thesis
  proof (cases "attr (fst located) prop")
    case None
    with plain show ?thesis by (simp add: check_property_def check_property_store_def Let_def)
  next
    case (Some ids_text)
    show ?thesis
    proof (cases "prop = ''aria-labelledby'' \<and> ids_text \<noteq> []")
      case True
      have "check_property api doc prop located st =
              fold_throwing (check_id_reference api doc (fst located))
                (split ids_text CHR '' '') ?st2"
        using Some True by (simp add: check_property_def Let_def)
      moreover have "check_property_store api (locals_of h0) doc prop located h =
              each_throwing (check_id_reference_store api (locals_of h0) doc (fst located))
                (split ids_text CHR '' '') ?h2"
        using Some True by (simp add: check_property_store_def Let_def)
      ultimately show ?thesis using ids [of "split ids_text CHR '' ''"] by (simp only:)
    next
      case False
      have "check_property api doc prop located st = Inr ?st2"
        using Some False by (auto simp: check_property_def Let_def)
      moreover have "check_property_store api (locals_of h0) doc prop located h = (None, ?h2)"
        using Some False by (auto simp: check_property_store_def Let_def)
      ultimately show ?thesis using plain by (simp only:)
    qed
  qed
qed

lemma call_outcome_check_properties:
  assumes "validator_at h0 this = Some v" and "call_state h0 st h"
  shows "call_outcome h0 (check_properties v api doc st)
           (check_properties_store this api (locals_of h0) doc h)"
proof -
  have rd: "this_properties h this = properties v"
    by (rule validator_at_fields(2)
          [OF validator_at_kept [OF call_state_kept [OF assms(2)] assms(1)]])
  have inner: "call_outcome h0
      (fold_throwing (check_property api doc p) (query (has_attr p) doc) s)
      (each_throwing (check_property_store api (locals_of h0) doc p)
         (query (has_attr p) doc) g)"
    if "call_state h0 s g" for p s g
  proof (rule call_outcome_each [where f = "check_property api doc p"
        and g = "check_property_store api (locals_of h0) doc p"])
    show "call_state h0 s' g' \<Longrightarrow>
          call_outcome h0 (check_property api doc p x s')
            (check_property_store api (locals_of h0) doc p x g')" for x s' g'
      by (rule call_outcome_check_property)
    show "call_state h0 s g" by (rule that)
  qed
  show ?thesis
    unfolding check_properties_def check_properties_store_def rd
  proof (rule call_outcome_each
      [where f = "\<lambda>p. fold_throwing (check_property api doc p) (query (has_attr p) doc)"
        and g = "\<lambda>p. each_throwing (check_property_store api (locals_of h0) doc p)
                     (query (has_attr p) doc)"])
    show "call_state h0 s g \<Longrightarrow>
          call_outcome h0
            (fold_throwing (check_property api doc p) (query (has_attr p) doc) s)
            (each_throwing (check_property_store api (locals_of h0) doc p)
               (query (has_attr p) doc) g)" for p s g
      by (rule inner)
    show "call_state h0 st h" by (rule assms(2))
  qed
qed

lemma call_state_check_redundant:
  "call_state h0 st h \<Longrightarrow>
   call_state h0 (check_redundant api doc st) (check_redundant_store api (locals_of h0) doc h)"
  unfolding check_redundant_def check_redundant_store_def
  by (rule call_state_fold) (simp add: split_def call_state_push_issue)

lemma call_state_check_hidden:
  "call_state h0 st h \<Longrightarrow>
   call_state h0 (check_hidden api doc st) (check_hidden_store api (locals_of h0) doc h)"
  unfolding check_hidden_def check_hidden_store_def
  by (rule call_state_fold) (simp add: split_def call_state_push_issue)

lemma call_state_check_landmark:
  "call_state h0 st h \<Longrightarrow>
   call_state h0 (check_landmark doc landmark st)
     (check_landmark_store (locals_of h0) doc landmark h)"
  by (auto simp: check_landmark_def check_landmark_store_def Let_def call_state_push_issue)

subsection \<open>A call on the store\<close>

lemma call_state_initial:
  "call_state h0 initial_result
     (h0 @ [IssueArray [], StringArray [], SetObject [], SetObject [], SetObject [],
            StatisticsObject 0 (length h0 + 2) (length h0 + 3) (length h0 + 4)])"
  by (simp add: call_state_def initial_result_def nth_append)

lemma validate_store_checks:
  "validate_store this api explain html h0 =
     (let doc = load api html;
          l = locals_of h0;
          h6 = h0 @ [IssueArray [], StringArray [], SetObject [], SetObject [], SetObject [],
                     StatisticsObject 0 (length h0 + 2) (length h0 + 3) (length h0 + 4)];
          h7 = fold (check_role_store this api l) (query (has_attr ''role'') doc) h6
      in (case check_properties_store this api l doc h7 of
            (Some e, h8) \<Rightarrow> (Inl e, h8)
          | (None, h8) \<Rightarrow>
              let h11 = fold (check_landmark_store l doc) landmarks
                          (check_hidden_store api l doc (check_redundant_store api l doc h8))
              in (Inr (length h11 + 1),
                  h11 @ [IssueArray (map (enhanceIssue explain) (issue_array h11 (length h0))),
                         ResultObject (length h11) (length h0 + 1) (length h0 + 5)])))"
  by (simp add: validate_store_def alloc_def locals_of_def Let_def eval_nat_numeral
      split: prod.splits option.splits)

lemma call_state_read:
  assumes "call_state h0 st h"
  shows "issue_array h (length h0) = ar_issues st"
    and "deref (h @ ext) (length h0 + 1) = Some (StringArray (ar_validUsages st))"
    and "statistics_at (h @ ext) (length h0 + 5) = Some (ar_statistics st)"
  using assms
  by (simp_all add: call_state_def issue_array_def deref_def statistics_at_def nth_append)

lemma result_at_kept:
  assumes "take (length h) h' = h" and "result_at h a = Some r"
  shows "result_at h' a = Some r"
proof -
  from assms(2) obtain i u s where obj: "deref h a = Some (ResultObject i u s)"
    by (auto simp: result_at_def split: option.splits object.splits)
  with assms(2) obtain stats where parts: "deref h i = Some (IssueArray (ar_issues r))"
    "deref h u = Some (StringArray (ar_validUsages r))" "statistics_at h s = Some stats"
    and r: "r = \<lparr>ar_issues = ar_issues r, ar_validUsages = ar_validUsages r,
                  ar_statistics = stats\<rparr>"
    by (auto simp: result_at_def split: option.splits object.splits)
  from parts(3) obtain n ru pu su where st: "deref h s = Some (StatisticsObject n ru pu su)"
    by (auto simp: statistics_at_def split: option.splits object.splits)
  with parts(3) have sets: "deref h ru = Some (SetObject (rolesUsed stats))"
    "deref h pu = Some (SetObject (propertiesUsed stats))"
    "deref h su = Some (SetObject (statesUsed stats))" and n: "n = totalARIAElements stats"
    by (auto simp: statistics_at_def split: option.splits object.splits)
  from deref_kept [OF assms(1) st] deref_kept [OF assms(1) sets(1)]
    deref_kept [OF assms(1) sets(2)] deref_kept [OF assms(1) sets(3)] n
  have "statistics_at h' s = Some stats" by (simp add: statistics_at_def)
  with deref_kept [OF assms(1) obj] deref_kept [OF assms(1) parts(1)]
    deref_kept [OF assms(1) parts(2)]
  have "result_at h' a = Some \<lparr>ar_issues = ar_issues r, ar_validUsages = ar_validUsages r,
                                ar_statistics = stats\<rparr>"
    by (simp add: result_at_def)
  with r show ?thesis by simp
qed

lemma outcome_kept:
  assumes "take (length h) h' = h" and "outcome h out = Some x"
  shows "outcome h' out = Some x"
proof (cases out)
  case (Inl e)
  with assms(2) show ?thesis by (simp add: outcome_def)
next
  case (Inr a)
  with assms(2) obtain r where "result_at h a = Some r" and x: "x = Inr r"
    by (auto simp: outcome_def)
  from result_at_kept [OF assms(1) this(1)] Inr x show ?thesis by (simp add: outcome_def)
qed

lemma validate_store_value:
  assumes v: "validator_at h0 this = Some v"
    and run: "validate_store this api explain html h0 = (out, h')"
  shows "take (length h0) h' = h0 \<and> outcome h' out = Some (fst (validate v api explain html))"
proof -
  define doc where "doc = load api html"
  define h6 where "h6 = h0 @ [IssueArray [], StringArray [], SetObject [], SetObject [],
     SetObject [], StatisticsObject 0 (length h0 + 2) (length h0 + 3) (length h0 + 4)]"
  define h7 where
    "h7 = fold (check_role_store this api (locals_of h0)) (query (has_attr ''role'') doc) h6"
  define st1 where
    "st1 = fold (check_role v api) (query (has_attr ''role'') doc) initial_result"
  have s7: "call_state h0 st1 h7"
    unfolding st1_def h7_def
  proof (rule call_state_fold [where f = "check_role v api"
        and g = "check_role_store this api (locals_of h0)"])
    show "call_state h0 s g \<Longrightarrow>
          call_state h0 (check_role v api x s) (check_role_store this api (locals_of h0) x g)"
      for x s g
      by (rule call_state_check_role [OF v])
    show "call_state h0 initial_result h6" unfolding h6_def by (rule call_state_initial)
  qed
  have o8: "call_outcome h0 (check_properties v api doc st1)
              (check_properties_store this api (locals_of h0) doc h7)"
    by (rule call_outcome_check_properties [OF v s7])
  have run': "(case check_properties_store this api (locals_of h0) doc h7 of
        (Some e, h8) \<Rightarrow> (Inl e, h8)
      | (None, h8) \<Rightarrow>
          let h11 = fold (check_landmark_store (locals_of h0) doc) landmarks
                      (check_hidden_store api (locals_of h0) doc
                        (check_redundant_store api (locals_of h0) doc h8))
          in (Inr (length h11 + 1),
              h11 @ [IssueArray (map (enhanceIssue explain) (issue_array h11 (length h0))),
                     ResultObject (length h11) (length h0 + 1) (length h0 + 5)])) = (out, h')"
    using run by (simp only: validate_store_checks Let_def doc_def h6_def h7_def)
  show ?thesis
  proof (cases "check_properties v api doc st1")
    case (Inl e)
    with o8 obtain h8 where
      p: "check_properties_store this api (locals_of h0) doc h7 = (Some e, h8)"
      and k: "take (length h0) h8 = h0"
      by (cases "check_properties_store this api (locals_of h0) doc h7")
         (simp add: call_outcome_def)
    from run' p have "out = Inl e" and "h' = h8" by simp_all
    moreover have "fst (validate v api explain html) = Inl e"
      using Inl by (simp add: validate_def Let_def doc_def [symmetric] st1_def [symmetric])
    ultimately show ?thesis using k by (simp add: outcome_def)
  next
    case (Inr st2)
    with o8 obtain h8 where
      p: "check_properties_store this api (locals_of h0) doc h7 = (None, h8)"
      and s8: "call_state h0 st2 h8"
      by (cases "check_properties_store this api (locals_of h0) doc h7")
         (simp add: call_outcome_def)
    define st5 where
      "st5 = fold (check_landmark doc) landmarks (check_hidden api doc (check_redundant api doc st2))"
    define h11 where
      "h11 = fold (check_landmark_store (locals_of h0) doc) landmarks
               (check_hidden_store api (locals_of h0) doc
                 (check_redundant_store api (locals_of h0) doc h8))"
    have s11: "call_state h0 st5 h11"
      unfolding st5_def h11_def
    proof (rule call_state_fold [where f = "check_landmark doc"
          and g = "check_landmark_store (locals_of h0) doc"])
      show "call_state h0 s g \<Longrightarrow>
            call_state h0 (check_landmark doc x s) (check_landmark_store (locals_of h0) doc x g)"
        for x s g
        by (rule call_state_check_landmark)
      show "call_state h0 (check_hidden api doc (check_redundant api doc st2))
              (check_hidden_store api (locals_of h0) doc
                (check_redundant_store api (locals_of h0) doc h8))"
        by (rule call_state_check_hidden [OF call_state_check_redundant [OF s8]])
    qed
    let ?ext = "[IssueArray (map (enhanceIssue explain) (issue_array h11 (length h0))),
                 ResultObject (length h11) (length h0 + 1) (length h0 + 5)]"
    from run' p have out: "out = Inr (length h11 + 1)" and h': "h' = h11 @ ?ext"
      by (simp_all add: Let_def h11_def)
    have val: "fst (validate v api explain html) =
                 Inr (st5\<lparr>ar_issues := map (enhanceIssue explain) (ar_issues st5)\<rparr>)"
      using Inr
      by (simp add: validate_def Let_def doc_def [symmetric] st1_def [symmetric]
          st5_def [symmetric])
    from s11 have len: "length h0 \<le> length h11" and k11: "take (length h0) h11 = h0"
      by (simp_all add: call_state_def)
    then have k: "take (length h0) h' = h0" by (simp add: h')
    have a1: "deref h' (length h11 + 1) =
                Some (ResultObject (length h11) (length h0 + 1) (length h0 + 5))"
      by (simp add: h' deref_def nth_append)
    have a2: "deref h' (length h11) =
                Some (IssueArray (map (enhanceIssue explain) (ar_issues st5)))"
      by (simp add: h' deref_def nth_append call_state_read(1) [OF s11])
    have a3: "deref h' (length h0 + 1) = Some (StringArray (ar_validUsages st5))"
      unfolding h' by (rule call_state_read(2) [OF s11])
    have a4: "statistics_at h' (length h0 + 5) = Some (ar_statistics st5)"
      unfolding h' by (rule call_state_read(3) [OF s11])
    have "result_at h' (length h11 + 1) =
            Some \<lparr>ar_issues = map (enhanceIssue explain) (ar_issues st5),
                  ar_validUsages = ar_validUsages st5, ar_statistics = ar_statistics st5\<rparr>"
      by (simp only: result_at_def a1 a2 a3 a4 option.case object.case prod.case)
    then have "result_at h' (length h11 + 1) =
            Some (st5\<lparr>ar_issues := map (enhanceIssue explain) (ar_issues st5)\<rparr>)"
      by simp
    with k out val show ?thesis by (simp add: outcome_def)
  qed
qed

subsection \<open>Running the validator again\<close>

text \<open>
  C9. Running \<open>validate\<close> twice on the same text gives identical results. The second call
  runs on the store that the first call has left. A call changes no object that was
  there before it: the validator object, the \<open>Map\<close> of its roles and its two \<open>Set\<close> objects
  are after each call what they were, and the arrays, the \<open>Set\<close> objects and the
  \<open>statistics\<close> object that a call writes to are its own. So both calls have the same
  outcome, which is the one that \<open>validate\<close> computes from the roles and properties of the
  validator: the same issues in the same order, the same valid usages and the same
  statistics (\<open>totalARIAElements\<close>, \<open>rolesUsed\<close>, \<open>propertiesUsed\<close>, \<open>statesUsed\<close>), or the same
  error; and the second call leaves the result of the first as it was. The parser, the
  serializer and the selector engine are functions of their arguments.
\<close>

theorem validate_twice:
  assumes "validator_at h this = Some v"
    and "validate_store this api explain html h = (out1, h1)"
    and "validate_store this api explain html h1 = (out2, h2)"
  shows "validator_at h1 this = Some v \<and> validator_at h2 this = Some v \<and>
         outcome h1 out1 = Some (fst (validate v api explain html)) \<and>
         outcome h2 out2 = outcome h1 out1 \<and>
         outcome h2 out1 = outcome h1 out1"
proof -
  from validate_store_value [OF assms(1) assms(2)]
  have k1: "take (length h) h1 = h"
    and o1: "outcome h1 out1 = Some (fst (validate v api explain html))"
    by simp_all
  have v1: "validator_at h1 this = Some v" by (rule validator_at_kept [OF k1 assms(1)])
  from validate_store_value [OF v1 assms(3)]
  have k2: "take (length h1) h2 = h1"
    and o2: "outcome h2 out2 = Some (fst (validate v api explain html))"
    by simp_all
  have v2: "validator_at h2 this = Some v" by (rule validator_at_kept [OF k2 v1])
  have o3: "outcome h2 out1 = Some (fst (validate v api explain html))"
    by (rule outcome_kept [OF k2 o1])
  from v1 v2 o1 o2 o3 show ?thesis by simp
qed

theorem validate_twice_witness:
  "\<exists>res. validator_at example_store 3 = Some new_ARIAValidator \<and>
     outcome (snd (validate_store 3 example_api example_explain example_html example_store))
       (fst (validate_store 3 example_api example_explain example_html example_store))
       = Some (Inr res) \<and>
     outcome
       (snd (validate_store 3 example_api example_explain example_html
          (snd (validate_store 3 example_api example_explain example_html example_store))))
       (fst (validate_store 3 example_api example_explain example_html
          (snd (validate_store 3 example_api example_explain example_html example_store))))
       = Some (Inr res) \<and>
     validator_at
       (snd (validate_store 3 example_api example_explain example_html
          (snd (validate_store 3 example_api example_explain example_html example_store)))) 3
       = Some new_ARIAValidator \<and>
     length (ar_issues res) = 7"
proof -
  let ?run1 = "validate_store 3 example_api example_explain example_html example_store"
  let ?run2 = "validate_store 3 example_api example_explain example_html (snd ?run1)"
  obtain res where res:
    "fst (validate new_ARIAValidator example_api example_explain example_html) = Inr res"
    and issues: "map (\<lambda>i. (a_type i, a_message i)) (ar_issues res) =
       [(''warning'', ''Empty value for aria-label''),
        (''warning'', ''Empty value for aria-label''),
        (''warning'', ''Redundant ARIA role on main element''),
        (''warning'', ''Redundant ARIA role on nav element''),
        (''warning'', ''Redundant ARIA role on nav element''),
        (''error'', ''Multiple main landmarks found''),
        (''warning'', ''Multiple navigation landmarks without unique labels'')]"
    using example_validated by (elim exE conjE)
  have len: "length (ar_issues res) = 7"
    using arg_cong [OF issues, of length] by simp
  have v: "validator_at example_store 3 = Some new_ARIAValidator"
    by (simp add: validator_at_def example_store_def deref_def)
  have r1: "?run1 = (fst ?run1, snd ?run1)" by simp
  have r2: "?run2 = (fst ?run2, snd ?run2)" by simp
  from validate_twice [OF v r1 r2] res len v show ?thesis
    by (intro exI [of _ res]) simp
qed

subsection \<open>The statistics\<close>

text \<open>
  C10. In every result that \<open>validate\<close> returns, \<open>statistics.statesUsed\<close> is empty: it
  starts empty and no check adds to it, also when the document carries state
  attributes such as \<open>aria-checked\<close> or \<open>aria-hidden\<close>.
\<close>

theorem statesUsed_empty:
  assumes "fst (validate this api explain html) = Inr res"
  shows "statesUsed (ar_statistics res) = []"
proof -
  from validate_Inr [OF assms] obtain st4 where "quiet st4"
    and "res = (fold (check_landmark (load api html)) landmarks st4)
             \<lparr>ar_issues := map (enhanceIssue explain)
                 (ar_issues (fold (check_landmark (load api html)) landmarks st4))\<rparr>"
    by blast
  then show ?thesis by (simp add: statistics_landmarks quiet_def)
qed

theorem statesUsed_empty_witness:
  "\<exists>res. fst (validate new_ARIAValidator example_api example_explain example_html) = Inr res \<and>
     query (has_attr ''aria-checked'') (load example_api example_html) \<noteq> [] \<and>
     propertiesUsed (ar_statistics res) = [''aria-label'', ''aria-hidden'', ''aria-checked''] \<and>
     statesUsed (ar_statistics res) = []"
proof -
  obtain res where res:
    "fst (validate new_ARIAValidator example_api example_explain example_html) = Inr res"
    and stats: "ar_statistics res =
       \<lparr>totalARIAElements = 5, rolesUsed = [''main'', ''navigation'', ''checkbox''],
        propertiesUsed = [''aria-label'', ''aria-hidden'', ''aria-checked''], statesUsed = []\<rparr>"
    using example_validated by (elim exE conjE)
  have c: "query (has_attr ''aria-checked'') (load example_api example_html) \<noteq> []"
    using conjunct2 [OF conjunct2 [OF example_queries]] by auto
  from statesUsed_empty [OF res] res stats c show ?thesis by (intro exI [of _ res]) simp
qed

section \<open>Properties of the evaluator\<close>

subsection \<open>The rule images-alt-text\<close>

lemma images_alt_text_body_findings:
  "images_alt_text_body api located found = found @ image_findings api (fst located)"
  by (simp add: images_alt_text_body_def image_findings_def Let_def)

lemma images_fold:
  "fold (images_alt_text_body api) xs found
     = found @ concat (map (\<lambda>(el, anc). image_findings api el) xs)"
proof (induction xs arbitrary: found)
  case Nil
  then show ?case by simp
next
  case (Cons x xs)
  then show ?case
    by (simp add: images_alt_text_body_findings [of api x] split: prod.splits)
qed

lemma registered_images_alt_text:
  "map_of (wcagRules new_AccessibilityEvaluator) ''images-alt-text'' = Some images_alt_text"
  by (simp add: new_AccessibilityEvaluator_def initializeRules_def Let_def)

text \<open>
  C6. The rule registered as \<open>images-alt-text\<close> returns, for every document, what its
  loop pushes for each \<open>img\<close> element in document order, and for one element that is:
  exactly one issue, of type \<open>error\<close>, rule \<open>WCAG 1.1.1\<close>, level \<open>A\<close> and impact
  \<open>critical\<close>, when the element has no \<open>alt\<close> attribute and no role that includes
  \<open>presentation\<close>; no issue otherwise, and so none for an \<open>alt\<close> that is present but empty.
\<close>

theorem images_alt_text_rule:
  "map_of (wcagRules new_AccessibilityEvaluator) ''images-alt-text'' = Some images_alt_text \<and>
   images_alt_text api doc
     = Inr (concat (map (\<lambda>(el, anc). image_findings api el) (query (has_tag ''img'') doc))) \<and>
   (\<forall>el. attr el ''alt'' = None \<and> \<not> presentation_like el \<longrightarrow>
      (\<exists>i. image_findings api el = [i] \<and> i_type i = ''error'' \<and> i_rule i = ''WCAG 1.1.1'' \<and>
           i_level i = Some ''A'' \<and> i_impact i = Some ''critical'')) \<and>
   (\<forall>el. attr el ''alt'' \<noteq> None \<or> presentation_like el \<longrightarrow> image_findings api el = []) \<and>
   (\<forall>el. attr el ''alt'' = Some [] \<longrightarrow> image_findings api el = [])"
proof (intro conjI allI impI)
  show "map_of (wcagRules new_AccessibilityEvaluator) ''images-alt-text'' = Some images_alt_text"
    by (rule registered_images_alt_text)
  show "images_alt_text api doc
     = Inr (concat (map (\<lambda>(el, anc). image_findings api el) (query (has_tag ''img'') doc)))"
    by (simp add: images_alt_text_def images_fold)
next
  fix el
  assume "attr el ''alt'' = None \<and> \<not> presentation_like el"
  then show "\<exists>i. image_findings api el = [i] \<and> i_type i = ''error'' \<and> i_rule i = ''WCAG 1.1.1'' \<and>
           i_level i = Some ''A'' \<and> i_impact i = Some ''critical''"
    by (simp add: image_findings_def images_alt_text_body_def rule_issue_def)
next
  fix el
  assume "attr el ''alt'' \<noteq> None \<or> presentation_like el"
  then show "image_findings api el = []"
    by (auto simp: image_findings_def images_alt_text_body_def)
next
  fix el
  assume "attr el ''alt'' = Some []"
  then show "image_findings api el = []"
    by (simp add: image_findings_def images_alt_text_body_def)
qed

lemma images_query:
  "map fst (query (has_tag ''img'') (load images_api images_html))
     = [Element ''img'' [(''src'', ''x.jpg'')] [],
        Element ''img'' [(''src'', ''d.jpg''), (''alt'', [])] [],
        Element ''img'' [(''src'', ''t.jpg''), (''alt'', ''Description'')] []]"
  by (simp add: images_api_def images_document_def query_def all_elements_def)

lemma findings_fst:
  "concat (map (\<lambda>(el, anc). image_findings api el) xs)
     = concat (map (image_findings api) (map fst xs))"
  by (induction xs) auto

theorem images_alt_text_rule_witness:
  "attr (Element ''img'' [(''src'', ''x.jpg'')] []) ''alt'' = None \<and>
   \<not> presentation_like (Element ''img'' [(''src'', ''x.jpg'')] []) \<and>
   attr (Element ''img'' [(''src'', ''d.jpg''), (''alt'', [])] []) ''alt'' = Some [] \<and>
   (\<exists>i. images_alt_text images_api (load images_api images_html) = Inr [i] \<and>
        i_type i = ''error'' \<and> i_rule i = ''WCAG 1.1.1'' \<and> i_level i = Some ''A'' \<and>
        i_impact i = Some ''critical'' \<and> i_selector i = Some ''img'')"
proof -
  let ?x = "Element ''img'' [(''src'', ''x.jpg'')] []"
  let ?d = "Element ''img'' [(''src'', ''d.jpg''), (''alt'', [])] []"
  let ?t = "Element ''img'' [(''src'', ''t.jpg''), (''alt'', ''Description'')] []"
  note rule = images_alt_text_rule [of images_api "load images_api images_html"]
  have x: "attr ?x ''alt'' = None \<and> \<not> presentation_like ?x"
    by (simp add: presentation_like_def)
  have d: "attr ?d ''alt'' = Some []" by simp
  have t: "attr ?t ''alt'' \<noteq> None \<or> presentation_like ?t" by simp
  from rule x obtain i where i: "image_findings images_api ?x = [i]" "i_type i = ''error''"
    "i_rule i = ''WCAG 1.1.1''" "i_level i = Some ''A''" "i_impact i = Some ''critical''"
    by blast
  from rule d have fd: "image_findings images_api ?d = []" by blast
  from rule t have ft: "image_findings images_api ?t = []" by blast
  have "images_alt_text images_api (load images_api images_html) = Inr [i]"
    using rule i(1) fd ft by (simp add: findings_fst images_query)
  moreover have "i_selector i = Some ''img''"
    using i(1)
    by (auto simp: image_findings_def images_alt_text_body_def presentation_like_def
        rule_issue_def getSelector_def truthy_def class_selector_def)
  ultimately show ?thesis using x d i by auto
qed

subsection \<open>The standard of the issues that the registered rules raise\<close>

lemma fold_throwing_inv_set:
  assumes "\<And>x s s'. x \<in> set xs \<Longrightarrow> P s \<Longrightarrow> body x s = Inr s' \<Longrightarrow> P s'"
    and "P s" and "fold_throwing body xs s = Inr s'"
  shows "P s'"
  using assms
proof (induction xs arbitrary: s)
  case Nil
  then show ?case by simp
next
  case (Cons x xs)
  from Cons.prems(3) obtain s1 where s1: "body x s = Inr s1"
    and rest: "fold_throwing body xs s1 = Inr s'"
    by (auto split: sum.splits)
  have s1P: "P s1" using Cons.prems(1) [of x s s1] Cons.prems(2) s1 by simp
  show ?case
  proof (rule Cons.IH [of s1])
    show "P s1" by (rule s1P)
    show "fold_throwing body xs s1 = Inr s'" by (rule rest)
  next
    fix y t t'
    assume "y \<in> set xs" "P t" "body y t = Inr t'"
    then show "P t'" using Cons.prems(1) [of y t t'] by simp
  qed
qed

lemma not_axe_images:
  assumes "images_alt_text api doc = Inr found"
  shows "list_all (\<lambda>i. i_standard i \<noteq> ''AXE'') found"
proof -
  have "list_all (\<lambda>i. i_standard i \<noteq> ''AXE'')
          (fold (images_alt_text_body api) (query (has_tag ''img'') doc) [])"
    by (rule fold_inv [where P = "list_all (\<lambda>i. i_standard i \<noteq> ''AXE'')"])
       (simp_all add: images_alt_text_body_def Let_def rule_issue_def)
  with assms show ?thesis by (simp add: images_alt_text_def)
qed

lemma not_axe_headings:
  assumes "headings_structure api doc = Inr found"
  shows "list_all (\<lambda>i. i_standard i \<noteq> ''AXE'') found"
proof -
  have "list_all (\<lambda>i. i_standard i \<noteq> ''AXE'')
          (fst (fold headings_structure_body (query is_heading doc) ([], 0)))"
    by (rule fold_inv [where P = "\<lambda>st. list_all (\<lambda>i. i_standard i \<noteq> ''AXE'') (fst st)"])
       (auto simp: headings_structure_body_def Let_def rule_issue_def split: prod.splits)
  with assms show ?thesis by (simp add: headings_structure_def)
qed

lemma not_axe_form_labels:
  assumes "form_labels api doc = Inr found"
  shows "list_all (\<lambda>i. i_standard i \<noteq> ''AXE'') found"
proof (rule fold_throwing_inv [where P = "list_all (\<lambda>i. i_standard i \<noteq> ''AXE'')"
      and body = "form_labels_body api doc" and xs = "query is_form_control doc" and s = "[]"])
  show "list_all (\<lambda>i. i_standard i \<noteq> ''AXE'') []" by simp
  show "fold_throwing (form_labels_body api doc) (query is_form_control doc) [] = Inr found"
    using assms by (simp add: form_labels_def)
next
  fix x s s'
  assume "list_all (\<lambda>i. i_standard i \<noteq> ''AXE'') s" "form_labels_body api doc x s = Inr s'"
  then show "list_all (\<lambda>i. i_standard i \<noteq> ''AXE'') s'"
    by (auto simp: form_labels_body_def Let_def rule_issue_def split: if_splits sum.splits)
qed

lemma not_axe_required_attr:
  assumes "aria_required_attr api doc = Inr found"
  shows "list_all (\<lambda>i. i_standard i \<noteq> ''AXE'') found"
proof (rule fold_throwing_inv [where P = "list_all (\<lambda>i. i_standard i \<noteq> ''AXE'')"
      and body = "aria_required_attr_body api" and xs = "query (has_attr ''role'') doc"
      and s = "[]"])
  show "list_all (\<lambda>i. i_standard i \<noteq> ''AXE'') []" by simp
  show "fold_throwing (aria_required_attr_body api) (query (has_attr ''role'') doc) [] = Inr found"
    using assms by (simp add: aria_required_attr_def)
next
  fix x s s'
  assume s: "list_all (\<lambda>i. i_standard i \<noteq> ''AXE'') s"
    and body: "aria_required_attr_body api x s = Inr s'"
  have inner: "\<And>role attrs. list_all (\<lambda>i. i_standard i \<noteq> ''AXE'')
      (fold (\<lambda>a acc.
                           if attr (fst x) a = None
                           then acc @ [rule_issue ''error'' ''ARIA Required Attributes''
                                  (''Elements with role=\"'' @ role @ ''\" must have '' @ a
                                     @ '' attribute'')
                                  (Some (take 100 (outerHTML api (fst x)))) (Some (getSelector (fst x)))
                                  ''ARIA'' None (Some ''serious'')]
                           else acc) attrs s)"
    by (rule fold_inv [where P = "list_all (\<lambda>i. i_standard i \<noteq> ''AXE'')"])
       (simp_all add: rule_issue_def s)
  from body s inner show "list_all (\<lambda>i. i_standard i \<noteq> ''AXE'') s'"
    by (auto simp: aria_required_attr_body_def Let_def split: option.splits if_splits)
qed

lemma not_axe_valid_values:
  assumes "aria_valid_values api doc = Inr found"
  shows "list_all (\<lambda>i. i_standard i \<noteq> ''AXE'') found"
proof -
  have body: "\<And>entry x s. list_all (\<lambda>i. i_standard i \<noteq> ''AXE'') s \<Longrightarrow>
      list_all (\<lambda>i. i_standard i \<noteq> ''AXE'') (aria_valid_values_body api entry x s)"
    by (auto simp: aria_valid_values_body_def Let_def rule_issue_def
        split: prod.splits option.splits)
  have inner: "\<And>entry s. list_all (\<lambda>i. i_standard i \<noteq> ''AXE'') s \<Longrightarrow>
      list_all (\<lambda>i. i_standard i \<noteq> ''AXE'')
        (fold (aria_valid_values_body api entry) (query (has_attr (fst entry)) doc) s)"
    by (rule fold_inv [where P = "list_all (\<lambda>i. i_standard i \<noteq> ''AXE'')"]) (simp_all add: body)
  have "list_all (\<lambda>i. i_standard i \<noteq> ''AXE'')
      (fold (\<lambda>entry found.
            fold (aria_valid_values_body api entry) (query (has_attr (fst entry)) doc) found)
          validValues [])"
    by (rule fold_inv [where P = "list_all (\<lambda>i. i_standard i \<noteq> ''AXE'')"]) (simp_all add: inner)
  with assms show ?thesis by (simp add: aria_valid_values_def)
qed

lemma registry:
  "wcagRules new_AccessibilityEvaluator =
     [(''images-alt-text'', images_alt_text), (''headings-structure'', headings_structure),
      (''form-labels'', form_labels)] \<and>
   ariaRules new_AccessibilityEvaluator =
     [(''aria-required-attr'', aria_required_attr), (''aria-valid-values'', aria_valid_values)]"
  by (simp add: new_AccessibilityEvaluator_def initializeRules_def Let_def)

lemma not_axe_run_rule:
  assumes "\<And>found. snd entry api doc = Inr found \<Longrightarrow> list_all (\<lambda>i. i_standard i \<noteq> ''AXE'') found"
    and "list_all (\<lambda>i. i_standard i \<noteq> ''AXE'') (fst st)"
    and "run_rule standard api doc entry st = Inr st'"
  shows "list_all (\<lambda>i. i_standard i \<noteq> ''AXE'') (fst st')"
  using assms
  by (cases entry; cases st) (auto simp: run_rule_def split: sum.splits if_splits)

lemma not_axe_run_rules:
  assumes "run_rules new_AccessibilityEvaluator api doc = Inr (found, passed)"
  shows "list_all (\<lambda>i. i_standard i \<noteq> ''AXE'') found"
proof -
  let ?P = "\<lambda>st :: AccessibilityIssue list \<times> string list.
              list_all (\<lambda>i. i_standard i \<noteq> ''AXE'') (fst st)"
  from assms obtain st1 where
    w: "fold_throwing (run_rule ''WCAG'' api doc) (wcagRules new_AccessibilityEvaluator) ([], [])
          = Inr st1"
    and a: "fold_throwing (run_rule ''ARIA'' api doc) (ariaRules new_AccessibilityEvaluator) st1
          = Inr (found, passed)"
    by (auto simp: run_rules_def split: sum.splits)
  have "?P st1"
  proof (rule fold_throwing_inv_set [where P = ?P, OF _ _ w])
    show "?P ([], [])" by simp
  next
    fix x s s'
    assume "x \<in> set (wcagRules new_AccessibilityEvaluator)" "?P s"
      "run_rule ''WCAG'' api doc x s = Inr s'"
    then show "?P s'"
      by (intro not_axe_run_rule [of x api doc s "''WCAG''" s'])
         (auto simp: registry not_axe_images not_axe_headings not_axe_form_labels)
  qed
  have "?P (found, passed)"
  proof (rule fold_throwing_inv_set [where P = ?P, OF _ _ a])
    show "?P st1" by fact
  next
    fix x s s'
    assume "x \<in> set (ariaRules new_AccessibilityEvaluator)" "?P s"
      "run_rule ''ARIA'' api doc x s = Inr s'"
    then show "?P s'"
      by (intro not_axe_run_rule [of x api doc s "''ARIA''" s'])
         (auto simp: registry not_axe_required_attr not_axe_valid_values)
  qed
  then show ?thesis by simp
qed

lemma standard_enhanceIssue:
  "i_standard (ExplanationGenerator_enhanceIssue explanationMap issue) = i_standard issue"
  by (simp add: ExplanationGenerator_enhanceIssue_def spread_explanation_def split: option.splits)

lemma byStandard_None:
  "fold (\<lambda>issue m. count_up m (i_standard issue)) found m k = None
     \<longleftrightarrow> m k = None \<and> k \<notin> i_standard ` set found"
  by (induction found arbitrary: m) (auto simp: count_up_def)

lemma runAxeCore_fails:
  "axe_fails axe html \<Longrightarrow> runAxeCore axe html = Inr [] \<or> (\<exists>e. runAxeCore axe html = Inl e)"
  by (auto simp: axe_fails_def runAxeCore_def split: sum.splits)

text \<open>
  C8. When \<open>evaluateHTML\<close> reaches the axe-core collaborator (the registered rules have
  returned) and the collaborator fails (\<open>new JSDOM\<close> throws or \<open>axe.run\<close> rejects), the
  failure is caught: \<open>evaluateHTML\<close> returns a result that holds every issue of the
  registered WCAG and ARIA rules, with its explanation, the passed checks and the
  summary, and no issue of the standard \<open>AXE\<close>.
\<close>

theorem axe_failure_contained:
  assumes "axe_fails axe html"
    and "run_rules new_AccessibilityEvaluator api (load api html) = Inr (found, passed)"
  shows "\<exists>res. evaluateHTML new_AccessibilityEvaluator api axe explanationMap html = Inr res \<and>
           issues res = map (ExplanationGenerator_enhanceIssue explanationMap) found \<and>
           passedChecks res = passed \<and>
           totalIssues (summary res) = length found \<and>
           filter (\<lambda>i. i_standard i = ''AXE'') (issues res) = [] \<and>
           byStandard (summary res) ''AXE'' = None"
proof -
  let ?enhanced = "map (ExplanationGenerator_enhanceIssue explanationMap) found"
  have ev: "evaluateHTML new_AccessibilityEvaluator api axe explanationMap html
      = Inr \<lparr>issues = ?enhanced, summary = summarize ?enhanced, passedChecks = passed\<rparr>"
    using runAxeCore_fails [OF assms(1)] assms(2)
    by (auto simp: evaluateHTML_def Let_def)
  have na: "list_all (\<lambda>i. i_standard i \<noteq> ''AXE'') ?enhanced"
    using not_axe_run_rules [OF assms(2)]
    by (simp add: list_all_iff standard_enhanceIssue)
  then have f: "filter (\<lambda>i. i_standard i = ''AXE'') ?enhanced = []"
    by (auto simp: filter_empty_conv list_all_iff)
  have b: "byStandard (summarize ?enhanced) ''AXE'' = None"
    using na by (auto simp: summarize_def byStandard_None list_all_iff)
  from ev f b show ?thesis by (simp add: summarize_def)
qed

lemmas evaluator_defs = run_rules_def run_rule_def images_alt_text_def images_alt_text_body_def
  presentation_like_def headings_structure_def headings_structure_body_def is_heading_def
  form_labels_def form_labels_body_def is_form_control_def aria_required_attr_def
  aria_required_attr_body_def aria_valid_values_def aria_valid_values_body_def validValues_def
  rule_issue_def getSelector_def class_selector_def truthy_def query_def all_elements_def
  has_attr_def Let_def

lemma images_rules_run:
  "\<exists>found passed.
     run_rules new_AccessibilityEvaluator images_api (load images_api images_html)
       = Inr (found, passed) \<and>
     map i_rule found = [''WCAG 1.1.1''] \<and>
     passed = [''WCAG: headings-structure'', ''WCAG: form-labels'', ''ARIA: aria-required-attr'',
               ''ARIA: aria-valid-values'']"
  by (simp add: evaluator_defs registry images_api_def images_document_def)

lemma rule_enhanceIssue:
  "i_rule (ExplanationGenerator_enhanceIssue explanationMap issue) = i_rule issue"
  by (simp add: ExplanationGenerator_enhanceIssue_def spread_explanation_def split: option.splits)

theorem axe_failure_contained_witness:
  "axe_fails failing_axe images_html \<and>
   (\<exists>res found passed.
      run_rules new_AccessibilityEvaluator images_api (load images_api images_html)
        = Inr (found, passed) \<and>
      evaluateHTML new_AccessibilityEvaluator images_api failing_axe example_explanations
        images_html = Inr res \<and>
      map i_rule (issues res) = [''WCAG 1.1.1''] \<and>
      passedChecks res = [''WCAG: headings-structure'', ''WCAG: form-labels'',
                          ''ARIA: aria-required-attr'', ''ARIA: aria-valid-values''] \<and>
      totalIssues (summary res) = 1 \<and>
      filter (\<lambda>i. i_standard i = ''AXE'') (issues res) = [] \<and>
      byStandard (summary res) ''AXE'' = None)"
proof -
  have fails: "axe_fails failing_axe images_html"
    by (simp add: axe_fails_def failing_axe_def)
  obtain found passed where run:
    "run_rules new_AccessibilityEvaluator images_api (load images_api images_html)
       = Inr (found, passed)"
    and found: "map i_rule found = [''WCAG 1.1.1'']"
    and passed: "passed = [''WCAG: headings-structure'', ''WCAG: form-labels'',
                           ''ARIA: aria-required-attr'', ''ARIA: aria-valid-values'']"
    using images_rules_run by (elim exE conjE)
  from axe_failure_contained [OF fails run, of example_explanations]
  obtain res where res:
    "evaluateHTML new_AccessibilityEvaluator images_api failing_axe example_explanations
        images_html = Inr res"
    "issues res = map (ExplanationGenerator_enhanceIssue example_explanations) found"
    "passedChecks res = passed"
    "totalIssues (summary res) = length found"
    "filter (\<lambda>i. i_standard i = ''AXE'') (issues res) = []"
    "byStandard (summary res) ''AXE'' = None"
    by (elim exE conjE)
  have r: "map i_rule (issues res) = [''WCAG 1.1.1'']"
    using found by (simp add: res(2) comp_def rule_enhanceIssue)
  have n: "totalIssues (summary res) = 1"
    using arg_cong [OF found, of length] res(4) by simp
  from fails run res r n passed show ?thesis
    by (intro conjI exI [of _ res] exI [of _ found] exI [of _ passed]) simp_all
qed

section \<open>The score\<close>

subsection \<open>Rounding to a double\<close>

lemma pow2_powi: "pow2 e = 2 powi e"
  by (simp add: pow2_def power_int_def inverse_eq_divide power_one_over)

lemma pow2_pos: "0 < pow2 e"
  by (simp add: pow2_powi)

lemma pow2_add: "pow2 (a + b) = pow2 a * pow2 b"
  by (simp add: pow2_powi power_int_add)

lemma pow2_diff: "pow2 (a - b) = pow2 a / pow2 b"
  by (simp add: pow2_powi power_int_diff)

lemma pow2_nat: "0 \<le> e \<Longrightarrow> pow2 e = 2 ^ nat e"
  by (simp add: pow2_def)

lemma of_int_bitlen_bounds:
  assumes "0 < (a::int)"
  shows "pow2 (bitlen a - 1) \<le> of_int a \<and> (of_int a :: rat) < pow2 (bitlen a)"
proof -
  from bitlen_bounds [OF assms]
  have l: "2 ^ nat (bitlen a - 1) \<le> a" and u: "a < 2 ^ nat (bitlen a)" by simp_all
  have pos: "1 \<le> bitlen a" using assms by (auto simp: bitlen_alt_def)
  have "(of_int (2 ^ nat (bitlen a - 1)) :: rat) \<le> of_int a" using l by (simp only: of_int_le_iff)
  moreover have "(of_int a :: rat) < of_int (2 ^ nat (bitlen a))" using u by (simp only: of_int_less_iff)
  ultimately show ?thesis using pos by (simp add: pow2_nat)
qed

lemma floor_log2_bounds:
  assumes "0 < x"
  shows "pow2 (floor_log2 x) \<le> x \<and> x < pow2 (floor_log2 x + 1)"
proof -
  obtain a b where q: "quotient_of x = (a, b)" by (cases "quotient_of x")
  have b: "0 < b" using q by (rule quotient_of_denom_pos)
  have x: "x = of_int a / of_int b" using q by (rule quotient_of_div)
  have a: "0 < a" using assms b x by (simp add: zero_less_divide_iff)
  let ?d = "bitlen a - bitlen b"
  from of_int_bitlen_bounds [OF a] of_int_bitlen_bounds [OF b]
  have la: "pow2 (bitlen a - 1) \<le> of_int a" and ua: "(of_int a :: rat) < pow2 (bitlen a)"
    and lb: "pow2 (bitlen b - 1) \<le> of_int b" and ub: "(of_int b :: rat) < pow2 (bitlen b)"
    by simp_all
  have bpos: "(0::rat) < of_int b" using b by simp
  have lower: "pow2 (?d - 1) \<le> x"
  proof -
    have "pow2 (?d - 1) * of_int b \<le> pow2 (?d - 1) * pow2 (bitlen b)"
      using ub pow2_pos [of "?d - 1"] by (simp add: less_imp_le)
    also have "\<dots> = pow2 (bitlen a - 1)"
      by (simp add: pow2_add [symmetric])
    also have "\<dots> \<le> of_int a" by (rule la)
    finally show ?thesis using bpos by (simp add: x pos_le_divide_eq)
  qed
  have upper: "x < pow2 (?d + 1)"
  proof -
    have "of_int a < pow2 (bitlen a)" by (rule ua)
    also have "\<dots> = pow2 (?d + 1) * pow2 (bitlen b - 1)"
      by (simp add: pow2_add [symmetric])
    also have "\<dots> \<le> pow2 (?d + 1) * of_int b"
      using lb pow2_pos [of "?d + 1"] by simp
    finally show ?thesis using bpos by (simp add: x pos_divide_less_eq)
  qed
  show ?thesis
  proof (cases "pow2 ?d \<le> x")
    case True
    then have "floor_log2 x = ?d" by (simp add: floor_log2_def q)
    with True upper show ?thesis by simp
  next
    case False
    then have "floor_log2 x = ?d - 1" by (simp add: floor_log2_def q)
    with False lower show ?thesis by simp
  qed
qed

lemma round_half_even_error: "\<bar>of_int (round_half_even z) - z\<bar> \<le> 1 / 2"
proof -
  have "of_int \<lfloor>z\<rfloor> \<le> z" "z < of_int \<lfloor>z\<rfloor> + 1" by linarith+
  then show ?thesis by (auto simp: round_half_even_def Let_def)
qed

lemma to_double_error:
  assumes "0 < x"
  shows "\<bar>to_double x - x\<bar> \<le> x / 2 ^ 53"
proof -
  let ?e = "floor_log2 x - 52"
  let ?z = "x / pow2 ?e"
  have td: "to_double x = of_int (round_half_even ?z) * pow2 ?e"
    using assms by (simp add: to_double_def Let_def)
  have "to_double x - x = (of_int (round_half_even ?z) - ?z) * pow2 ?e"
    using pow2_pos [of ?e] by (simp add: td algebra_simps)
  then have "\<bar>to_double x - x\<bar> = \<bar>of_int (round_half_even ?z) - ?z\<bar> * pow2 ?e"
    using pow2_pos [of ?e] by (simp add: abs_mult)
  also have "\<dots> \<le> 1 / 2 * pow2 ?e"
    using round_half_even_error [of ?z] pow2_pos [of ?e] by (simp add: mult_right_mono)
  also have "\<dots> = pow2 (floor_log2 x) / 2 ^ 53"
    by (simp add: pow2_diff pow2_nat)
  also have "\<dots> \<le> x / 2 ^ 53"
    using floor_log2_bounds [OF assms] by (simp add: divide_right_mono)
  finally show ?thesis .
qed

subsection \<open>The percentage of up to fifteen criteria\<close>

lemma floor_half: "\<lfloor>1 / 2 :: rat\<rfloor> = 0"
  by (rule floor_unique) simp_all

lemma percent_zero: "percent 0 t = 0"
  by (simp add: percent_def js_div_def js_mul_def to_double_def Math_round_def floor_half)

lemma abs_scale: "\<bar>100 * (a::rat)\<bar> = 100 * \<bar>a\<bar>"
  by (simp add: abs_mult)

lemma product_error:
  assumes "0 < p" "p \<le> t"
  shows "\<bar>js_mul (js_div (of_nat p) (of_nat t)) 100 - 100 * (of_nat p / of_nat t)\<bar> < 1 / 2 ^ 40"
proof -
  let ?x = "of_nat p / of_nat t :: rat"
  let ?q = "to_double ?x"
  let ?y = "to_double (?q * 100)"
  have t: "0 < t" using assms by simp
  have x0: "0 < ?x" using assms t by simp
  have x1: "?x \<le> 1" using assms t by (simp add: divide_le_eq)
  have eq: "\<bar>?q - ?x\<bar> \<le> ?x / 2 ^ 53" using x0 by (rule to_double_error)
  have "?x / 2 ^ 53 \<le> 1 / 2 ^ 53" using x1 by (simp add: divide_right_mono)
  with eq have eq1: "\<bar>?q - ?x\<bar> \<le> 1 / 2 ^ 53" by linarith
  have "?x / 2 ^ 53 < ?x" using x0 by simp
  with eq have q0: "0 < ?q" by linarith
  have "(1::rat) / 2 ^ 53 \<le> 1" by simp
  with eq1 x1 have q2: "?q \<le> 2" by linarith
  have "0 < ?q * 100" using q0 by simp
  then have "\<bar>?y - ?q * 100\<bar> \<le> ?q * 100 / 2 ^ 53" by (rule to_double_error)
  also have "\<dots> \<le> 200 / 2 ^ 53" using q2 by simp
  finally have ey: "\<bar>?y - ?q * 100\<bar> \<le> 200 / 2 ^ 53" .
  have "?y - 100 * ?x = (?y - ?q * 100) + 100 * (?q - ?x)" by (simp add: algebra_simps)
  then have "\<bar>?y - 100 * ?x\<bar> \<le> \<bar>?y - ?q * 100\<bar> + \<bar>100 * (?q - ?x)\<bar>"
    by (simp only: abs_triangle_ineq)
  also have "\<bar>100 * (?q - ?x)\<bar> = 100 * \<bar>?q - ?x\<bar>" by (rule abs_scale)
  also have "\<bar>?y - ?q * 100\<bar> + 100 * \<bar>?q - ?x\<bar> \<le> 200 / 2 ^ 53 + 100 * (1 / 2 ^ 53)"
    using ey eq1 by (intro add_mono mult_left_mono) simp_all
  also have "\<dots> < 1 / 2 ^ 40" by simp
  finally show ?thesis by (simp add: js_mul_def js_div_def)
qed

lemma percent_no_tie:
  assumes "0 < p" "p \<le> t" "t \<le> 15" "(200 * p + t) mod (2 * t) \<noteq> 0"
  shows "percent p t = \<lfloor>100 * of_nat p / of_nat t + 1 / 2 :: rat\<rfloor>"
proof -
  define x :: rat where "x = of_nat p / of_nat t"
  define y where "y = js_mul (js_div (of_nat p) (of_nat t)) 100"
  define s where "s = (200 * p + t) div (2 * t)"
  define r where "r = (200 * p + t) mod (2 * t)"
  define R :: rat where "R = of_nat r / (2 * of_nat t)"
  have t: "0 < t" using assms by simp
  have r1: "1 \<le> r" using assms(4) by (simp add: r_def)
  have r2: "r + 1 \<le> 2 * t" using t by (simp add: r_def Suc_leI)
  have split: "200 * p + t = s * (2 * t) + r"
    unfolding s_def r_def by (rule div_mult_mod_eq [symmetric])
  have "(of_nat (200 * p + t) :: rat) = of_nat (s * (2 * t) + r)"
    by (simp only: split [symmetric])
  then have w: "100 * x + 1 / 2 = of_nat s + R"
    using t by (simp add: x_def R_def field_simps)
  have t30: "(1::rat) / 30 \<le> 1 / (2 * of_nat t)"
    using assms(3) t by (simp add: field_simps)
  have "(1::rat) / (2 * of_nat t) \<le> of_nat r / (2 * of_nat t)"
    using r1 t by (intro divide_right_mono) simp_all
  with t30 have lo: "1 / 30 \<le> R" unfolding R_def by linarith
  have "(of_nat (r + 1) :: rat) \<le> of_nat (2 * t)" using r2 by (simp only: of_nat_le_iff)
  then have "R \<le> 1 - 1 / (2 * of_nat t)"
    using t by (simp add: R_def field_simps)
  with t30 have hi: "R \<le> 1 - 1 / 30" by linarith
  define eps :: rat where "eps = 1 / 2 ^ 40"
  have "\<bar>y - 100 * x\<bar> < eps"
    unfolding x_def y_def eps_def using assms(1,2) by (rule product_error)
  then have e1: "- eps < y - 100 * x" and e2: "y - 100 * x < eps"
    by linarith+
  have small: "eps < 1 / 30" by (simp add: eps_def)
  have exact: "\<lfloor>100 * x + 1 / 2\<rfloor> = int s"
  proof (rule floor_unique)
    show "of_int (int s) \<le> 100 * x + 1 / 2" using w lo by simp
    show "100 * x + 1 / 2 < of_int (int s) + 1" using w hi by simp
  qed
  have approx: "\<lfloor>y + 1 / 2\<rfloor> = int s"
  proof (rule floor_unique)
    have "of_nat s \<le> y + 1 / 2" using w lo e1 small by linarith
    then show "of_int (int s) \<le> y + 1 / 2" by simp
    have "y + 1 / 2 < of_nat s + 1" using w hi e2 small by linarith
    then show "y + 1 / 2 < of_int (int s) + 1" by simp
  qed
  from exact approx show ?thesis by (simp add: percent_def Math_round_def x_def y_def)
qed

lemma tie_only_eighths:
  fixes p t :: nat
  assumes "0 < p" "p \<le> t" "t \<le> 15" "(200 * p + t) mod (2 * t) = 0"
  shows "t = 8 \<and> (p = 1 \<or> p = 3 \<or> p = 5 \<or> p = 7)"
proof -
  from assms(4) have "2 * t dvd 200 * p + t" by (simp add: dvd_eq_mod_eq_0)
  then obtain m where m: "200 * p + t = 2 * t * m" by (auto simp: dvd_def)
  have mpos: "0 < m" using m assms(1) by (cases m) auto
  then obtain n where n: "m = Suc n" by (cases m) auto
  have k: "200 * p = t * (2 * n + 1)" using m n by (simp add: algebra_simps)
  have "8 dvd 200 * p" by simp
  then have d: "8 dvd t * (2 * n + 1)" by (simp only: k)
  have c: "coprime (8::nat) (2 * n + 1)"
  proof -
    have "coprime (2::nat) (2 * n + 1)" by simp
    then have "coprime ((2::nat) ^ 3) (2 * n + 1)" by (simp only: coprime_power_left_iff) simp
    then show ?thesis by simp
  qed
  have "8 dvd t" using d by (simp only: coprime_dvd_mult_left_iff [OF c])
  then obtain j where j: "t = 8 * j" by (auto simp: dvd_def)
  have t: "t = 8" using j assms(1,2,3) by (cases j) auto
  from k t have "25 * p = 2 * n + 1" by simp
  then have "odd (25 * p)" by simp
  then have "odd p" by simp
  then obtain i where i: "p = 2 * i + 1" by (auto elim: oddE)
  have "i \<le> 3" using i assms(2) t by simp
  then have "i = 0 \<or> i = 1 \<or> i = 2 \<or> i = 3" by arith
  with i t show ?thesis by auto
qed

lemma percent_ties:
  "percent 1 8 = 13 \<and> percent 3 8 = 38 \<and> percent 5 8 = 63 \<and> percent 7 8 = 88"
  by code_simp

lemma percent_correct:
  assumes "p \<le> t" "0 < t" "t \<le> 15"
  shows "percent p t = \<lfloor>100 * of_nat p / of_nat t + 1 / 2 :: rat\<rfloor>"
proof (cases "p = 0")
  case True
  then show ?thesis by (simp add: percent_zero floor_half)
next
  case False
  then have p: "0 < p" by simp
  show ?thesis
  proof (cases "(200 * p + t) mod (2 * t) = 0")
    case False
    with p assms show ?thesis by (intro percent_no_tie) simp_all
  next
    case True
    from tie_only_eighths [OF p assms(1) assms(3) True]
    have "t = 8" "p = 1 \<or> p = 3 \<or> p = 5 \<or> p = 7" by simp_all
    moreover have "\<lfloor>100 * 1 / 8 + 1 / 2 :: rat\<rfloor> = 13" by (rule floor_unique) simp_all
    moreover have "\<lfloor>100 * 3 / 8 + 1 / 2 :: rat\<rfloor> = 38" by (rule floor_unique) simp_all
    moreover have "\<lfloor>100 * 5 / 8 + 1 / 2 :: rat\<rfloor> = 63" by (rule floor_unique) simp_all
    moreover have "\<lfloor>100 * 7 / 8 + 1 / 2 :: rat\<rfloor> = 88" by (rule floor_unique) simp_all
    ultimately show ?thesis using percent_ties by auto
  qed
qed

subsection \<open>The overall score of a report\<close>

lemma tested_at_most_fifteen:
  assumes "evaluateCompliance new_WCAGComplianceChecker er (Some t) = Inr rep"
  shows "length (passedCriteria rep) + length (failedCriteria rep) \<le> 15"
proof -
  have valid: "indexOf levelOrder t \<noteq> - 1" using assms by (rule evaluateCompliance_Inr)
  then obtain app where app: "getApplicableCriteria new_WCAGComplianceChecker t = Inr app"
    using getApplicableCriteria_filter [OF new_distinct_keys valid] by blast
  from applicable_distinct [OF app] have dist: "distinct (map snd app)" and len: "length app \<le> 15"
    by simp_all
  let ?all = "passedCriteria rep @ failedCriteria rep @ notApplicableCriteria rep"
  from fold_classify [OF evaluateCompliance_arrays [OF assms app]] dist
  have s: "set ?all = snd ` set app" and d: "distinct ?all" by simp_all
  have "length ?all = card (set ?all)" using d by (simp only: distinct_card)
  also have "\<dots> = card (snd ` set app)" by (simp only: s)
  also have "\<dots> \<le> card (set app)" by (rule card_image_le) simp
  also have "\<dots> \<le> length app" by (rule card_length)
  finally have "length ?all \<le> 15" using len by simp
  then show ?thesis by simp
qed

lemma overallScore_eq:
  assumes "evaluateCompliance this er (Some t) = Inr rep"
  shows "overallScore rep = calculateOverallScore (passedCriteria rep) (failedCriteria rep)"
  using assms
  by (auto simp: evaluateCompliance_def Let_def split: prod.splits sum.splits)

text \<open>
  C3. For every evaluation result and every valid target level, the report of the
  checker has \<open>overallScore\<close> 0 when no criterion passed or failed, and otherwise the
  percentage \<open>100 * passed / (passed + failed)\<close> rounded to the nearest integer, a half
  rounding up. The code computes \<open>Math.round((passed / total) * 100)\<close> in doubles; the
  checker tests at most fifteen criteria, and for those counts the double computation
  and the exact one agree.
\<close>

theorem overall_score_rounds:
  assumes "evaluateCompliance new_WCAGComplianceChecker er (Some t) = Inr rep"
  shows "overallScore rep =
     (if length (passedCriteria rep) + length (failedCriteria rep) = 0 then 0
      else \<lfloor>100 * of_nat (length (passedCriteria rep))
               / of_nat (length (passedCriteria rep) + length (failedCriteria rep))
             + 1 / 2 :: rat\<rfloor>)"
proof (cases "length (passedCriteria rep) + length (failedCriteria rep) = 0")
  case True
  then show ?thesis
    by (simp add: overallScore_eq [OF assms] calculateOverallScore_def)
next
  case False
  let ?p = "length (passedCriteria rep)"
  let ?n = "length (passedCriteria rep) + length (failedCriteria rep)"
  have "overallScore rep = percent ?p ?n"
    using False by (auto simp: overallScore_eq [OF assms] calculateOverallScore_def Let_def)
  also have "\<dots> = \<lfloor>100 * of_nat ?p / of_nat ?n + 1 / 2 :: rat\<rfloor>"
    using False tested_at_most_fifteen [OF assms] by (intro percent_correct) simp_all
  finally show ?thesis by (simp only: False if_False)
qed

theorem overall_score_rounds_witness:
  "\<exists>rep. evaluateCompliance new_WCAGComplianceChecker example_result (Some ''AA'') = Inr rep \<and>
     length (passedCriteria rep) = 1 \<and> length (failedCriteria rep) = 1 \<and>
     overallScore rep = 50"
proof -
  obtain rep where rep:
    "evaluateCompliance new_WCAGComplianceChecker example_result (Some ''AA'') = Inr rep"
    "map c_id (failedCriteria rep) = [''1.1.1'']"
    "map c_id (passedCriteria rep) = [''1.4.3'']"
    using example_evaluated by (elim exE conjE)
  have f: "length (failedCriteria rep) = 1" using arg_cong [OF rep(2), of length] by simp
  have p: "length (passedCriteria rep) = 1" using arg_cong [OF rep(3), of length] by simp
  have "\<lfloor>100 * 1 / 2 + 1 / 2 :: rat\<rfloor> = 50" by (rule floor_unique) simp_all
  with overall_score_rounds [OF rep(1)] p f have "overallScore rep = 50" by simp
  with rep(1) p f show ?thesis by (intro exI [of _ rep]) simp
qed

end
